theory Spec2Isabelle
  imports Main
begin

section \<open>Data exchanged with the Nautobot API\<close>

text \<open>
  The script \<^verbatim>\<open>day15-pynautobot-api.py\<close> talks to a Nautobot server through the
  pynautobot client. Identifiers are opaque (UUIDs on the wire); they are natural numbers
  here. A request body or a set of keyword filters is a Python dict: an association list
  from keys to JSON values.
\<close>

type_synonym ident = nat

datatype jvalue = JStr string | JId ident | JList "string list"

type_synonym jdict = "(string \<times> jvalue) list"

text \<open>
  The records the client returns, one type per collection, with the attributes the REST
  schema gives them. The script reads \<^verbatim>\<open>.id\<close>, \<^verbatim>\<open>.name\<close>, \<^verbatim>\<open>.model\<close>,
  \<^verbatim>\<open>.status\<close> and, on a device, the nested records \<^verbatim>\<open>.location\<close>,
  \<^verbatim>\<open>.role\<close> and \<^verbatim>\<open>.device_type\<close>.
\<close>

record location_type =
  lt_id :: ident
  lt_name :: string
  lt_description :: string
  lt_content_types :: "string list"

record location =
  loc_id :: ident
  loc_name :: string
  loc_location_type :: ident
  loc_status :: string

record manufacturer =
  mf_id :: ident
  mf_name :: string

record device_type =
  dt_id :: ident
  dt_model :: string
  dt_manufacturer :: ident

record role =
  role_id :: ident
  role_name :: string
  role_description :: string
  role_content_types :: "string list"

record device =
  dev_id :: ident
  dev_name :: string
  dev_device_type :: device_type
  dev_role :: role
  dev_location :: location
  dev_status :: string

section \<open>The client, exceptions and the observable behaviour of a run\<close>

text \<open>
  \<^verbatim>\<open>pynautobot.core.query.RequestError\<close> is the only exception the script names;
  every other exception a client call may raise (a \<^verbatim>\<open>ValueError\<close>, a connection
  error) is \<open>OtherException\<close>. The string is what \<^verbatim>\<open>str(e)\<close> gives.
\<close>

datatype exn = RequestError string | OtherException string

datatype endpoint =
  Dcim_location_types | Dcim_locations | Dcim_manufacturers
  | Dcim_device_types | Extras_roles | Dcim_devices

text \<open>
  The object \<^verbatim>\<open>nb\<close>: for each of the six collections a \<^verbatim>\<open>get\<close>, which returns
  a record, returns \<^verbatim>\<open>None\<close> or raises, and a \<^verbatim>\<open>create\<close>, which returns the new
  record or raises and may change the remote state \<open>'s\<close>. The client is a parameter of
  every function of the script, as \<^verbatim>\<open>nb\<close> is in the source. A record is a truthy
  Python object, so \<^verbatim>\<open>if location_type:\<close> is the test for \<open>Some\<close>.
\<close>

record 's nautobot =
  dcim_location_types_get :: "jdict \<Rightarrow> 's \<Rightarrow> exn + location_type option"
  dcim_location_types_create :: "jdict \<Rightarrow> 's \<Rightarrow> (exn + location_type) \<times> 's"
  dcim_locations_get :: "jdict \<Rightarrow> 's \<Rightarrow> exn + location option"
  dcim_locations_create :: "jdict \<Rightarrow> 's \<Rightarrow> (exn + location) \<times> 's"
  dcim_manufacturers_get :: "jdict \<Rightarrow> 's \<Rightarrow> exn + manufacturer option"
  dcim_manufacturers_create :: "jdict \<Rightarrow> 's \<Rightarrow> (exn + manufacturer) \<times> 's"
  dcim_device_types_get :: "jdict \<Rightarrow> 's \<Rightarrow> exn + device_type option"
  dcim_device_types_create :: "jdict \<Rightarrow> 's \<Rightarrow> (exn + device_type) \<times> 's"
  extras_roles_get :: "jdict \<Rightarrow> 's \<Rightarrow> exn + role option"
  extras_roles_create :: "jdict \<Rightarrow> 's \<Rightarrow> (exn + role) \<times> 's"
  dcim_devices_get :: "jdict \<Rightarrow> 's \<Rightarrow> exn + device option"
  dcim_devices_create :: "jdict \<Rightarrow> 's \<Rightarrow> (exn + device) \<times> 's"

text \<open>
  What a run does that can be seen from outside: the construction of the client, the
  calls on it with the way each ended, and the lines printed.
\<close>

datatype response = Ok | Raised exn

datatype event =
  ApiInit string string
  | Get endpoint jdict response
  | Create endpoint jdict response
  | Print string

text \<open>
  A function of the script returns a value, leaves through \<^verbatim>\<open>sys.exit\<close> with a
  status, or lets an exception escape. A run gives this outcome, the events in order and
  the remote state it leaves.
\<close>

datatype 'a outcome = Return 'a | SysExit nat | Raise exn

type_synonym ('a, 's) run = "'a outcome \<times> event list \<times> 's"

text \<open>
  One step after another: the second step runs on the value and the remote state of the
  first; an exit or an escaping exception of the first ends the run there.
\<close>

definition and_then :: "('s \<Rightarrow> ('a, 's) run) \<Rightarrow> ('a \<Rightarrow> 's \<Rightarrow> ('b, 's) run) \<Rightarrow> 's \<Rightarrow> ('b, 's) run" where
  "and_then m f s =
     (case m s of
        (Return x, t, s') \<Rightarrow> (case f x s' of (r, t', s'') \<Rightarrow> (r, t @ t', s''))
      | (SysExit c, t, s') \<Rightarrow> (SysExit c, t, s')
      | (Raise e, t, s') \<Rightarrow> (Raise e, t, s'))"

definition quoted :: "string \<Rightarrow> string" where
  "quoted x = [CHR 0x27] @ x @ [CHR 0x27]"

section \<open>The six resolvers\<close>

definition get_or_create_location_type ::
  "'s nautobot \<Rightarrow> string \<Rightarrow> 's \<Rightarrow> (location_type, 's) run" where
  "get_or_create_location_type nb location_type_name s =
     (let q = [(''name'', JStr location_type_name)] in
      case dcim_location_types_get nb q s of
        Inl e \<Rightarrow> (Raise e, [Get Dcim_location_types q (Raised e)], s)
      | Inr (Some location_type) \<Rightarrow>
          (Return location_type,
           [Get Dcim_location_types q Ok,
            Print (''[INFO] Found existing location type: '' @ lt_name location_type)], s)
      | Inr None \<Rightarrow>
          (let p = [(''name'', JStr location_type_name),
                    (''description'', JStr (''Created by script for '' @ location_type_name)),
                    (''content_types'', JList [''dcim.device''])];
               t = [Get Dcim_location_types q Ok,
                    Print (''[INFO] Creating location type '' @ quoted location_type_name @ ''...'')]
           in case dcim_location_types_create nb p s of
                (Inr location_type, s') \<Rightarrow>
                  (Return location_type, t @ [Create Dcim_location_types p Ok], s')
              | (Inl (RequestError e), s') \<Rightarrow>
                  (SysExit 1,
                   t @ [Create Dcim_location_types p (Raised (RequestError e)),
                        Print (''[ERROR] Failed to create location type ''
                               @ quoted location_type_name @ '': '' @ e)], s')
              | (Inl x, s') \<Rightarrow> (Raise x, t @ [Create Dcim_location_types p (Raised x)], s')))"

definition get_or_create_location ::
  "'s nautobot \<Rightarrow> string \<Rightarrow> location_type \<Rightarrow> 's \<Rightarrow> (location, 's) run" where
  "get_or_create_location nb location_name location_type s =
     (let q = [(''name'', JStr location_name)] in
      case dcim_locations_get nb q s of
        Inl e \<Rightarrow> (Raise e, [Get Dcim_locations q (Raised e)], s)
      | Inr (Some location) \<Rightarrow>
          (Return location,
           [Get Dcim_locations q Ok,
            Print (''[INFO] Found existing location: '' @ loc_name location)], s)
      | Inr None \<Rightarrow>
          (let p = [(''name'', JStr location_name),
                    (''location_type'', JId (lt_id location_type)),
                    (''status'', JStr ''Active'')];
               t = [Get Dcim_locations q Ok,
                    Print (''[INFO] Creating location '' @ quoted location_name
                           @ '' with type '' @ quoted (lt_name location_type) @ ''...'')]
           in case dcim_locations_create nb p s of
                (Inr location, s') \<Rightarrow> (Return location, t @ [Create Dcim_locations p Ok], s')
              | (Inl (RequestError e), s') \<Rightarrow>
                  (SysExit 1,
                   t @ [Create Dcim_locations p (Raised (RequestError e)),
                        Print (''[ERROR] Failed to create location ''
                               @ quoted location_name @ '': '' @ e)], s')
              | (Inl x, s') \<Rightarrow> (Raise x, t @ [Create Dcim_locations p (Raised x)], s')))"

definition get_or_create_manufacturer ::
  "'s nautobot \<Rightarrow> string \<Rightarrow> 's \<Rightarrow> (manufacturer, 's) run" where
  "get_or_create_manufacturer nb manufacturer_name s =
     (let q = [(''name'', JStr manufacturer_name)] in
      case dcim_manufacturers_get nb q s of
        Inl e \<Rightarrow> (Raise e, [Get Dcim_manufacturers q (Raised e)], s)
      | Inr (Some manufacturer) \<Rightarrow>
          (Return manufacturer,
           [Get Dcim_manufacturers q Ok,
            Print (''[INFO] Found existing manufacturer: '' @ mf_name manufacturer)], s)
      | Inr None \<Rightarrow>
          (let p = [(''name'', JStr manufacturer_name)];
               t = [Get Dcim_manufacturers q Ok,
                    Print (''[INFO] Creating manufacturer '' @ quoted manufacturer_name @ ''...'')]
           in case dcim_manufacturers_create nb p s of
                (Inr manufacturer, s') \<Rightarrow>
                  (Return manufacturer, t @ [Create Dcim_manufacturers p Ok], s')
              | (Inl (RequestError e), s') \<Rightarrow>
                  (SysExit 1,
                   t @ [Create Dcim_manufacturers p (Raised (RequestError e)),
                        Print (''[ERROR] Failed to create manufacturer ''
                               @ quoted manufacturer_name @ '': '' @ e)], s')
              | (Inl x, s') \<Rightarrow> (Raise x, t @ [Create Dcim_manufacturers p (Raised x)], s')))"

text \<open>
  The device-type resolver wraps its lookup in \<^verbatim>\<open>try ... except RequestError\<close> and
  carries on with \<^verbatim>\<open>device_type = None\<close>; any other exception still escapes.
\<close>

definition get_or_create_device_type ::
  "'s nautobot \<Rightarrow> string \<Rightarrow> manufacturer \<Rightarrow> 's \<Rightarrow> (device_type, 's) run" where
  "get_or_create_device_type nb device_type_model manufacturer s =
     (let q = [(''model'', JStr device_type_model),
               (''manufacturer'', JId (mf_id manufacturer))];
          p = [(''model'', JStr device_type_model),
               (''manufacturer'', JId (mf_id manufacturer))];
          creating = Print (''[INFO] Creating device type '' @ quoted device_type_model
                            @ '' for manufacturer '' @ quoted (mf_name manufacturer) @ ''...'');
          make = (\<lambda>t. case dcim_device_types_create nb p s of
                    (Inr device_type, s') \<Rightarrow>
                      (Return device_type, t @ [Create Dcim_device_types p Ok], s')
                  | (Inl (RequestError e), s') \<Rightarrow>
                      (SysExit 1,
                       t @ [Create Dcim_device_types p (Raised (RequestError e)),
                            Print (''[ERROR] Failed to create device type ''
                                   @ quoted device_type_model @ '': '' @ e)], s')
                  | (Inl x, s') \<Rightarrow> (Raise x, t @ [Create Dcim_device_types p (Raised x)], s'))
      in case dcim_device_types_get nb q s of
           Inl (RequestError e) \<Rightarrow>
             make [Get Dcim_device_types q (Raised (RequestError e)), creating]
         | Inl x \<Rightarrow> (Raise x, [Get Dcim_device_types q (Raised x)], s)
         | Inr (Some device_type) \<Rightarrow>
             (Return device_type,
              [Get Dcim_device_types q Ok,
               Print (''[INFO] Found existing device type: '' @ dt_model device_type)], s)
         | Inr None \<Rightarrow> make [Get Dcim_device_types q Ok, creating])"

definition get_or_create_role :: "'s nautobot \<Rightarrow> string \<Rightarrow> 's \<Rightarrow> (role, 's) run" where
  "get_or_create_role nb role_name' s =
     (let q = [(''name'', JStr role_name')] in
      case extras_roles_get nb q s of
        Inl e \<Rightarrow> (Raise e, [Get Extras_roles q (Raised e)], s)
      | Inr (Some role) \<Rightarrow>
          (Return role,
           [Get Extras_roles q Ok,
            Print (''[INFO] Found existing role: '' @ role_name role)], s)
      | Inr None \<Rightarrow>
          (let p = [(''name'', JStr role_name'),
                    (''description'', JStr (''Device role for '' @ role_name')),
                    (''content_types'', JList [''dcim.device''])];
               t = [Get Extras_roles q Ok,
                    Print (''[INFO] Creating role '' @ quoted role_name' @ '' for devices...'')]
           in case extras_roles_create nb p s of
                (Inr role, s') \<Rightarrow> (Return role, t @ [Create Extras_roles p Ok], s')
              | (Inl (RequestError e), s') \<Rightarrow>
                  (SysExit 1,
                   t @ [Create Extras_roles p (Raised (RequestError e)),
                        Print (''[ERROR] Failed to create role ''
                               @ quoted role_name' @ '': '' @ e)], s')
              | (Inl x, s') \<Rightarrow> (Raise x, t @ [Create Extras_roles p (Raised x)], s')))"

definition create_device ::
  "'s nautobot \<Rightarrow> string \<Rightarrow> location \<Rightarrow> device_type \<Rightarrow> role \<Rightarrow> 's \<Rightarrow> (device, 's) run" where
  "create_device nb device_name location device_type role s =
     (let q = [(''name'', JStr device_name), (''location'', JId (loc_id location))] in
      case dcim_devices_get nb q s of
        Inl e \<Rightarrow> (Raise e, [Get Dcim_devices q (Raised e)], s)
      | Inr (Some existing_device) \<Rightarrow>
          (Return existing_device,
           [Get Dcim_devices q Ok,
            Print (''[WARNING] Device '' @ quoted device_name
                   @ '' already exists at location '' @ quoted (loc_name location) @ ''.'')], s)
      | Inr None \<Rightarrow>
          (let p = [(''name'', JStr device_name),
                    (''device_type'', JId (dt_id device_type)),
                    (''role'', JId (role_id role)),
                    (''location'', JId (loc_id location)),
                    (''status'', JStr ''Active'')];
               t = [Get Dcim_devices q Ok,
                    Print (''[INFO] Creating new device '' @ quoted device_name @ ''...'')]
           in case dcim_devices_create nb p s of
                (Inr new_device, s') \<Rightarrow> (Return new_device, t @ [Create Dcim_devices p Ok], s')
              | (Inl (RequestError e), s') \<Rightarrow>
                  (SysExit 1,
                   t @ [Create Dcim_devices p (Raised (RequestError e)),
                        Print (''[ERROR] Failed to create device ''
                               @ quoted device_name @ '': '' @ e)], s')
              | (Inl x, s') \<Rightarrow> (Raise x, t @ [Create Dcim_devices p (Raised x)], s')))"

section \<open>The orchestrator\<close>

text \<open>
  \<^verbatim>\<open>os.environ.get\<close> gives \<^verbatim>\<open>None\<close> for an unset variable, and \<^verbatim>\<open>not x\<close>
  holds of \<^verbatim>\<open>None\<close> and of the empty string.
\<close>

definition falsy :: "string option \<Rightarrow> bool" where
  "falsy x = (case x of None \<Rightarrow> True | Some v \<Rightarrow> v = [])"

text \<open>
  The last block of \<^verbatim>\<open>main\<close>; its guard \<^verbatim>\<open>if new_device:\<close> holds of every record.
\<close>

definition summary :: "device \<Rightarrow> event list" where
  "summary new_device =
     [Print ''[SUCCESS] Device created or retrieved successfully:'',
      Print (''  Name:     '' @ dev_name new_device),
      Print (''  Location: '' @ loc_name (dev_location new_device)),
      Print (''  Role:     '' @ role_name (dev_role new_device)),
      Print (''  Type:     '' @ dt_model (dev_device_type new_device)),
      Print (''  Status:   '' @ dev_status new_device)]"

text \<open>
  The six steps of \<^verbatim>\<open>main\<close> once the client exists, each taking the results of
  the earlier ones, and the summary at the end.
\<close>

definition pipeline :: "'s nautobot \<Rightarrow> 's \<Rightarrow> (unit, 's) run" where
  "pipeline nb =
     and_then (get_or_create_location_type nb ''Campus'') (\<lambda>loc_type.
     and_then (get_or_create_location nb ''MyCampusLocation'' loc_type) (\<lambda>location.
     and_then (get_or_create_manufacturer nb ''Cisco'') (\<lambda>manufacturer.
     and_then (get_or_create_device_type nb ''C9300-48P'' manufacturer) (\<lambda>device_type.
     and_then (get_or_create_role nb ''Access Switch'') (\<lambda>role.
     and_then (create_device nb ''myswitch001'' location device_type role) (\<lambda>new_device s.
       (Return (), summary new_device, s)))))))"

text \<open>
  \<open>environ\<close> is \<^verbatim>\<open>os.environ\<close> and \<open>pynautobot_api\<close> the constructor
  \<^verbatim>\<open>pynautobot.api(url=..., token=...)\<close>. Returning from \<open>main\<close> ends the process
  with status 0.
\<close>

definition main ::
  "(string \<rightharpoonup> string) \<Rightarrow> (string \<Rightarrow> string \<Rightarrow> 's nautobot) \<Rightarrow> 's \<Rightarrow> (unit, 's) run" where
  "main environ pynautobot_api s =
     (let nautobot_url = environ ''NAUTOBOT_API_URL'';
          nautobot_token = environ ''NAUTOBOT_API_TOKEN''
      in if falsy nautobot_url \<or> falsy nautobot_token
         then (SysExit 1,
               [Print ''[ERROR] Missing NAUTOBOT_API_URL or NAUTOBOT_API_TOKEN environment variable.''],
               s)
         else (case pipeline (pynautobot_api (the nautobot_url) (the nautobot_token)) s of
                 (r, t, s') \<Rightarrow> (r, ApiInit (the nautobot_url) (the nautobot_token) # t, s')))"

section \<open>A reference remote system\<close>

text \<open>
  Modelled from the spec: the Nautobot server and the pynautobot client are not part of
  the repository. The server holds the six collections of section 3 of the specification,
  a \<^verbatim>\<open>create\<close> stores the record built from the request body under a fresh
  identifier, and a \<^verbatim>\<open>get\<close> filters a collection by the keyword arguments. Which
  queries and which request bodies the server refuses is a parameter (\<open>policy\<close>): a
  refusal is a \<^verbatim>\<open>RequestError\<close> with the given message. As pynautobot's
  \<^verbatim>\<open>Endpoint.get\<close> does, a filter that matches more than one record raises
  \<^verbatim>\<open>ValueError\<close>.
\<close>

record server =
  srv_location_types :: "location_type list"
  srv_locations :: "location list"
  srv_manufacturers :: "manufacturer list"
  srv_device_types :: "device_type list"
  srv_roles :: "role list"
  srv_devices :: "device list"
  srv_next_id :: ident

record policy =
  query_error :: "endpoint \<Rightarrow> jdict \<Rightarrow> string option"
  create_error :: "endpoint \<Rightarrow> jdict \<Rightarrow> string option"

definition location_type_fields :: "location_type \<Rightarrow> jdict" where
  "location_type_fields r =
     [(''id'', JId (lt_id r)), (''name'', JStr (lt_name r)),
      (''description'', JStr (lt_description r)),
      (''content_types'', JList (lt_content_types r))]"

definition location_fields :: "location \<Rightarrow> jdict" where
  "location_fields r =
     [(''id'', JId (loc_id r)), (''name'', JStr (loc_name r)),
      (''location_type'', JId (loc_location_type r)), (''status'', JStr (loc_status r))]"

definition manufacturer_fields :: "manufacturer \<Rightarrow> jdict" where
  "manufacturer_fields r = [(''id'', JId (mf_id r)), (''name'', JStr (mf_name r))]"

definition device_type_fields :: "device_type \<Rightarrow> jdict" where
  "device_type_fields r =
     [(''id'', JId (dt_id r)), (''model'', JStr (dt_model r)),
      (''manufacturer'', JId (dt_manufacturer r))]"

definition role_fields :: "role \<Rightarrow> jdict" where
  "role_fields r =
     [(''id'', JId (role_id r)), (''name'', JStr (role_name r)),
      (''description'', JStr (role_description r)),
      (''content_types'', JList (role_content_types r))]"

definition device_fields :: "device \<Rightarrow> jdict" where
  "device_fields r =
     [(''id'', JId (dev_id r)), (''name'', JStr (dev_name r)),
      (''device_type'', JId (dt_id (dev_device_type r))),
      (''role'', JId (role_id (dev_role r))),
      (''location'', JId (loc_id (dev_location r))),
      (''status'', JStr (dev_status r))]"

definition matches :: "jdict \<Rightarrow> jdict \<Rightarrow> bool" where
  "matches q attrs = list_all (\<lambda>(k, v). map_of attrs k = Some v) q"

definition too_many :: exn where
  "too_many = OtherException ''ValueError: get() returned more than one result.''"

definition lookup ::
  "policy \<Rightarrow> endpoint \<Rightarrow> ('a \<Rightarrow> jdict) \<Rightarrow> jdict \<Rightarrow> 'a list \<Rightarrow> exn + 'a option" where
  "lookup pol ep attrs q rows =
     (case query_error pol ep q of
        Some e \<Rightarrow> Inl (RequestError e)
      | None \<Rightarrow>
          (case filter (\<lambda>r. matches q (attrs r)) rows of
             [] \<Rightarrow> Inr None
           | [r] \<Rightarrow> Inr (Some r)
           | _ \<Rightarrow> Inl too_many))"

definition str_field :: "jdict \<Rightarrow> string \<Rightarrow> string option" where
  "str_field p k = (case map_of p k of Some (JStr v) \<Rightarrow> Some v | _ \<Rightarrow> None)"

definition id_field :: "jdict \<Rightarrow> string \<Rightarrow> ident option" where
  "id_field p k = (case map_of p k of Some (JId v) \<Rightarrow> Some v | _ \<Rightarrow> None)"

definition list_field :: "jdict \<Rightarrow> string \<Rightarrow> string list option" where
  "list_field p k = (case map_of p k of Some (JList v) \<Rightarrow> Some v | _ \<Rightarrow> None)"

definition bad_request :: exn where
  "bad_request = RequestError ''400 Bad Request''"

text \<open>
  The six parsers of a request body: the record to store under identifier \<open>i\<close>, or
  nothing when a field is missing, ill-typed or names a record the server does not hold.
\<close>

definition new_location_type :: "ident \<Rightarrow> jdict \<Rightarrow> location_type option" where
  "new_location_type i p =
     (case (str_field p ''name'', str_field p ''description'', list_field p ''content_types'') of
        (Some n, Some d, Some c) \<Rightarrow>
          Some \<lparr>lt_id = i, lt_name = n, lt_description = d, lt_content_types = c\<rparr>
      | _ \<Rightarrow> None)"

definition new_location :: "ident \<Rightarrow> jdict \<Rightarrow> location option" where
  "new_location i p =
     (case (str_field p ''name'', id_field p ''location_type'', str_field p ''status'') of
        (Some n, Some t, Some st) \<Rightarrow>
          Some \<lparr>loc_id = i, loc_name = n, loc_location_type = t, loc_status = st\<rparr>
      | _ \<Rightarrow> None)"

definition new_manufacturer :: "ident \<Rightarrow> jdict \<Rightarrow> manufacturer option" where
  "new_manufacturer i p =
     (case str_field p ''name'' of
        Some n \<Rightarrow> Some \<lparr>mf_id = i, mf_name = n\<rparr>
      | None \<Rightarrow> None)"

definition new_device_type :: "ident \<Rightarrow> jdict \<Rightarrow> device_type option" where
  "new_device_type i p =
     (case (str_field p ''model'', id_field p ''manufacturer'') of
        (Some m, Some mf) \<Rightarrow> Some \<lparr>dt_id = i, dt_model = m, dt_manufacturer = mf\<rparr>
      | _ \<Rightarrow> None)"

definition new_role :: "ident \<Rightarrow> jdict \<Rightarrow> role option" where
  "new_role i p =
     (case (str_field p ''name'', str_field p ''description'', list_field p ''content_types'') of
        (Some n, Some d, Some c) \<Rightarrow>
          Some \<lparr>role_id = i, role_name = n, role_description = d, role_content_types = c\<rparr>
      | _ \<Rightarrow> None)"

definition by_id :: "('a \<Rightarrow> ident) \<Rightarrow> 'a list \<Rightarrow> ident option \<Rightarrow> 'a option" where
  "by_id ident_of rows i =
     (case i of None \<Rightarrow> None | Some j \<Rightarrow> find (\<lambda>r. ident_of r = j) rows)"

definition new_device :: "server \<Rightarrow> ident \<Rightarrow> jdict \<Rightarrow> device option" where
  "new_device s i p =
     (case (str_field p ''name'',
            by_id dt_id (srv_device_types s) (id_field p ''device_type''),
            by_id role_id (srv_roles s) (id_field p ''role''),
            by_id loc_id (srv_locations s) (id_field p ''location''),
            str_field p ''status'') of
        (Some n, Some t, Some r, Some l, Some st) \<Rightarrow>
          Some \<lparr>dev_id = i, dev_name = n, dev_device_type = t, dev_role = r,
                dev_location = l, dev_status = st\<rparr>
      | _ \<Rightarrow> None)"

definition store ::
  "policy \<Rightarrow> endpoint \<Rightarrow> jdict \<Rightarrow> 'a option \<Rightarrow> ('a \<Rightarrow> server \<Rightarrow> server) \<Rightarrow> server
     \<Rightarrow> (exn + 'a) \<times> server" where
  "store pol ep p parsed add s =
     (case create_error pol ep p of
        Some e \<Rightarrow> (Inl (RequestError e), s)
      | None \<Rightarrow>
          (case parsed of
             None \<Rightarrow> (Inl bad_request, s)
           | Some r \<Rightarrow> (Inr r, (add r s)\<lparr>srv_next_id := Suc (srv_next_id s)\<rparr>)))"

definition reference_api :: "policy \<Rightarrow> server nautobot" where
  "reference_api pol =
     \<lparr>dcim_location_types_get =
        (\<lambda>q s. lookup pol Dcim_location_types location_type_fields q (srv_location_types s)),
      dcim_location_types_create =
        (\<lambda>p s. store pol Dcim_location_types p (new_location_type (srv_next_id s) p)
                  (\<lambda>r s. s\<lparr>srv_location_types := srv_location_types s @ [r]\<rparr>) s),
      dcim_locations_get =
        (\<lambda>q s. lookup pol Dcim_locations location_fields q (srv_locations s)),
      dcim_locations_create =
        (\<lambda>p s. store pol Dcim_locations p (new_location (srv_next_id s) p)
                  (\<lambda>r s. s\<lparr>srv_locations := srv_locations s @ [r]\<rparr>) s),
      dcim_manufacturers_get =
        (\<lambda>q s. lookup pol Dcim_manufacturers manufacturer_fields q (srv_manufacturers s)),
      dcim_manufacturers_create =
        (\<lambda>p s. store pol Dcim_manufacturers p (new_manufacturer (srv_next_id s) p)
                  (\<lambda>r s. s\<lparr>srv_manufacturers := srv_manufacturers s @ [r]\<rparr>) s),
      dcim_device_types_get =
        (\<lambda>q s. lookup pol Dcim_device_types device_type_fields q (srv_device_types s)),
      dcim_device_types_create =
        (\<lambda>p s. store pol Dcim_device_types p (new_device_type (srv_next_id s) p)
                  (\<lambda>r s. s\<lparr>srv_device_types := srv_device_types s @ [r]\<rparr>) s),
      extras_roles_get =
        (\<lambda>q s. lookup pol Extras_roles role_fields q (srv_roles s)),
      extras_roles_create =
        (\<lambda>p s. store pol Extras_roles p (new_role (srv_next_id s) p)
                  (\<lambda>r s. s\<lparr>srv_roles := srv_roles s @ [r]\<rparr>) s),
      dcim_devices_get =
        (\<lambda>q s. lookup pol Dcim_devices device_fields q (srv_devices s)),
      dcim_devices_create =
        (\<lambda>p s. store pol Dcim_devices p (new_device s (srv_next_id s) p)
                  (\<lambda>r s. s\<lparr>srv_devices := srv_devices s @ [r]\<rparr>) s)\<rparr>"

definition permissive :: policy where
  "permissive = \<lparr>query_error = (\<lambda>ep q. None), create_error = (\<lambda>ep p. None)\<rparr>"

definition fresh_server :: server where
  "fresh_server =
     \<lparr>srv_location_types = [], srv_locations = [], srv_manufacturers = [],
      srv_device_types = [], srv_roles = [], srv_devices = [], srv_next_id = 0\<rparr>"

definition configured :: "string \<rightharpoonup> string" where
  "configured =
     [''NAUTOBOT_API_URL'' \<mapsto> ''https://nautobot.example'', ''NAUTOBOT_API_TOKEN'' \<mapsto> ''secret'']"

definition well_formed :: "server \<Rightarrow> bool" where
  "well_formed s =
     (list_all (\<lambda>r. lt_id r < srv_next_id s) (srv_location_types s)
      \<and> list_all (\<lambda>r. loc_id r < srv_next_id s) (srv_locations s)
      \<and> list_all (\<lambda>r. mf_id r < srv_next_id s) (srv_manufacturers s)
      \<and> list_all (\<lambda>r. dt_id r < srv_next_id s) (srv_device_types s)
      \<and> list_all (\<lambda>r. role_id r < srv_next_id s) (srv_roles s)
      \<and> list_all (\<lambda>r. dev_id r < srv_next_id s) (srv_devices s))"

subsection \<open>Servers and policies used as examples\<close>

definition campus :: location_type where
  "campus = \<lparr>lt_id = 0, lt_name = ''Campus'',
             lt_description = ''Created by script for Campus'',
             lt_content_types = [''dcim.device'']\<rparr>"

definition my_campus_location :: location where
  "my_campus_location = \<lparr>loc_id = 1, loc_name = ''MyCampusLocation'',
                         loc_location_type = 0, loc_status = ''Active''\<rparr>"

definition cisco :: manufacturer where
  "cisco = \<lparr>mf_id = 2, mf_name = ''Cisco''\<rparr>"

definition c9300 :: device_type where
  "c9300 = \<lparr>dt_id = 3, dt_model = ''C9300-48P'', dt_manufacturer = 2\<rparr>"

definition access_switch :: role where
  "access_switch = \<lparr>role_id = 4, role_name = ''Access Switch'',
                    role_description = ''Device role for Access Switch'',
                    role_content_types = [''dcim.device'']\<rparr>"

definition myswitch001 :: device where
  "myswitch001 = \<lparr>dev_id = 5, dev_name = ''myswitch001'', dev_device_type = c9300,
                  dev_role = access_switch, dev_location = my_campus_location,
                  dev_status = ''Active''\<rparr>"

text \<open>The server as one run of the script leaves a fresh one.\<close>

definition provisioned :: server where
  "provisioned =
     \<lparr>srv_location_types = [campus], srv_locations = [my_campus_location],
      srv_manufacturers = [cisco], srv_device_types = [c9300],
      srv_roles = [access_switch], srv_devices = [myswitch001], srv_next_id = 6\<rparr>"

definition branch :: location where
  "branch = \<lparr>loc_id = 6, loc_name = ''Branch'', loc_location_type = 0,
             loc_status = ''Active''\<rparr>"

definition two_sites :: server where
  "two_sites = provisioned\<lparr>srv_locations := [my_campus_location, branch], srv_next_id := 7\<rparr>"

text \<open>Two locations of one name (under different parents, on a real server).\<close>

definition homonym :: location where
  "homonym = \<lparr>loc_id = 6, loc_name = ''MyCampusLocation'', loc_location_type = 0,
              loc_status = ''Planned''\<rparr>"

definition ambiguous :: server where
  "ambiguous = provisioned\<lparr>srv_locations := [my_campus_location, homonym], srv_next_id := 7\<rparr>"

text \<open>A server that refuses to filter device types by manufacturer.\<close>

definition no_manufacturer_filter :: policy where
  "no_manufacturer_filter =
     \<lparr>query_error = (\<lambda>ep q. if ep = Dcim_device_types \<and> map_of q ''manufacturer'' \<noteq> None
                              then Some ''Unknown filter field'' else None),
      create_error = (\<lambda>ep p. None)\<rparr>"

text \<open>A server that refuses every query.\<close>

definition no_queries :: policy where
  "no_queries = \<lparr>query_error = (\<lambda>ep q. Some ''403 Forbidden''), create_error = (\<lambda>ep p. None)\<rparr>"

text \<open>A server that refuses to create roles.\<close>

definition no_new_roles :: policy where
  "no_new_roles =
     \<lparr>query_error = (\<lambda>ep q. None),
      create_error = (\<lambda>ep p. if ep = Extras_roles then Some ''400 Bad Request'' else None)\<rparr>"

text \<open>A device type and a role the provisioned server does not hold.\<close>

definition c9200 :: device_type where
  "c9200 = \<lparr>dt_id = 7, dt_model = ''C9200-24T'', dt_manufacturer = 2\<rparr>"

definition core_router :: role where
  "core_router = \<lparr>role_id = 8, role_name = ''Core Router'', role_description = '''',
                  role_content_types = [''dcim.device'']\<rparr>"

section \<open>The common shape of the six resolvers\<close>

text \<open>
  Section 4.1 of the specification describes one get-or-create pattern, applied to each
  collection. \<open>resolver\<close> is that pattern, with the collection, the query, the request
  body and the messages as parameters; \<open>tolerant\<close> says whether a \<^verbatim>\<open>RequestError\<close>
  of the lookup is taken for absence. Each function of the script is proved equal to an
  instance, so facts about all six are proved once.
\<close>

definition failure_line :: "string \<Rightarrow> string \<Rightarrow> string" where
  "failure_line what e = ''[ERROR] Failed to create '' @ what @ '': '' @ e"

definition attempt_create ::
  "endpoint \<Rightarrow> jdict \<Rightarrow> string \<Rightarrow> (jdict \<Rightarrow> 's \<Rightarrow> (exn + 'a) \<times> 's) \<Rightarrow> event list \<Rightarrow> 's
     \<Rightarrow> ('a, 's) run" where
  "attempt_create ep p what create t s =
     (case create p s of
        (Inr r, s') \<Rightarrow> (Return r, t @ [Create ep p Ok], s')
      | (Inl (RequestError e), s') \<Rightarrow>
          (SysExit 1,
           t @ [Create ep p (Raised (RequestError e)),
                Print (failure_line what e)], s')
      | (Inl x, s') \<Rightarrow> (Raise x, t @ [Create ep p (Raised x)], s'))"

definition resolver ::
  "endpoint \<Rightarrow> bool \<Rightarrow> jdict \<Rightarrow> jdict \<Rightarrow> ('a \<Rightarrow> string) \<Rightarrow> string \<Rightarrow> string
     \<Rightarrow> (jdict \<Rightarrow> 's \<Rightarrow> exn + 'a option) \<Rightarrow> (jdict \<Rightarrow> 's \<Rightarrow> (exn + 'a) \<times> 's) \<Rightarrow> 's
     \<Rightarrow> ('a, 's) run" where
  "resolver ep tolerant q p found creating what get create s =
     (case get q s of
        Inl (RequestError e) \<Rightarrow>
          (if tolerant
           then attempt_create ep p what create
                  [Get ep q (Raised (RequestError e)), Print creating] s
           else (Raise (RequestError e), [Get ep q (Raised (RequestError e))], s))
      | Inl x \<Rightarrow> (Raise x, [Get ep q (Raised x)], s)
      | Inr (Some r) \<Rightarrow> (Return r, [Get ep q Ok, Print (found r)], s)
      | Inr None \<Rightarrow> attempt_create ep p what create [Get ep q Ok, Print creating] s)"

section \<open>Properties of runs\<close>

text \<open>
  A run stops at a failed create: wherever a create that raised \<^verbatim>\<open>RequestError\<close>
  stands in the events, the outcome is exit status 1 and the events end with that call and
  the error line.
\<close>

definition stops_at_failed_create :: "('a, 's) run \<Rightarrow> bool" where
  "stops_at_failed_create r =
     (case r of (out, tr, s') \<Rightarrow>
        \<forall>ep p e. Create ep p (Raised (RequestError e)) \<in> set tr \<longrightarrow>
          out = SysExit 1
          \<and> (\<exists>pre what.
                tr = pre @ [Create ep p (Raised (RequestError e)), Print (failure_line what e)]))"

text \<open>
  What the reference server holds in a collection, as one type, and the number of
  successful creates on a collection among the events of a run. A run \<open>keeps\<close> the
  server it started from when each collection at the end is the collection at the start
  followed by as many records as the run created in it; a create \<open>appends\<close> when a
  refused request changes nothing and an accepted one adds one record to its collection.
\<close>

datatype entity =
  A_location_type location_type | A_location location | A_manufacturer manufacturer
  | A_device_type device_type | A_role role | A_device device

fun contents :: "server \<Rightarrow> endpoint \<Rightarrow> entity list" where
  "contents s Dcim_location_types = map A_location_type (srv_location_types s)"
| "contents s Dcim_locations = map A_location (srv_locations s)"
| "contents s Dcim_manufacturers = map A_manufacturer (srv_manufacturers s)"
| "contents s Dcim_device_types = map A_device_type (srv_device_types s)"
| "contents s Extras_roles = map A_role (srv_roles s)"
| "contents s Dcim_devices = map A_device (srv_devices s)"

fun created :: "endpoint \<Rightarrow> event list \<Rightarrow> nat" where
  "created ep [] = 0"
| "created ep (Create ep' p Ok # t) = (if ep' = ep then Suc (created ep t) else created ep t)"
| "created ep (e # t) = created ep t"

definition keeps :: "server \<Rightarrow> ('a, server) run \<Rightarrow> bool" where
  "keeps s r =
     (case r of (out, tr, s') \<Rightarrow>
        \<forall>ep. \<exists>new. contents s' ep = contents s ep @ new \<and> length new = created ep tr)"

definition appends :: "endpoint \<Rightarrow> (jdict \<Rightarrow> server \<Rightarrow> (exn + 'a) \<times> server) \<Rightarrow> bool" where
  "appends ep create =
     ((\<forall>p s e s1. create p s = (Inl e, s1) \<longrightarrow> s1 = s)
      \<and> (\<forall>p s r s1 ep'. create p s = (Inr r, s1) \<longrightarrow>
             (\<exists>new. contents s1 ep' = contents s ep' @ new
                    \<and> length new = (if ep' = ep then 1 else 0))))"

text \<open>
  The create call of a collection, for what it does to the remote state, and the state
  that the create calls among the events of a run lead to, one after the other, from a
  given state.
\<close>

definition after_create :: "'s nautobot \<Rightarrow> endpoint \<Rightarrow> jdict \<Rightarrow> 's \<Rightarrow> 's" where
  "after_create nb ep p s =
     (case ep of
        Dcim_location_types \<Rightarrow> snd (dcim_location_types_create nb p s)
      | Dcim_locations \<Rightarrow> snd (dcim_locations_create nb p s)
      | Dcim_manufacturers \<Rightarrow> snd (dcim_manufacturers_create nb p s)
      | Dcim_device_types \<Rightarrow> snd (dcim_device_types_create nb p s)
      | Extras_roles \<Rightarrow> snd (extras_roles_create nb p s)
      | Dcim_devices \<Rightarrow> snd (dcim_devices_create nb p s))"

fun replay :: "'s nautobot \<Rightarrow> event list \<Rightarrow> 's \<Rightarrow> 's" where
  "replay nb [] s = s"
| "replay nb (Create ep p r # t) s = replay nb t (after_create nb ep p s)"
| "replay nb (e # t) s = replay nb t s"

definition replays :: "'s nautobot \<Rightarrow> 's \<Rightarrow> ('a, 's) run \<Rightarrow> bool" where
  "replays nb s r = (case r of (out, tr, s') \<Rightarrow> s' = replay nb tr s)"

text \<open>The lookups and the creates among the events of a run.\<close>

fun is_get :: "event \<Rightarrow> bool" where
  "is_get (Get ep q r) = True"
| "is_get e = False"

fun is_create :: "event \<Rightarrow> bool" where
  "is_create (Create ep p r) = True"
| "is_create e = False"

section \<open>Facts about the resolvers\<close>

lemma get_or_create_location_type_resolver:
  "get_or_create_location_type nb n =
     resolver Dcim_location_types False [(''name'', JStr n)]
       [(''name'', JStr n), (''description'', JStr (''Created by script for '' @ n)),
        (''content_types'', JList [''dcim.device''])]
       (\<lambda>r. ''[INFO] Found existing location type: '' @ lt_name r)
       (''[INFO] Creating location type '' @ quoted n @ ''...'')
       (''location type '' @ quoted n)
       (dcim_location_types_get nb) (dcim_location_types_create nb)"
  by (rule ext)
     (simp add: get_or_create_location_type_def resolver_def attempt_create_def failure_line_def Let_def
           split: sum.splits option.splits prod.splits exn.splits)

lemma get_or_create_location_resolver:
  "get_or_create_location nb n lt =
     resolver Dcim_locations False [(''name'', JStr n)]
       [(''name'', JStr n), (''location_type'', JId (lt_id lt)), (''status'', JStr ''Active'')]
       (\<lambda>r. ''[INFO] Found existing location: '' @ loc_name r)
       (''[INFO] Creating location '' @ quoted n @ '' with type '' @ quoted (lt_name lt) @ ''...'')
       (''location '' @ quoted n)
       (dcim_locations_get nb) (dcim_locations_create nb)"
  by (rule ext)
     (simp add: get_or_create_location_def resolver_def attempt_create_def failure_line_def Let_def
           split: sum.splits option.splits prod.splits exn.splits)

lemma get_or_create_manufacturer_resolver:
  "get_or_create_manufacturer nb n =
     resolver Dcim_manufacturers False [(''name'', JStr n)] [(''name'', JStr n)]
       (\<lambda>r. ''[INFO] Found existing manufacturer: '' @ mf_name r)
       (''[INFO] Creating manufacturer '' @ quoted n @ ''...'')
       (''manufacturer '' @ quoted n)
       (dcim_manufacturers_get nb) (dcim_manufacturers_create nb)"
  by (rule ext)
     (simp add: get_or_create_manufacturer_def resolver_def attempt_create_def failure_line_def Let_def
           split: sum.splits option.splits prod.splits exn.splits)

lemma get_or_create_device_type_resolver:
  "get_or_create_device_type nb m mf =
     resolver Dcim_device_types True
       [(''model'', JStr m), (''manufacturer'', JId (mf_id mf))]
       [(''model'', JStr m), (''manufacturer'', JId (mf_id mf))]
       (\<lambda>r. ''[INFO] Found existing device type: '' @ dt_model r)
       (''[INFO] Creating device type '' @ quoted m @ '' for manufacturer ''
        @ quoted (mf_name mf) @ ''...'')
       (''device type '' @ quoted m)
       (dcim_device_types_get nb) (dcim_device_types_create nb)"
  by (rule ext)
     (simp add: get_or_create_device_type_def resolver_def attempt_create_def failure_line_def Let_def
           split: sum.splits option.splits prod.splits exn.splits)

lemma get_or_create_role_resolver:
  "get_or_create_role nb n =
     resolver Extras_roles False [(''name'', JStr n)]
       [(''name'', JStr n), (''description'', JStr (''Device role for '' @ n)),
        (''content_types'', JList [''dcim.device''])]
       (\<lambda>r. ''[INFO] Found existing role: '' @ role_name r)
       (''[INFO] Creating role '' @ quoted n @ '' for devices...'')
       (''role '' @ quoted n)
       (extras_roles_get nb) (extras_roles_create nb)"
  by (rule ext)
     (simp add: get_or_create_role_def resolver_def attempt_create_def failure_line_def Let_def
           split: sum.splits option.splits prod.splits exn.splits)

lemma create_device_resolver:
  "create_device nb n loc dt r =
     resolver Dcim_devices False [(''name'', JStr n), (''location'', JId (loc_id loc))]
       [(''name'', JStr n), (''device_type'', JId (dt_id dt)), (''role'', JId (role_id r)),
        (''location'', JId (loc_id loc)), (''status'', JStr ''Active'')]
       (\<lambda>d. ''[WARNING] Device '' @ quoted n @ '' already exists at location ''
            @ quoted (loc_name loc) @ ''.'')
       (''[INFO] Creating new device '' @ quoted n @ ''...'')
       (''device '' @ quoted n)
       (dcim_devices_get nb) (dcim_devices_create nb)"
  by (rule ext)
     (simp add: create_device_def resolver_def attempt_create_def failure_line_def Let_def
           split: sum.splits option.splits prod.splits exn.splits)

lemmas resolvers =
  get_or_create_location_type_resolver get_or_create_location_resolver
  get_or_create_manufacturer_resolver get_or_create_device_type_resolver
  get_or_create_role_resolver create_device_resolver

lemma resolver_found:
  "get q s = Inr (Some r) \<Longrightarrow>
   resolver ep tolerant q p found creating what get create s
     = (Return r, [Get ep q Ok, Print (found r)], s)"
  by (simp add: resolver_def)

lemma resolver_created:
  "get q s = Inr None \<Longrightarrow> create p s = (Inr r, s') \<Longrightarrow>
   resolver ep tolerant q p found creating what get create s
     = (Return r, [Get ep q Ok, Print creating, Create ep p Ok], s')"
  by (simp add: resolver_def attempt_create_def)

lemma resolver_lookup_error:
  "get q s = Inl e \<Longrightarrow>
   resolver ep False q p found creating what get create s = (Raise e, [Get ep q (Raised e)], s)"
  by (simp add: resolver_def split: exn.splits)

lemma and_then_found:
  "get q s = Inr (Some r) \<Longrightarrow>
   and_then (resolver ep tolerant q p found creating what get create) f s =
     (case f r s of (out, t, s') \<Rightarrow> (out, Get ep q Ok # Print (found r) # t, s'))"
  by (simp add: and_then_def resolver_found split: prod.splits)

subsection \<open>The reference client\<close>

lemma reference_api_simps:
  "dcim_location_types_get (reference_api pol) =
     (\<lambda>q s. lookup pol Dcim_location_types location_type_fields q (srv_location_types s))"
  "dcim_location_types_create (reference_api pol) =
     (\<lambda>p s. store pol Dcim_location_types p (new_location_type (srv_next_id s) p)
               (\<lambda>r s. s\<lparr>srv_location_types := srv_location_types s @ [r]\<rparr>) s)"
  "dcim_locations_get (reference_api pol) =
     (\<lambda>q s. lookup pol Dcim_locations location_fields q (srv_locations s))"
  "dcim_locations_create (reference_api pol) =
     (\<lambda>p s. store pol Dcim_locations p (new_location (srv_next_id s) p)
               (\<lambda>r s. s\<lparr>srv_locations := srv_locations s @ [r]\<rparr>) s)"
  "dcim_manufacturers_get (reference_api pol) =
     (\<lambda>q s. lookup pol Dcim_manufacturers manufacturer_fields q (srv_manufacturers s))"
  "dcim_manufacturers_create (reference_api pol) =
     (\<lambda>p s. store pol Dcim_manufacturers p (new_manufacturer (srv_next_id s) p)
               (\<lambda>r s. s\<lparr>srv_manufacturers := srv_manufacturers s @ [r]\<rparr>) s)"
  "dcim_device_types_get (reference_api pol) =
     (\<lambda>q s. lookup pol Dcim_device_types device_type_fields q (srv_device_types s))"
  "dcim_device_types_create (reference_api pol) =
     (\<lambda>p s. store pol Dcim_device_types p (new_device_type (srv_next_id s) p)
               (\<lambda>r s. s\<lparr>srv_device_types := srv_device_types s @ [r]\<rparr>) s)"
  "extras_roles_get (reference_api pol) =
     (\<lambda>q s. lookup pol Extras_roles role_fields q (srv_roles s))"
  "extras_roles_create (reference_api pol) =
     (\<lambda>p s. store pol Extras_roles p (new_role (srv_next_id s) p)
               (\<lambda>r s. s\<lparr>srv_roles := srv_roles s @ [r]\<rparr>) s)"
  "dcim_devices_get (reference_api pol) =
     (\<lambda>q s. lookup pol Dcim_devices device_fields q (srv_devices s))"
  "dcim_devices_create (reference_api pol) =
     (\<lambda>p s. store pol Dcim_devices p (new_device s (srv_next_id s) p)
               (\<lambda>r s. s\<lparr>srv_devices := srv_devices s @ [r]\<rparr>) s)"
  by (simp_all add: reference_api_def)

lemmas reference_defs =
  lookup_def store_def matches_def location_type_fields_def location_fields_def
  manufacturer_fields_def device_type_fields_def role_fields_def device_fields_def
  new_location_type_def new_location_def new_manufacturer_def new_device_type_def
  new_role_def new_device_def by_id_def str_field_def id_field_def list_field_def

lemmas example_defs =
  campus_def my_campus_location_def cisco_def c9300_def access_switch_def myswitch001_def
  provisioned_def branch_def two_sites_def homonym_def ambiguous_def fresh_server_def
  permissive_def no_manufacturer_filter_def no_queries_def no_new_roles_def configured_def

lemma resolver_absent:
  "get q s = Inr None \<Longrightarrow>
   \<exists>out resp rest s'.
     resolver ep tolerant q p found creating what get create s
       = (out, Get ep q Ok # Print creating # Create ep p resp # rest, s')"
  by (simp add: resolver_def attempt_create_def split: prod.splits sum.splits exn.splits)

lemma lookup_absent:
  "query_error pol ep q = None \<Longrightarrow> \<forall>r\<in>set rows. \<not> matches q (attrs r) \<Longrightarrow>
   lookup pol ep attrs q rows = Inr None"
  by (simp add: lookup_def filter_empty_conv [THEN iffD2])

lemma find_fresh:
  "list_all (\<lambda>r. ident_of r < (n::ident)) rows \<Longrightarrow> n \<le> i \<Longrightarrow>
   find (\<lambda>r. ident_of r = i) (rows @ [x]) = (if ident_of x = i then Some x else None)"
proof (induction rows)
  case Nil
  show ?case by simp
next
  case (Cons a rows)
  then have "ident_of a \<noteq> i"
    by auto
  with Cons show ?case
    by simp
qed

lemma matches_simps:
  "matches [(''name'', JStr x)] (location_type_fields lt) = (lt_name lt = x)"
  "matches [(''name'', JStr x)] (location_fields loc) = (loc_name loc = x)"
  "matches [(''name'', JStr x)] (manufacturer_fields mf) = (mf_name mf = x)"
  "matches [(''model'', JStr x), (''manufacturer'', JId i)] (device_type_fields dt)
     = (dt_model dt = x \<and> dt_manufacturer dt = i)"
  "matches [(''name'', JStr x)] (role_fields r) = (role_name r = x)"
  "matches [(''name'', JStr x), (''location'', JId i)] (device_fields d)
     = (dev_name d = x \<and> loc_id (dev_location d) = i)"
  by (simp_all add: matches_def location_type_fields_def location_fields_def
        manufacturer_fields_def device_type_fields_def role_fields_def device_fields_def)

lemmas run_defs =
  main_def falsy_def pipeline_def and_then_def summary_def resolvers resolver_def
  attempt_create_def failure_line_def quoted_def

text \<open>A run against a fresh server that refuses to create roles.\<close>

lemma refused_role_run:
  "main configured (\<lambda>url token. reference_api no_new_roles) fresh_server =
     (SysExit 1,
      [ApiInit ''https://nautobot.example'' ''secret'',
       Get Dcim_location_types [(''name'', JStr ''Campus'')] Ok,
       Print ''[INFO] Creating location type 'Campus'...'',
       Create Dcim_location_types
         [(''name'', JStr ''Campus''), (''description'', JStr ''Created by script for Campus''),
          (''content_types'', JList [''dcim.device''])] Ok,
       Get Dcim_locations [(''name'', JStr ''MyCampusLocation'')] Ok,
       Print ''[INFO] Creating location 'MyCampusLocation' with type 'Campus'...'',
       Create Dcim_locations
         [(''name'', JStr ''MyCampusLocation''), (''location_type'', JId 0),
          (''status'', JStr ''Active'')] Ok,
       Get Dcim_manufacturers [(''name'', JStr ''Cisco'')] Ok,
       Print ''[INFO] Creating manufacturer 'Cisco'...'',
       Create Dcim_manufacturers [(''name'', JStr ''Cisco'')] Ok,
       Get Dcim_device_types [(''model'', JStr ''C9300-48P''), (''manufacturer'', JId 2)] Ok,
       Print ''[INFO] Creating device type 'C9300-48P' for manufacturer 'Cisco'...'',
       Create Dcim_device_types
         [(''model'', JStr ''C9300-48P''), (''manufacturer'', JId 2)] Ok,
       Get Extras_roles [(''name'', JStr ''Access Switch'')] Ok,
       Print ''[INFO] Creating role 'Access Switch' for devices...'',
       Create Extras_roles
         [(''name'', JStr ''Access Switch''),
          (''description'', JStr ''Device role for Access Switch''),
          (''content_types'', JList [''dcim.device''])]
         (Raised (RequestError ''400 Bad Request'')),
       Print ''[ERROR] Failed to create role 'Access Switch': 400 Bad Request''],
      \<lparr>srv_location_types = [campus], srv_locations = [my_campus_location],
       srv_manufacturers = [cisco], srv_device_types = [c9300], srv_roles = [],
       srv_devices = [], srv_next_id = 4\<rparr>)"
  by (simp add: run_defs reference_api_simps reference_defs example_defs)

subsection \<open>Runs stop at a failed create\<close>

lemma stops_no_create:
  "\<forall>ep p e. Create ep p (Raised (RequestError e)) \<notin> set tr \<Longrightarrow>
   stops_at_failed_create (out, tr, s)"
  by (simp add: stops_at_failed_create_def)

lemma attempt_create_stops:
  assumes "\<forall>ep p e. Create ep p (Raised (RequestError e)) \<notin> set t"
  shows "stops_at_failed_create (attempt_create ep p what create t s)"
proof (cases "create p s")
  case (Pair res s1)
  show ?thesis
  proof (cases res)
    case (Inr r)
    with Pair assms show ?thesis
      by (simp add: attempt_create_def stops_no_create)
  next
    case (Inl x)
    show ?thesis
    proof (cases x)
      case (RequestError e)
      with Pair Inl have
        "attempt_create ep p what create t s =
           (SysExit 1, t @ [Create ep p (Raised (RequestError e)), Print (failure_line what e)], s1)"
        by (simp add: attempt_create_def)
      with assms show ?thesis
        unfolding stops_at_failed_create_def by auto
    next
      case (OtherException m)
      with Pair Inl assms show ?thesis
        by (simp add: attempt_create_def stops_no_create)
    qed
  qed
qed

lemma resolver_stops:
  "stops_at_failed_create (resolver ep tolerant q p found creating what get create s)"
  unfolding resolver_def
  by (simp add: attempt_create_stops stops_no_create
           split: sum.splits option.splits exn.splits)

lemma and_then_stops:
  assumes m: "stops_at_failed_create (m s)"
    and f: "\<And>x s1. stops_at_failed_create (f x s1)"
  shows "stops_at_failed_create (and_then m f s)"
proof -
  obtain out t s1 where ms: "m s = (out, t, s1)"
    by (cases "m s") auto
  show ?thesis
  proof (cases out)
    case (Return x)
    obtain r t' s2 where fx: "f x s1 = (r, t', s2)"
      by (cases "f x s1") auto
    have clean: "Create ep p (Raised (RequestError e)) \<notin> set t" for ep p e
      using m ms Return unfolding stops_at_failed_create_def by auto
    have later: "stops_at_failed_create (r, t', s2)"
      using f [of x s1] fx by simp
    have run: "and_then m f s = (r, t @ t', s2)"
      using ms Return fx by (simp add: and_then_def)
    show ?thesis
      unfolding run stops_at_failed_create_def
    proof (clarify)
      fix ep p e
      assume "Create ep p (Raised (RequestError e)) \<in> set (t @ t')"
      with clean have "Create ep p (Raised (RequestError e)) \<in> set t'"
        by simp
      with later obtain pre what where
        "r = SysExit 1"
        "t' = pre @ [Create ep p (Raised (RequestError e)), Print (failure_line what e)]"
        unfolding stops_at_failed_create_def by blast
      then show "r = SysExit 1
          \<and> (\<exists>pre what.
                t @ t' = pre @ [Create ep p (Raised (RequestError e)),
                                Print (failure_line what e)])"
        by (metis append.assoc)
    qed
  next
    case (SysExit c)
    with m ms show ?thesis
      unfolding stops_at_failed_create_def by (simp add: and_then_def)
  next
    case (Raise e)
    with m ms show ?thesis
      unfolding stops_at_failed_create_def by (simp add: and_then_def)
  qed
qed

lemma pipeline_stops: "stops_at_failed_create (pipeline nb s)"
  unfolding pipeline_def resolvers
  by (intro and_then_stops resolver_stops) (simp add: stops_no_create summary_def)

subsection \<open>Runs keep what the server holds\<close>

lemma created_append: "created ep (t @ t') = created ep t + created ep t'"
  by (induction ep t rule: created.induct) simp_all

lemma store_appends:
  assumes "\<And>r s n ep'. contents ((add r s)\<lparr>srv_next_id := n\<rparr>) ep'
                          = contents s ep' @ (if ep' = ep then [mk r] else [])"
  shows "appends ep (\<lambda>p s. store pol ep p (parse s p) add s)"
  unfolding appends_def store_def
  by (auto simp: assms split: option.splits)

lemma reference_appends:
  "appends Dcim_location_types (dcim_location_types_create (reference_api pol))"
  "appends Dcim_locations (dcim_locations_create (reference_api pol))"
  "appends Dcim_manufacturers (dcim_manufacturers_create (reference_api pol))"
  "appends Dcim_device_types (dcim_device_types_create (reference_api pol))"
  "appends Extras_roles (extras_roles_create (reference_api pol))"
  "appends Dcim_devices (dcim_devices_create (reference_api pol))"
proof -
  show "appends Dcim_location_types (dcim_location_types_create (reference_api pol))"
    unfolding reference_api_simps
    by (rule store_appends [where mk = A_location_type and parse = "\<lambda>s. new_location_type (srv_next_id s)"])
       (case_tac ep'; simp)
  show "appends Dcim_locations (dcim_locations_create (reference_api pol))"
    unfolding reference_api_simps
    by (rule store_appends [where mk = A_location and parse = "\<lambda>s. new_location (srv_next_id s)"])
       (case_tac ep'; simp)
  show "appends Dcim_manufacturers (dcim_manufacturers_create (reference_api pol))"
    unfolding reference_api_simps
    by (rule store_appends [where mk = A_manufacturer and parse = "\<lambda>s. new_manufacturer (srv_next_id s)"])
       (case_tac ep'; simp)
  show "appends Dcim_device_types (dcim_device_types_create (reference_api pol))"
    unfolding reference_api_simps
    by (rule store_appends [where mk = A_device_type and parse = "\<lambda>s. new_device_type (srv_next_id s)"])
       (case_tac ep'; simp)
  show "appends Extras_roles (extras_roles_create (reference_api pol))"
    unfolding reference_api_simps
    by (rule store_appends [where mk = A_role and parse = "\<lambda>s. new_role (srv_next_id s)"])
       (case_tac ep'; simp)
  show "appends Dcim_devices (dcim_devices_create (reference_api pol))"
    unfolding reference_api_simps
    by (rule store_appends [where mk = A_device and parse = "\<lambda>s. new_device s (srv_next_id s)"])
       (case_tac ep'; simp)
qed

lemma attempt_create_keeps:
  assumes app: "appends ep create"
    and t: "\<And>ep'. created ep' t = 0"
  shows "keeps s (attempt_create ep p what create t s)"
proof (cases "create p s")
  case (Pair res s1)
  show ?thesis
  proof (cases res)
    case (Inl x)
    with Pair app have "s1 = s"
      unfolding appends_def by blast
    with Pair Inl show ?thesis
      by (cases x) (simp_all add: attempt_create_def keeps_def created_append t)
  next
    case (Inr r)
    have "\<exists>new. contents s1 ep' = contents s ep' @ new
                 \<and> length new = created ep' (t @ [Create ep p Ok])" for ep'
    proof -
      from Pair Inr app obtain new where
        "contents s1 ep' = contents s ep' @ new" "length new = (if ep' = ep then 1 else 0)"
        unfolding appends_def by blast
      then show ?thesis
        by (auto simp: created_append t)
    qed
    with Pair Inr show ?thesis
      by (simp add: attempt_create_def keeps_def)
  qed
qed

lemma resolver_keeps:
  "appends ep create \<Longrightarrow> keeps s (resolver ep tolerant q p found creating what get create s)"
  unfolding resolver_def
  by (simp add: attempt_create_keeps split: sum.splits option.splits exn.splits)
     (simp add: keeps_def)

lemma and_then_keeps:
  assumes m: "keeps s (m s)"
    and f: "\<And>x s1. keeps s1 (f x s1)"
  shows "keeps s (and_then m f s)"
proof -
  obtain out t s1 where ms: "m s = (out, t, s1)"
    by (cases "m s") auto
  show ?thesis
  proof (cases out)
    case (Return x)
    obtain r t' s2 where fx: "f x s1 = (r, t', s2)"
      by (cases "f x s1") auto
    have run: "and_then m f s = (r, t @ t', s2)"
      using ms Return fx by (simp add: and_then_def)
    show ?thesis
      unfolding run keeps_def
    proof (clarify)
      fix ep
      from m ms obtain new where
        new: "contents s1 ep = contents s ep @ new" "length new = created ep t"
        unfolding keeps_def by auto
      from f [of s1 x] fx obtain new' where
        new': "contents s2 ep = contents s1 ep @ new'" "length new' = created ep t'"
        unfolding keeps_def by auto
      from new new' have
        "contents s2 ep = contents s ep @ (new @ new')
         \<and> length (new @ new') = created ep (t @ t')"
        by (simp add: created_append)
      then show "\<exists>new. contents s2 ep = contents s ep @ new
                       \<and> length new = created ep (t @ t')"
        by blast
    qed
  next
    case (SysExit c)
    with m ms show ?thesis
      unfolding keeps_def by (simp add: and_then_def)
  next
    case (Raise e)
    with m ms show ?thesis
      unfolding keeps_def by (simp add: and_then_def)
  qed
qed

lemma pipeline_keeps: "keeps s (pipeline (reference_api pol) s)"
  unfolding pipeline_def resolvers
  by (intro and_then_keeps resolver_keeps reference_appends)
     (simp add: keeps_def summary_def)

lemma main_keeps:
  assumes "main environ (\<lambda>url token. reference_api pol) s = (out, tr, s')"
  shows "\<exists>new. contents s' ep = contents s ep @ new \<and> length new = created ep tr"
proof (cases "falsy (environ ''NAUTOBOT_API_URL'') \<or> falsy (environ ''NAUTOBOT_API_TOKEN'')")
  case True
  with assms show ?thesis
    by (auto simp: main_def)
next
  case False
  obtain r t s1 where p: "pipeline (reference_api pol) s = (r, t, s1)"
    by (cases "pipeline (reference_api pol) s") auto
  with assms False have "s' = s1" and "created ep tr = created ep t"
    by (auto simp: main_def)
  moreover from pipeline_keeps [of s pol] p
  have "\<exists>new. contents s1 ep = contents s ep @ new \<and> length new = created ep t"
    unfolding keeps_def by auto
  ultimately show ?thesis
    by simp
qed

subsection \<open>The remote state changes by create calls only\<close>

lemma replay_append: "replay nb (t @ t') s = replay nb t' (replay nb t s)"
  by (induction nb t s rule: replay.induct) simp_all

lemma attempt_create_replays:
  assumes "\<And>p s. snd (create p s) = after_create nb ep p s"
    and "replay nb t s = s"
  shows "replays nb s (attempt_create ep p what create t s)"
proof (cases "create p s")
  case (Pair res s1)
  with assms(1) [of p s] have "after_create nb ep p s = s1"
    by simp
  with Pair assms(2) show ?thesis
    by (simp add: attempt_create_def replays_def replay_append
             split: sum.splits exn.splits)
qed

lemma resolver_replays:
  assumes "\<And>p s. snd (create p s) = after_create nb ep p s"
  shows "replays nb s (resolver ep tolerant q p found creating what get create s)"
  unfolding resolver_def
  by (simp add: attempt_create_replays [OF assms] split: sum.splits option.splits exn.splits)
     (simp add: replays_def)

lemma and_then_replays:
  assumes m: "replays nb s (m s)"
    and f: "\<And>x s1. replays nb s1 (f x s1)"
  shows "replays nb s (and_then m f s)"
proof -
  obtain out t s1 where ms: "m s = (out, t, s1)"
    by (cases "m s") auto
  with m have s1: "s1 = replay nb t s"
    by (simp add: replays_def)
  show ?thesis
  proof (cases out)
    case (Return x)
    obtain r t' s2 where fx: "f x s1 = (r, t', s2)"
      by (cases "f x s1") auto
    with f [of s1 x] have "s2 = replay nb t' s1"
      by (simp add: replays_def)
    with s1 ms Return fx show ?thesis
      by (simp add: and_then_def replays_def replay_append)
  next
    case (SysExit c)
    with ms s1 show ?thesis
      by (simp add: and_then_def replays_def)
  next
    case (Raise e)
    with ms s1 show ?thesis
      by (simp add: and_then_def replays_def)
  qed
qed

lemma pipeline_replays: "replays nb s (pipeline nb s)"
  unfolding pipeline_def resolvers
  by (intro and_then_replays resolver_replays)
     (simp_all add: after_create_def replays_def summary_def)

lemma main_replays:
  assumes "main environ pynautobot_api s = (out, tr, s')"
  shows "s' = replay (pynautobot_api (the (environ ''NAUTOBOT_API_URL''))
                        (the (environ ''NAUTOBOT_API_TOKEN''))) tr s"
proof (cases "falsy (environ ''NAUTOBOT_API_URL'') \<or> falsy (environ ''NAUTOBOT_API_TOKEN'')")
  case True
  with assms show ?thesis
    by (auto simp: main_def)
next
  case False
  let ?nb = "pynautobot_api (the (environ ''NAUTOBOT_API_URL''))
               (the (environ ''NAUTOBOT_API_TOKEN''))"
  obtain r t s1 where p: "pipeline ?nb s = (r, t, s1)"
    by (cases "pipeline ?nb s") auto
  with pipeline_replays [of ?nb s] have "s1 = replay ?nb t s"
    by (simp add: replays_def)
  moreover from assms False p have "s' = s1" and "tr = ApiInit (the (environ ''NAUTOBOT_API_URL''))
               (the (environ ''NAUTOBOT_API_TOKEN'')) # t"
    by (simp_all add: main_def Let_def)
  ultimately show ?thesis
    by simp
qed

subsection \<open>A run that finds nothing\<close>

lemma main_all_created:
  assumes url: "environ ''NAUTOBOT_API_URL'' = Some url" "url \<noteq> ''''"
    and token: "environ ''NAUTOBOT_API_TOKEN'' = Some token" "token \<noteq> ''''"
    and nb: "nb = pynautobot_api url token"
    and lt: "dcim_location_types_get nb [(''name'', JStr ''Campus'')] s = Inr None"
      "dcim_location_types_create nb
         [(''name'', JStr ''Campus''), (''description'', JStr ''Created by script for Campus''),
          (''content_types'', JList [''dcim.device''])] s = (Inr lt, s1)"
    and loc: "dcim_locations_get nb [(''name'', JStr ''MyCampusLocation'')] s1 = Inr None"
      "dcim_locations_create nb
         [(''name'', JStr ''MyCampusLocation''), (''location_type'', JId (lt_id lt)),
          (''status'', JStr ''Active'')] s1 = (Inr loc, s2)"
    and mf: "dcim_manufacturers_get nb [(''name'', JStr ''Cisco'')] s2 = Inr None"
      "dcim_manufacturers_create nb [(''name'', JStr ''Cisco'')] s2 = (Inr mf, s3)"
    and dt: "dcim_device_types_get nb
         [(''model'', JStr ''C9300-48P''), (''manufacturer'', JId (mf_id mf))] s3 = Inr None"
      "dcim_device_types_create nb
         [(''model'', JStr ''C9300-48P''), (''manufacturer'', JId (mf_id mf))] s3 = (Inr dt, s4)"
    and r: "extras_roles_get nb [(''name'', JStr ''Access Switch'')] s4 = Inr None"
      "extras_roles_create nb
         [(''name'', JStr ''Access Switch''),
          (''description'', JStr ''Device role for Access Switch''),
          (''content_types'', JList [''dcim.device''])] s4 = (Inr r, s5)"
    and d: "dcim_devices_get nb
         [(''name'', JStr ''myswitch001''), (''location'', JId (loc_id loc))] s5 = Inr None"
      "dcim_devices_create nb
         [(''name'', JStr ''myswitch001''), (''device_type'', JId (dt_id dt)),
          (''role'', JId (role_id r)), (''location'', JId (loc_id loc)),
          (''status'', JStr ''Active'')] s5 = (Inr d, s6)"
  shows "main environ pynautobot_api s =
     (Return (),
      [ApiInit url token,
       Get Dcim_location_types [(''name'', JStr ''Campus'')] Ok,
       Print ''[INFO] Creating location type 'Campus'...'',
       Create Dcim_location_types
         [(''name'', JStr ''Campus''), (''description'', JStr ''Created by script for Campus''),
          (''content_types'', JList [''dcim.device''])] Ok,
       Get Dcim_locations [(''name'', JStr ''MyCampusLocation'')] Ok,
       Print (''[INFO] Creating location 'MyCampusLocation' with type ''
              @ quoted (lt_name lt) @ ''...''),
       Create Dcim_locations
         [(''name'', JStr ''MyCampusLocation''), (''location_type'', JId (lt_id lt)),
          (''status'', JStr ''Active'')] Ok,
       Get Dcim_manufacturers [(''name'', JStr ''Cisco'')] Ok,
       Print ''[INFO] Creating manufacturer 'Cisco'...'',
       Create Dcim_manufacturers [(''name'', JStr ''Cisco'')] Ok,
       Get Dcim_device_types
         [(''model'', JStr ''C9300-48P''), (''manufacturer'', JId (mf_id mf))] Ok,
       Print (''[INFO] Creating device type 'C9300-48P' for manufacturer ''
              @ quoted (mf_name mf) @ ''...''),
       Create Dcim_device_types
         [(''model'', JStr ''C9300-48P''), (''manufacturer'', JId (mf_id mf))] Ok,
       Get Extras_roles [(''name'', JStr ''Access Switch'')] Ok,
       Print ''[INFO] Creating role 'Access Switch' for devices...'',
       Create Extras_roles
         [(''name'', JStr ''Access Switch''),
          (''description'', JStr ''Device role for Access Switch''),
          (''content_types'', JList [''dcim.device''])] Ok,
       Get Dcim_devices
         [(''name'', JStr ''myswitch001''), (''location'', JId (loc_id loc))] Ok,
       Print ''[INFO] Creating new device 'myswitch001'...'',
       Create Dcim_devices
         [(''name'', JStr ''myswitch001''), (''device_type'', JId (dt_id dt)),
          (''role'', JId (role_id r)), (''location'', JId (loc_id loc)),
          (''status'', JStr ''Active'')] Ok,
       Print ''[SUCCESS] Device created or retrieved successfully:'',
       Print (''  Name:     '' @ dev_name d),
       Print (''  Location: '' @ loc_name (dev_location d)),
       Print (''  Role:     '' @ role_name (dev_role d)),
       Print (''  Type:     '' @ dt_model (dev_device_type d)),
       Print (''  Status:   '' @ dev_status d)],
      s6)"
proof -
  have 1: "get_or_create_location_type nb ''Campus'' s =
             (Return lt,
              [Get Dcim_location_types [(''name'', JStr ''Campus'')] Ok,
               Print ''[INFO] Creating location type 'Campus'...'',
               Create Dcim_location_types
                 [(''name'', JStr ''Campus''),
                  (''description'', JStr ''Created by script for Campus''),
                  (''content_types'', JList [''dcim.device''])] Ok], s1)"
    using lt by (simp add: resolvers resolver_created quoted_def)
  have 2: "get_or_create_location nb ''MyCampusLocation'' lt s1 =
             (Return loc,
              [Get Dcim_locations [(''name'', JStr ''MyCampusLocation'')] Ok,
               Print (''[INFO] Creating location 'MyCampusLocation' with type ''
                      @ quoted (lt_name lt) @ ''...''),
               Create Dcim_locations
                 [(''name'', JStr ''MyCampusLocation''), (''location_type'', JId (lt_id lt)),
                  (''status'', JStr ''Active'')] Ok], s2)"
    using loc by (simp add: resolvers resolver_created quoted_def)
  have 3: "get_or_create_manufacturer nb ''Cisco'' s2 =
             (Return mf,
              [Get Dcim_manufacturers [(''name'', JStr ''Cisco'')] Ok,
               Print ''[INFO] Creating manufacturer 'Cisco'...'',
               Create Dcim_manufacturers [(''name'', JStr ''Cisco'')] Ok], s3)"
    using mf by (simp add: resolvers resolver_created quoted_def)
  have 4: "get_or_create_device_type nb ''C9300-48P'' mf s3 =
             (Return dt,
              [Get Dcim_device_types
                 [(''model'', JStr ''C9300-48P''), (''manufacturer'', JId (mf_id mf))] Ok,
               Print (''[INFO] Creating device type 'C9300-48P' for manufacturer ''
                      @ quoted (mf_name mf) @ ''...''),
               Create Dcim_device_types
                 [(''model'', JStr ''C9300-48P''), (''manufacturer'', JId (mf_id mf))] Ok],
              s4)"
    using dt by (simp add: resolvers resolver_created quoted_def)
  have 5: "get_or_create_role nb ''Access Switch'' s4 =
             (Return r,
              [Get Extras_roles [(''name'', JStr ''Access Switch'')] Ok,
               Print ''[INFO] Creating role 'Access Switch' for devices...'',
               Create Extras_roles
                 [(''name'', JStr ''Access Switch''),
                  (''description'', JStr ''Device role for Access Switch''),
                  (''content_types'', JList [''dcim.device''])] Ok], s5)"
    using r by (simp add: resolvers resolver_created quoted_def)
  have 6: "create_device nb ''myswitch001'' loc dt r s5 =
             (Return d,
              [Get Dcim_devices
                 [(''name'', JStr ''myswitch001''), (''location'', JId (loc_id loc))] Ok,
               Print ''[INFO] Creating new device 'myswitch001'...'',
               Create Dcim_devices
                 [(''name'', JStr ''myswitch001''), (''device_type'', JId (dt_id dt)),
                  (''role'', JId (role_id r)), (''location'', JId (loc_id loc)),
                  (''status'', JStr ''Active'')] Ok], s6)"
    using d by (simp add: resolvers resolver_created quoted_def)
  have "pipeline nb s =
          (Return (),
           [Get Dcim_location_types [(''name'', JStr ''Campus'')] Ok,
       Print ''[INFO] Creating location type 'Campus'...'',
       Create Dcim_location_types
         [(''name'', JStr ''Campus''), (''description'', JStr ''Created by script for Campus''),
          (''content_types'', JList [''dcim.device''])] Ok,
       Get Dcim_locations [(''name'', JStr ''MyCampusLocation'')] Ok,
       Print (''[INFO] Creating location 'MyCampusLocation' with type ''
              @ quoted (lt_name lt) @ ''...''),
       Create Dcim_locations
         [(''name'', JStr ''MyCampusLocation''), (''location_type'', JId (lt_id lt)),
          (''status'', JStr ''Active'')] Ok,
       Get Dcim_manufacturers [(''name'', JStr ''Cisco'')] Ok,
       Print ''[INFO] Creating manufacturer 'Cisco'...'',
       Create Dcim_manufacturers [(''name'', JStr ''Cisco'')] Ok,
       Get Dcim_device_types
         [(''model'', JStr ''C9300-48P''), (''manufacturer'', JId (mf_id mf))] Ok,
       Print (''[INFO] Creating device type 'C9300-48P' for manufacturer ''
              @ quoted (mf_name mf) @ ''...''),
       Create Dcim_device_types
         [(''model'', JStr ''C9300-48P''), (''manufacturer'', JId (mf_id mf))] Ok,
       Get Extras_roles [(''name'', JStr ''Access Switch'')] Ok,
       Print ''[INFO] Creating role 'Access Switch' for devices...'',
       Create Extras_roles
         [(''name'', JStr ''Access Switch''),
          (''description'', JStr ''Device role for Access Switch''),
          (''content_types'', JList [''dcim.device''])] Ok,
       Get Dcim_devices
         [(''name'', JStr ''myswitch001''), (''location'', JId (loc_id loc))] Ok,
       Print ''[INFO] Creating new device 'myswitch001'...'',
       Create Dcim_devices
         [(''name'', JStr ''myswitch001''), (''device_type'', JId (dt_id dt)),
          (''role'', JId (role_id r)), (''location'', JId (loc_id loc)),
          (''status'', JStr ''Active'')] Ok]
           @ summary d, s6)"
    by (simp add: pipeline_def and_then_def 1 2 3 4 5 6)
  with url token nb show ?thesis
    by (simp add: main_def falsy_def summary_def)
qed

lemma reference_fresh_run:
  assumes url: "environ ''NAUTOBOT_API_URL'' = Some url" "url \<noteq> ''''"
    and token: "environ ''NAUTOBOT_API_TOKEN'' = Some token" "token \<noteq> ''''"
    and wf: "well_formed s"
    and absent:
      "\<forall>r\<in>set (srv_location_types s). lt_name r \<noteq> ''Campus''"
      "\<forall>r\<in>set (srv_locations s). loc_name r \<noteq> ''MyCampusLocation''"
      "\<forall>r\<in>set (srv_manufacturers s). mf_name r \<noteq> ''Cisco''"
      "\<forall>r\<in>set (srv_device_types s). dt_model r \<noteq> ''C9300-48P''"
      "\<forall>r\<in>set (srv_roles s). role_name r \<noteq> ''Access Switch''"
      "\<forall>r\<in>set (srv_devices s). dev_name r \<noteq> ''myswitch001''"
    and n: "n = srv_next_id s"
  shows "main environ (\<lambda>url token. reference_api permissive) s =
     (Return (),
      [ApiInit url token,
       Get Dcim_location_types [(''name'', JStr ''Campus'')] Ok,
       Print ''[INFO] Creating location type 'Campus'...'',
       Create Dcim_location_types
         [(''name'', JStr ''Campus''), (''description'', JStr ''Created by script for Campus''),
          (''content_types'', JList [''dcim.device''])] Ok,
       Get Dcim_locations [(''name'', JStr ''MyCampusLocation'')] Ok,
       Print ''[INFO] Creating location 'MyCampusLocation' with type 'Campus'...'',
       Create Dcim_locations
         [(''name'', JStr ''MyCampusLocation''), (''location_type'', JId n),
          (''status'', JStr ''Active'')] Ok,
       Get Dcim_manufacturers [(''name'', JStr ''Cisco'')] Ok,
       Print ''[INFO] Creating manufacturer 'Cisco'...'',
       Create Dcim_manufacturers [(''name'', JStr ''Cisco'')] Ok,
       Get Dcim_device_types
         [(''model'', JStr ''C9300-48P''), (''manufacturer'', JId (n + 2))] Ok,
       Print ''[INFO] Creating device type 'C9300-48P' for manufacturer 'Cisco'...'',
       Create Dcim_device_types
         [(''model'', JStr ''C9300-48P''), (''manufacturer'', JId (n + 2))] Ok,
       Get Extras_roles [(''name'', JStr ''Access Switch'')] Ok,
       Print ''[INFO] Creating role 'Access Switch' for devices...'',
       Create Extras_roles
         [(''name'', JStr ''Access Switch''),
          (''description'', JStr ''Device role for Access Switch''),
          (''content_types'', JList [''dcim.device''])] Ok,
       Get Dcim_devices [(''name'', JStr ''myswitch001''), (''location'', JId (n + 1))] Ok,
       Print ''[INFO] Creating new device 'myswitch001'...'',
       Create Dcim_devices
         [(''name'', JStr ''myswitch001''), (''device_type'', JId (n + 3)),
          (''role'', JId (n + 4)), (''location'', JId (n + 1)), (''status'', JStr ''Active'')] Ok,
       Print ''[SUCCESS] Device created or retrieved successfully:'',
       Print ''  Name:     myswitch001'',
       Print ''  Location: MyCampusLocation'',
       Print ''  Role:     Access Switch'',
       Print ''  Type:     C9300-48P'',
       Print ''  Status:   Active''],
      s\<lparr>srv_location_types := srv_location_types s @
           [\<lparr>lt_id = n, lt_name = ''Campus'',
             lt_description = ''Created by script for Campus'',
             lt_content_types = [''dcim.device'']\<rparr>],
        srv_locations := srv_locations s @
           [\<lparr>loc_id = n + 1, loc_name = ''MyCampusLocation'', loc_location_type = n,
             loc_status = ''Active''\<rparr>],
        srv_manufacturers := srv_manufacturers s @ [\<lparr>mf_id = n + 2, mf_name = ''Cisco''\<rparr>],
        srv_device_types := srv_device_types s @
           [\<lparr>dt_id = n + 3, dt_model = ''C9300-48P'', dt_manufacturer = n + 2\<rparr>],
        srv_roles := srv_roles s @
           [\<lparr>role_id = n + 4, role_name = ''Access Switch'',
             role_description = ''Device role for Access Switch'',
             role_content_types = [''dcim.device'']\<rparr>],
        srv_devices := srv_devices s @
           [\<lparr>dev_id = n + 5, dev_name = ''myswitch001'',
             dev_device_type =
               \<lparr>dt_id = n + 3, dt_model = ''C9300-48P'', dt_manufacturer = n + 2\<rparr>,
             dev_role =
               \<lparr>role_id = n + 4, role_name = ''Access Switch'',
                role_description = ''Device role for Access Switch'',
                role_content_types = [''dcim.device'']\<rparr>,
             dev_location =
               \<lparr>loc_id = n + 1, loc_name = ''MyCampusLocation'', loc_location_type = n,
                loc_status = ''Active''\<rparr>,
             dev_status = ''Active''\<rparr>],
        srv_next_id := n + 6\<rparr>)"
proof -
  from wf n have ids:
    "list_all (\<lambda>r. loc_id r < n) (srv_locations s)"
    "list_all (\<lambda>r. dt_id r < n) (srv_device_types s)"
    "list_all (\<lambda>r. role_id r < n) (srv_roles s)"
    by (simp_all add: well_formed_def)
  show ?thesis
    using url token absent n
    by (simp add: run_defs reference_api_simps store_def permissive_def lookup_absent
          matches_simps new_location_type_def new_location_def new_manufacturer_def
          new_device_type_def new_role_def new_device_def by_id_def str_field_def id_field_def
          list_field_def find_fresh [OF ids(1)] find_fresh [OF ids(2)] find_fresh [OF ids(3)])
qed

subsection \<open>A second run finds what the first one left\<close>

text \<open>A run against a fresh server that accepts every request.\<close>

lemma fresh_run:
  "main configured (\<lambda>url token. reference_api permissive) fresh_server =
     (Return (),
      [ApiInit ''https://nautobot.example'' ''secret'',
       Get Dcim_location_types [(''name'', JStr ''Campus'')] Ok,
       Print ''[INFO] Creating location type 'Campus'...'',
       Create Dcim_location_types
         [(''name'', JStr ''Campus''), (''description'', JStr ''Created by script for Campus''),
          (''content_types'', JList [''dcim.device''])] Ok,
       Get Dcim_locations [(''name'', JStr ''MyCampusLocation'')] Ok,
       Print ''[INFO] Creating location 'MyCampusLocation' with type 'Campus'...'',
       Create Dcim_locations
         [(''name'', JStr ''MyCampusLocation''), (''location_type'', JId 0),
          (''status'', JStr ''Active'')] Ok,
       Get Dcim_manufacturers [(''name'', JStr ''Cisco'')] Ok,
       Print ''[INFO] Creating manufacturer 'Cisco'...'',
       Create Dcim_manufacturers [(''name'', JStr ''Cisco'')] Ok,
       Get Dcim_device_types [(''model'', JStr ''C9300-48P''), (''manufacturer'', JId 2)] Ok,
       Print ''[INFO] Creating device type 'C9300-48P' for manufacturer 'Cisco'...'',
       Create Dcim_device_types
         [(''model'', JStr ''C9300-48P''), (''manufacturer'', JId 2)] Ok,
       Get Extras_roles [(''name'', JStr ''Access Switch'')] Ok,
       Print ''[INFO] Creating role 'Access Switch' for devices...'',
       Create Extras_roles
         [(''name'', JStr ''Access Switch''),
          (''description'', JStr ''Device role for Access Switch''),
          (''content_types'', JList [''dcim.device''])] Ok,
       Get Dcim_devices [(''name'', JStr ''myswitch001''), (''location'', JId 1)] Ok,
       Print ''[INFO] Creating new device 'myswitch001'...'',
       Create Dcim_devices
         [(''name'', JStr ''myswitch001''), (''device_type'', JId 3), (''role'', JId 4),
          (''location'', JId 1), (''status'', JStr ''Active'')] Ok,
       Print ''[SUCCESS] Device created or retrieved successfully:'',
       Print ''  Name:     myswitch001'',
       Print ''  Location: MyCampusLocation'',
       Print ''  Role:     Access Switch'',
       Print ''  Type:     C9300-48P'',
       Print ''  Status:   Active''],
      provisioned)"
  by (simp add: run_defs reference_api_simps reference_defs example_defs)

lemma and_then_Return:
  assumes "and_then m f s = (Return y, t, s')"
  obtains x ta sa tb where
    "m s = (Return x, ta, sa)" "f x sa = (Return y, tb, s')" "t = ta @ tb"
proof -
  obtain out ta sa where ms: "m s = (out, ta, sa)"
    by (cases "m s") auto
  show ?thesis
  proof (cases out)
    case (Return x)
    obtain r tb sb where fx: "f x sa = (r, tb, sb)"
      by (cases "f x sa") auto
    with assms ms Return have "r = Return y" "t = ta @ tb" "sb = s'"
      by (simp_all add: and_then_def)
    with ms Return fx show ?thesis
      by (intro that [of x ta sa tb]) simp_all
  next
    case (SysExit c)
    with assms ms show ?thesis by (simp add: and_then_def)
  next
    case (Raise e)
    with assms ms show ?thesis by (simp add: and_then_def)
  qed
qed

lemma lookup_cases:
  "lookup pol ep attrs q rows =
     (case query_error pol ep q of
        Some e \<Rightarrow> Inl (RequestError e)
      | None \<Rightarrow>
          (case filter (\<lambda>r. matches q (attrs r)) rows of
             [] \<Rightarrow> Inr None
           | [r] \<Rightarrow> Inr (Some r)
           | _ \<Rightarrow> Inl (OtherException ''ValueError: get() returned more than one result.'')))"
  unfolding lookup_def too_many_def by (rule refl)

lemma settles:
  fixes coll :: "server \<Rightarrow> 'a list"
  assumes run: "resolver ep tolerant q p found creating what
                  (\<lambda>q s. lookup pol ep attrs q (coll s))
                  (\<lambda>p s. store pol ep p (parse s p) add s) s = (Return r, t, s')"
    and tol: "tolerant \<Longrightarrow> query_error pol ep q = None"
    and pm: "\<And>x. parse s p = Some x \<Longrightarrow> matches q (attrs x)"
    and ca: "\<And>x n. coll ((add x s)\<lparr>srv_next_id := n\<rparr>) = coll s @ [x]"
  shows "lookup pol ep attrs q (coll s') = Inr (Some r)"
proof (cases "lookup pol ep attrs q (coll s)")
  case (Inl e)
  show ?thesis
  proof (cases e)
    case (RequestError m)
    with Inl have refused: "query_error pol ep q = Some m"
      by (simp add: lookup_cases split: option.splits list.splits)
    show ?thesis
    proof (cases tolerant)
      case True
      with tol refused show ?thesis by simp
    next
      case False
      with run Inl RequestError show ?thesis
        by (simp add: resolver_def)
    qed
  next
    case (OtherException m)
    with run Inl show ?thesis
      by (simp add: resolver_def)
  qed
next
  case (Inr found_one)
  show ?thesis
  proof (cases found_one)
    case (Some r0)
    with run Inr have "r = r0" "s' = s"
      by (simp_all add: resolver_def)
    with Inr Some show ?thesis by simp
  next
    case None
    with Inr have answered: "query_error pol ep q = None"
      and no_match: "filter (\<lambda>r. matches q (attrs r)) (coll s) = []"
      by (simp_all add: lookup_cases split: option.splits list.splits)
    from run Inr None have
      made: "attempt_create ep p what (\<lambda>p s. store pol ep p (parse s p) add s)
               [Get ep q Ok, Print creating] s = (Return r, t, s')"
      by (simp add: resolver_def)
    then have "parse s p = Some r"
      and "s' = (add r s)\<lparr>srv_next_id := Suc (srv_next_id s)\<rparr>"
      by (auto simp: attempt_create_def store_def split: option.splits exn.splits)
    with pm ca have new: "matches q (attrs r)" "coll s' = coll s @ [r]"
      by simp_all
    from no_match new have "filter (\<lambda>r. matches q (attrs r)) (coll s') = [r]"
      by simp
    with answered show ?thesis
      by (simp add: lookup_cases)
  qed
qed

lemma reference_settles:
  "get_or_create_location_type (reference_api pol) n s = (Return lt, t, s') \<Longrightarrow>
   dcim_location_types_get (reference_api pol) [(''name'', JStr n)] s' = Inr (Some lt)"
  "get_or_create_location (reference_api pol) n lt0 s = (Return loc, t, s') \<Longrightarrow>
   dcim_locations_get (reference_api pol) [(''name'', JStr n)] s' = Inr (Some loc)"
  "get_or_create_manufacturer (reference_api pol) n s = (Return mf, t, s') \<Longrightarrow>
   dcim_manufacturers_get (reference_api pol) [(''name'', JStr n)] s' = Inr (Some mf)"
  "get_or_create_device_type (reference_api pol) n mf0 s = (Return dt, t, s') \<Longrightarrow>
   query_error pol Dcim_device_types [(''model'', JStr n), (''manufacturer'', JId (mf_id mf0))]
     = None \<Longrightarrow>
   dcim_device_types_get (reference_api pol)
     [(''model'', JStr n), (''manufacturer'', JId (mf_id mf0))] s' = Inr (Some dt)"
  "get_or_create_role (reference_api pol) n s = (Return r, t, s') \<Longrightarrow>
   extras_roles_get (reference_api pol) [(''name'', JStr n)] s' = Inr (Some r)"
  "create_device (reference_api pol) n loc0 dt0 r0 s = (Return d, t, s') \<Longrightarrow>
   dcim_devices_get (reference_api pol)
     [(''name'', JStr n), (''location'', JId (loc_id loc0))] s' = Inr (Some d)"
proof -
  assume "get_or_create_location_type (reference_api pol) n s = (Return lt, t, s')"
  then show "dcim_location_types_get (reference_api pol) [(''name'', JStr n)] s'
               = Inr (Some lt)"
    unfolding get_or_create_location_type_resolver reference_api_simps
    by (rule settles [where coll = srv_location_types
                        and parse = "\<lambda>s. new_location_type (srv_next_id s)"])
       (auto simp: new_location_type_def str_field_def list_field_def matches_simps)
next
  assume "get_or_create_location (reference_api pol) n lt0 s = (Return loc, t, s')"
  then show "dcim_locations_get (reference_api pol) [(''name'', JStr n)] s' = Inr (Some loc)"
    unfolding get_or_create_location_resolver reference_api_simps
    by (rule settles [where coll = srv_locations
                        and parse = "\<lambda>s. new_location (srv_next_id s)"])
       (auto simp: new_location_def str_field_def id_field_def matches_simps)
next
  assume "get_or_create_manufacturer (reference_api pol) n s = (Return mf, t, s')"
  then show "dcim_manufacturers_get (reference_api pol) [(''name'', JStr n)] s'
               = Inr (Some mf)"
    unfolding get_or_create_manufacturer_resolver reference_api_simps
    by (rule settles [where coll = srv_manufacturers
                        and parse = "\<lambda>s. new_manufacturer (srv_next_id s)"])
       (auto simp: new_manufacturer_def str_field_def matches_simps)
next
  assume "get_or_create_device_type (reference_api pol) n mf0 s = (Return dt, t, s')"
    and "query_error pol Dcim_device_types
           [(''model'', JStr n), (''manufacturer'', JId (mf_id mf0))] = None"
  then show "dcim_device_types_get (reference_api pol)
     [(''model'', JStr n), (''manufacturer'', JId (mf_id mf0))] s' = Inr (Some dt)"
    unfolding get_or_create_device_type_resolver reference_api_simps
    by (intro settles [where coll = srv_device_types
                         and parse = "\<lambda>s. new_device_type (srv_next_id s)"])
       (auto simp: new_device_type_def str_field_def id_field_def matches_simps)
next
  assume "get_or_create_role (reference_api pol) n s = (Return r, t, s')"
  then show "extras_roles_get (reference_api pol) [(''name'', JStr n)] s' = Inr (Some r)"
    unfolding get_or_create_role_resolver reference_api_simps
    by (rule settles [where coll = srv_roles and parse = "\<lambda>s. new_role (srv_next_id s)"])
       (auto simp: new_role_def str_field_def list_field_def matches_simps)
next
  assume "create_device (reference_api pol) n loc0 dt0 r0 s = (Return d, t, s')"
  then show "dcim_devices_get (reference_api pol)
     [(''name'', JStr n), (''location'', JId (loc_id loc0))] s' = Inr (Some d)"
    unfolding create_device_resolver reference_api_simps
    by (rule settles [where coll = srv_devices and parse = "\<lambda>s. new_device s (srv_next_id s)"])
       (auto simp: new_device_def by_id_def str_field_def id_field_def matches_simps
                   find_Some_iff
             split: option.splits)
qed

lemma resolver_creates_in_own:
  "resolver ep tolerant q p found creating what get create s = (out, t, s') \<Longrightarrow> ep' \<noteq> ep \<Longrightarrow>
   created ep' t = 0"
  by (auto simp: resolver_def attempt_create_def
           split: sum.splits option.splits exn.splits prod.splits if_splits)

lemma resolver_frame:
  assumes "appends ep create"
    and "resolver ep tolerant q p found creating what get create s = (out, t, s')"
    and "ep' \<noteq> ep"
  shows "contents s' ep' = contents s ep'"
proof -
  from resolver_keeps [OF assms(1), of s tolerant q p found creating what get] assms(2)
  obtain new where "contents s' ep' = contents s ep' @ new" "length new = created ep' t"
    unfolding keeps_def by auto
  with resolver_creates_in_own [OF assms(2,3)] show ?thesis
    by simp
qed

lemma reference_frame:
  "get_or_create_location_type (reference_api pol) n s = (out1, t, s') \<Longrightarrow>
   ep \<noteq> Dcim_location_types \<Longrightarrow> contents s' ep = contents s ep"
  "get_or_create_location (reference_api pol) n lt0 s = (out2, t, s') \<Longrightarrow>
   ep \<noteq> Dcim_locations \<Longrightarrow> contents s' ep = contents s ep"
  "get_or_create_manufacturer (reference_api pol) n s = (out3, t, s') \<Longrightarrow>
   ep \<noteq> Dcim_manufacturers \<Longrightarrow> contents s' ep = contents s ep"
  "get_or_create_device_type (reference_api pol) n mf0 s = (out4, t, s') \<Longrightarrow>
   ep \<noteq> Dcim_device_types \<Longrightarrow> contents s' ep = contents s ep"
  "get_or_create_role (reference_api pol) n s = (out5, t, s') \<Longrightarrow>
   ep \<noteq> Extras_roles \<Longrightarrow> contents s' ep = contents s ep"
  "create_device (reference_api pol) n loc0 dt0 r0 s = (out6, t, s') \<Longrightarrow>
   ep \<noteq> Dcim_devices \<Longrightarrow> contents s' ep = contents s ep"
  unfolding resolvers
  by (erule resolver_frame [OF reference_appends(1)] resolver_frame [OF reference_appends(2)]
            resolver_frame [OF reference_appends(3)] resolver_frame [OF reference_appends(4)]
            resolver_frame [OF reference_appends(5)] resolver_frame [OF reference_appends(6)],
      assumption)+

lemma reference_get_cong:
  "contents s' Dcim_location_types = contents s Dcim_location_types \<Longrightarrow>
   dcim_location_types_get (reference_api pol) q s' = dcim_location_types_get (reference_api pol) q s"
  "contents s' Dcim_locations = contents s Dcim_locations \<Longrightarrow>
   dcim_locations_get (reference_api pol) q s' = dcim_locations_get (reference_api pol) q s"
  "contents s' Dcim_manufacturers = contents s Dcim_manufacturers \<Longrightarrow>
   dcim_manufacturers_get (reference_api pol) q s' = dcim_manufacturers_get (reference_api pol) q s"
  "contents s' Dcim_device_types = contents s Dcim_device_types \<Longrightarrow>
   dcim_device_types_get (reference_api pol) q s' = dcim_device_types_get (reference_api pol) q s"
  "contents s' Extras_roles = contents s Extras_roles \<Longrightarrow>
   extras_roles_get (reference_api pol) q s' = extras_roles_get (reference_api pol) q s"
  "contents s' Dcim_devices = contents s Dcim_devices \<Longrightarrow>
   dcim_devices_get (reference_api pol) q s' = dcim_devices_get (reference_api pol) q s"
  by (simp_all add: reference_api_simps inj_map_eq_map inj_def)

lemma pipeline_all_found:
  assumes "dcim_location_types_get nb [(''name'', JStr ''Campus'')] s = Inr (Some lt)"
    and "dcim_locations_get nb [(''name'', JStr ''MyCampusLocation'')] s = Inr (Some loc)"
    and "dcim_manufacturers_get nb [(''name'', JStr ''Cisco'')] s = Inr (Some mf)"
    and "dcim_device_types_get nb
           [(''model'', JStr ''C9300-48P''), (''manufacturer'', JId (mf_id mf))] s
         = Inr (Some dt)"
    and "extras_roles_get nb [(''name'', JStr ''Access Switch'')] s = Inr (Some r)"
    and "dcim_devices_get nb
           [(''name'', JStr ''myswitch001''), (''location'', JId (loc_id loc))] s
         = Inr (Some d)"
  shows "pipeline nb s =
     (Return (),
      [Get Dcim_location_types [(''name'', JStr ''Campus'')] Ok,
       Print (''[INFO] Found existing location type: '' @ lt_name lt),
       Get Dcim_locations [(''name'', JStr ''MyCampusLocation'')] Ok,
       Print (''[INFO] Found existing location: '' @ loc_name loc),
       Get Dcim_manufacturers [(''name'', JStr ''Cisco'')] Ok,
       Print (''[INFO] Found existing manufacturer: '' @ mf_name mf),
       Get Dcim_device_types
         [(''model'', JStr ''C9300-48P''), (''manufacturer'', JId (mf_id mf))] Ok,
       Print (''[INFO] Found existing device type: '' @ dt_model dt),
       Get Extras_roles [(''name'', JStr ''Access Switch'')] Ok,
       Print (''[INFO] Found existing role: '' @ role_name r),
       Get Dcim_devices
         [(''name'', JStr ''myswitch001''), (''location'', JId (loc_id loc))] Ok,
       Print (''[WARNING] Device '' @ quoted ''myswitch001''
              @ '' already exists at location '' @ quoted (loc_name loc) @ ''.'')]
      @ summary d,
      s)"
  using assms by (simp add: pipeline_def resolvers and_then_found)

lemma pipeline_second_run:
  assumes first: "pipeline (reference_api pol) s = (Return (), t1, s1)"
    and answers: "\<And>q. query_error pol Dcim_device_types q = None"
  shows "\<exists>t2 d pre.
           t1 = pre @ summary d
           \<and> pipeline (reference_api pol) s1 = (Return (), t2 @ summary d, s1)
           \<and> length (filter is_get t2) = 6 \<and> filter is_create t2 = []"
proof -
  let ?nb = "reference_api pol"
  from first obtain lt ta sa tb where
    st1: "get_or_create_location_type ?nb ''Campus'' s = (Return lt, ta, sa)"
    and rest1: "and_then (get_or_create_location ?nb ''MyCampusLocation'' lt) (\<lambda>location.
     and_then (get_or_create_manufacturer ?nb ''Cisco'') (\<lambda>manufacturer.
     and_then (get_or_create_device_type ?nb ''C9300-48P'' manufacturer) (\<lambda>device_type.
     and_then (get_or_create_role ?nb ''Access Switch'') (\<lambda>role.
     and_then (create_device ?nb ''myswitch001'' location device_type role) (\<lambda>new_device s.
       (Return (), summary new_device, s)))))) sa = (Return (), tb, s1)"
    and t1: "t1 = ta @ tb"
    unfolding pipeline_def by (rule and_then_Return)
  from rest1 obtain loc tc sb td where
    st2: "get_or_create_location ?nb ''MyCampusLocation'' lt sa = (Return loc, tc, sb)"
    and rest2: "and_then (get_or_create_manufacturer ?nb ''Cisco'') (\<lambda>manufacturer.
     and_then (get_or_create_device_type ?nb ''C9300-48P'' manufacturer) (\<lambda>device_type.
     and_then (get_or_create_role ?nb ''Access Switch'') (\<lambda>role.
     and_then (create_device ?nb ''myswitch001'' loc device_type role) (\<lambda>new_device s.
       (Return (), summary new_device, s))))) sb = (Return (), td, s1)"
    and tb: "tb = tc @ td"
    by (rule and_then_Return)
  from rest2 obtain mf te sc tf where
    st3: "get_or_create_manufacturer ?nb ''Cisco'' sb = (Return mf, te, sc)"
    and rest3: "and_then (get_or_create_device_type ?nb ''C9300-48P'' mf) (\<lambda>device_type.
     and_then (get_or_create_role ?nb ''Access Switch'') (\<lambda>role.
     and_then (create_device ?nb ''myswitch001'' loc device_type role) (\<lambda>new_device s.
       (Return (), summary new_device, s)))) sc = (Return (), tf, s1)"
    and td: "td = te @ tf"
    by (rule and_then_Return)
  from rest3 obtain dt tg sd th where
    st4: "get_or_create_device_type ?nb ''C9300-48P'' mf sc = (Return dt, tg, sd)"
    and rest4: "and_then (get_or_create_role ?nb ''Access Switch'') (\<lambda>role.
     and_then (create_device ?nb ''myswitch001'' loc dt role) (\<lambda>new_device s.
       (Return (), summary new_device, s))) sd = (Return (), th, s1)"
    and tf: "tf = tg @ th"
    by (rule and_then_Return)
  from rest4 obtain r ti se tj where
    st5: "get_or_create_role ?nb ''Access Switch'' sd = (Return r, ti, se)"
    and rest5: "and_then (create_device ?nb ''myswitch001'' loc dt r) (\<lambda>new_device s.
       (Return (), summary new_device, s)) se = (Return (), tj, s1)"
    and th: "th = ti @ tj"
    by (rule and_then_Return)
  from rest5 obtain d tk sf tl where
    st6: "create_device ?nb ''myswitch001'' loc dt r se = (Return d, tk, sf)"
    and last: "(Return (), summary d, sf) = (Return (), tl, s1)"
    and tj: "tj = tk @ tl"
    by (rule and_then_Return)
  from last have sf: "sf = s1" and tl: "tl = summary d"
    by simp_all
  note st6 = st6 [unfolded sf]
  have pre: "t1 = (ta @ tc @ te @ tg @ ti @ tk) @ summary d"
    using t1 tb td tf th tj tl by simp
  have f6: "dcim_devices_get ?nb
              [(''name'', JStr ''myswitch001''), (''location'', JId (loc_id loc))] s1
            = Inr (Some d)"
    by (rule reference_settles(6) [OF st6])
  have "contents s1 Extras_roles = contents se Extras_roles"
    using reference_frame(6) [OF st6, of Extras_roles] by simp
  from reference_get_cong(5) [OF this] have f5: "extras_roles_get ?nb [(''name'', JStr ''Access Switch'')] s1 = Inr (Some r)"
    using reference_settles(5) [OF st5] by simp
  have "contents s1 Dcim_device_types = contents sd Dcim_device_types"
    using reference_frame(6) [OF st6, of Dcim_device_types]
          reference_frame(5) [OF st5, of Dcim_device_types] by simp
  from reference_get_cong(4) [OF this] have f4: "dcim_device_types_get ?nb
                   [(''model'', JStr ''C9300-48P''), (''manufacturer'', JId (mf_id mf))] s1
                 = Inr (Some dt)"
    using reference_settles(4) [OF st4 answers] by simp
  have "contents s1 Dcim_manufacturers = contents sc Dcim_manufacturers"
    using reference_frame(6) [OF st6, of Dcim_manufacturers]
          reference_frame(5) [OF st5, of Dcim_manufacturers]
          reference_frame(4) [OF st4, of Dcim_manufacturers] by simp
  from reference_get_cong(3) [OF this] have f3: "dcim_manufacturers_get ?nb [(''name'', JStr ''Cisco'')] s1 = Inr (Some mf)"
    using reference_settles(3) [OF st3] by simp
  have "contents s1 Dcim_locations = contents sb Dcim_locations"
    using reference_frame(6) [OF st6, of Dcim_locations]
          reference_frame(5) [OF st5, of Dcim_locations]
          reference_frame(4) [OF st4, of Dcim_locations]
          reference_frame(3) [OF st3, of Dcim_locations] by simp
  from reference_get_cong(2) [OF this] have f2: "dcim_locations_get ?nb [(''name'', JStr ''MyCampusLocation'')] s1
                 = Inr (Some loc)"
    using reference_settles(2) [OF st2] by simp
  have "contents s1 Dcim_location_types = contents sa Dcim_location_types"
    using reference_frame(6) [OF st6, of Dcim_location_types]
          reference_frame(5) [OF st5, of Dcim_location_types]
          reference_frame(4) [OF st4, of Dcim_location_types]
          reference_frame(3) [OF st3, of Dcim_location_types]
          reference_frame(2) [OF st2, of Dcim_location_types] by simp
  from reference_get_cong(1) [OF this] have f1: "dcim_location_types_get ?nb [(''name'', JStr ''Campus'')] s1
                 = Inr (Some lt)"
    using reference_settles(1) [OF st1] by simp
  from pipeline_all_found [OF f1 f2 f3 f4 f5 f6] pre show ?thesis
    by (intro exI conjI) (assumption, assumption, simp_all)
qed

lemma main_second_run:
  assumes first: "main environ (\<lambda>url token. reference_api pol) s = (Return (), t1, s1)"
    and answers: "\<forall>q. query_error pol Dcim_device_types q = None"
  shows "\<exists>t2 d pre.
           t1 = pre @ summary d
           \<and> main environ (\<lambda>url token. reference_api pol) s1 = (Return (), t2 @ summary d, s1)
           \<and> length (filter is_get t2) = 6 \<and> filter is_create t2 = []"
proof -
  let ?url = "the (environ ''NAUTOBOT_API_URL'')"
  let ?token = "the (environ ''NAUTOBOT_API_TOKEN'')"
  have env: "\<not> (falsy (environ ''NAUTOBOT_API_URL'') \<or> falsy (environ ''NAUTOBOT_API_TOKEN''))"
    using first by (auto simp: main_def)
  obtain out t s' where p: "pipeline (reference_api pol) s = (out, t, s')"
    by (cases "pipeline (reference_api pol) s") auto
  with first env have "out = Return ()" "t1 = ApiInit ?url ?token # t" "s' = s1"
    by (simp_all add: main_def)
  with p have run: "pipeline (reference_api pol) s = (Return (), t, s1)"
    and t1: "t1 = ApiInit ?url ?token # t"
    by simp_all
  from pipeline_second_run [OF run] answers obtain t2 d pre where
    t: "t = pre @ summary d"
    and again: "pipeline (reference_api pol) s1 = (Return (), t2 @ summary d, s1)"
    and calls: "length (filter is_get t2) = 6" "filter is_create t2 = []"
    by blast
  from t1 t have "t1 = (ApiInit ?url ?token # pre) @ summary d"
    by simp
  moreover from again env have
    "main environ (\<lambda>url token. reference_api pol) s1
       = (Return (), (ApiInit ?url ?token # t2) @ summary d, s1)"
    by (simp add: main_def)
  moreover from calls have
    "length (filter is_get (ApiInit ?url ?token # t2)) = 6"
    "filter is_create (ApiInit ?url ?token # t2) = []"
    by simp_all
  ultimately show ?thesis
    by blast
qed

section \<open>Start-up\<close>

text \<open>
  Claim C5. If \<^verbatim>\<open>NAUTOBOT_API_URL\<close> or \<^verbatim>\<open>NAUTOBOT_API_TOKEN\<close> is unset or empty,
  \<open>main\<close> prints the error line and exits with status 1: the run has no other event (the
  client is not constructed, no call is made) and the remote state is untouched, whatever
  the constructor \<open>pynautobot_api\<close> would do.
\<close>

theorem missing_environment_exits_first:
  assumes "environ ''NAUTOBOT_API_URL'' = None \<or> environ ''NAUTOBOT_API_URL'' = Some ''''
           \<or> environ ''NAUTOBOT_API_TOKEN'' = None \<or> environ ''NAUTOBOT_API_TOKEN'' = Some ''''"
  shows "main environ pynautobot_api s =
           (SysExit 1,
            [Print ''[ERROR] Missing NAUTOBOT_API_URL or NAUTOBOT_API_TOKEN environment variable.''],
            s)"
  using assms by (auto simp add: main_def falsy_def)

theorem missing_environment_exits_first_witness:
  "main [''NAUTOBOT_API_URL'' \<mapsto> ''https://nautobot.example''] (\<lambda>u t. reference_api permissive)
        fresh_server =
     (SysExit 1,
      [Print ''[ERROR] Missing NAUTOBOT_API_URL or NAUTOBOT_API_TOKEN environment variable.''],
      fresh_server)"
  using missing_environment_exits_first
          [of "[''NAUTOBOT_API_URL'' \<mapsto> ''https://nautobot.example'']"
              "\<lambda>u t. reference_api permissive" fresh_server]
  by simp

section \<open>Errors of the lookup\<close>

text \<open>
  Claim C9. In the five resolvers other than the device-type resolver, a
  \<^verbatim>\<open>RequestError\<close> raised by the lookup escapes the resolver: the outcome is the
  exception itself, the only event is the lookup (nothing is printed, no create is issued,
  there is no exit with status 1) and the remote state is unchanged.
\<close>

theorem lookup_error_escapes_five_resolvers:
  "(dcim_location_types_get nb [(''name'', JStr n)] s = Inl (RequestError e) \<longrightarrow>
      get_or_create_location_type nb n s =
        (Raise (RequestError e),
         [Get Dcim_location_types [(''name'', JStr n)] (Raised (RequestError e))], s))
   \<and> (dcim_locations_get nb [(''name'', JStr n)] s = Inl (RequestError e) \<longrightarrow>
      get_or_create_location nb n lt s =
        (Raise (RequestError e),
         [Get Dcim_locations [(''name'', JStr n)] (Raised (RequestError e))], s))
   \<and> (dcim_manufacturers_get nb [(''name'', JStr n)] s = Inl (RequestError e) \<longrightarrow>
      get_or_create_manufacturer nb n s =
        (Raise (RequestError e),
         [Get Dcim_manufacturers [(''name'', JStr n)] (Raised (RequestError e))], s))
   \<and> (extras_roles_get nb [(''name'', JStr n)] s = Inl (RequestError e) \<longrightarrow>
      get_or_create_role nb n s =
        (Raise (RequestError e),
         [Get Extras_roles [(''name'', JStr n)] (Raised (RequestError e))], s))
   \<and> (dcim_devices_get nb [(''name'', JStr n), (''location'', JId (loc_id loc))] s
        = Inl (RequestError e) \<longrightarrow>
      create_device nb n loc dt r s =
        (Raise (RequestError e),
         [Get Dcim_devices [(''name'', JStr n), (''location'', JId (loc_id loc))]
            (Raised (RequestError e))], s))"
  by (simp add: resolvers resolver_lookup_error)

theorem lookup_error_escapes_five_resolvers_witness:
  "get_or_create_location_type (reference_api no_queries) ''Campus'' provisioned =
     (Raise (RequestError ''403 Forbidden''),
      [Get Dcim_location_types [(''name'', JStr ''Campus'')]
         (Raised (RequestError ''403 Forbidden''))], provisioned)
   \<and> get_or_create_location (reference_api no_queries) ''MyCampusLocation'' campus provisioned =
     (Raise (RequestError ''403 Forbidden''),
      [Get Dcim_locations [(''name'', JStr ''MyCampusLocation'')]
         (Raised (RequestError ''403 Forbidden''))], provisioned)
   \<and> get_or_create_manufacturer (reference_api no_queries) ''Cisco'' provisioned =
     (Raise (RequestError ''403 Forbidden''),
      [Get Dcim_manufacturers [(''name'', JStr ''Cisco'')]
         (Raised (RequestError ''403 Forbidden''))], provisioned)
   \<and> get_or_create_role (reference_api no_queries) ''Access Switch'' provisioned =
     (Raise (RequestError ''403 Forbidden''),
      [Get Extras_roles [(''name'', JStr ''Access Switch'')]
         (Raised (RequestError ''403 Forbidden''))], provisioned)
   \<and> create_device (reference_api no_queries) ''myswitch001'' my_campus_location c9300
        access_switch provisioned =
     (Raise (RequestError ''403 Forbidden''),
      [Get Dcim_devices [(''name'', JStr ''myswitch001''), (''location'', JId 1)]
         (Raised (RequestError ''403 Forbidden''))], provisioned)"
  using lookup_error_escapes_five_resolvers
          [of "reference_api no_queries" "''Campus''" provisioned "''403 Forbidden''"]
        lookup_error_escapes_five_resolvers
          [of "reference_api no_queries" "''MyCampusLocation''" provisioned "''403 Forbidden''" campus]
        lookup_error_escapes_five_resolvers
          [of "reference_api no_queries" "''Cisco''" provisioned "''403 Forbidden''"]
        lookup_error_escapes_five_resolvers
          [of "reference_api no_queries" "''Access Switch''" provisioned "''403 Forbidden''"]
        lookup_error_escapes_five_resolvers
          [of "reference_api no_queries" "''myswitch001''" provisioned "''403 Forbidden''"
              campus my_campus_location c9300 access_switch]
  by (simp add: reference_api_def no_queries_def lookup_def my_campus_location_def)

text \<open>
  Claim C4. When the lookup of the device-type resolver raises a \<^verbatim>\<open>RequestError\<close>,
  the resolver prints the creating line and issues the create request: the run is the one
  of a client whose lookup found nothing (same outcome, same events after the lookup, same
  remote state), so the error of the lookup does not end the run.
\<close>

theorem device_type_lookup_error_is_absence:
  assumes "dcim_device_types_get nb
             [(''model'', JStr m), (''manufacturer'', JId (mf_id mf))] s = Inl (RequestError e)"
  shows "\<exists>out resp rest s'.
           get_or_create_device_type nb m mf s =
             (out,
              Get Dcim_device_types [(''model'', JStr m), (''manufacturer'', JId (mf_id mf))]
                (Raised (RequestError e))
              # Print (''[INFO] Creating device type '' @ quoted m @ '' for manufacturer ''
                       @ quoted (mf_name mf) @ ''...'')
              # Create Dcim_device_types
                  [(''model'', JStr m), (''manufacturer'', JId (mf_id mf))] resp
              # rest, s')
           \<and> get_or_create_device_type (nb\<lparr>dcim_device_types_get := \<lambda>q s. Inr None\<rparr>) m mf s =
             (out,
              Get Dcim_device_types [(''model'', JStr m), (''manufacturer'', JId (mf_id mf))] Ok
              # Print (''[INFO] Creating device type '' @ quoted m @ '' for manufacturer ''
                       @ quoted (mf_name mf) @ ''...'')
              # Create Dcim_device_types
                  [(''model'', JStr m), (''manufacturer'', JId (mf_id mf))] resp
              # rest, s')"
  using assms
  by (simp add: get_or_create_device_type_resolver resolver_def attempt_create_def
           split: prod.splits sum.splits exn.splits)

theorem device_type_lookup_error_is_absence_witness:
  "get_or_create_device_type (reference_api no_manufacturer_filter) ''C9300-48P'' cisco
     provisioned =
     (Return \<lparr>dt_id = 6, dt_model = ''C9300-48P'', dt_manufacturer = 2\<rparr>,
      [Get Dcim_device_types [(''model'', JStr ''C9300-48P''), (''manufacturer'', JId 2)]
         (Raised (RequestError ''Unknown filter field'')),
       Print ''[INFO] Creating device type 'C9300-48P' for manufacturer 'Cisco'...'',
       Create Dcim_device_types
         [(''model'', JStr ''C9300-48P''), (''manufacturer'', JId 2)] Ok],
      provisioned\<lparr>srv_device_types :=
                    [c9300, \<lparr>dt_id = 6, dt_model = ''C9300-48P'', dt_manufacturer = 2\<rparr>],
                  srv_next_id := 7\<rparr>)"
proof -
  have refused:
    "dcim_device_types_get (reference_api no_manufacturer_filter)
       [(''model'', JStr ''C9300-48P''), (''manufacturer'', JId (mf_id cisco))] provisioned
     = Inl (RequestError ''Unknown filter field'')"
    by (simp add: reference_api_simps lookup_def no_manufacturer_filter_def)
  have stored:
    "dcim_device_types_create (reference_api no_manufacturer_filter)
       [(''model'', JStr ''C9300-48P''), (''manufacturer'', JId 2)] provisioned
     = (Inr \<lparr>dt_id = 6, dt_model = ''C9300-48P'', dt_manufacturer = 2\<rparr>,
        provisioned\<lparr>srv_device_types :=
                      [c9300, \<lparr>dt_id = 6, dt_model = ''C9300-48P'', dt_manufacturer = 2\<rparr>],
                    srv_next_id := 7\<rparr>)"
    by (simp add: reference_api_simps store_def no_manufacturer_filter_def new_device_type_def
          str_field_def id_field_def provisioned_def)
  from device_type_lookup_error_is_absence [OF refused]
  obtain out resp rest s' where run:
    "get_or_create_device_type (reference_api no_manufacturer_filter) ''C9300-48P'' cisco
       provisioned =
       (out,
        Get Dcim_device_types
          [(''model'', JStr ''C9300-48P''), (''manufacturer'', JId (mf_id cisco))]
          (Raised (RequestError ''Unknown filter field''))
        # Print (''[INFO] Creating device type '' @ quoted ''C9300-48P'' @ '' for manufacturer ''
                 @ quoted (mf_name cisco) @ ''...'')
        # Create Dcim_device_types
            [(''model'', JStr ''C9300-48P''), (''manufacturer'', JId (mf_id cisco))] resp
        # rest, s')"
    by blast
  show ?thesis
    using run refused stored
    by (simp add: get_or_create_device_type_resolver resolver_def attempt_create_def cisco_def
          quoted_def)
qed

section \<open>The found path\<close>

text \<open>
  Claim C1, as stated, fails on a server that refuses to filter device types by
  manufacturer: the device-type resolver takes the refused lookup for absence. The
  provisioned server holds the device type C9300-48P of Cisco, yet the resolver issues a
  create and returns the new record, not the one that was there. For the whole script: a
  first run against the empty server returns and leaves the provisioned server, and the
  second run, against that unchanged state, returns too, with six lookups, but with one
  create among its calls and two device types on the server at the end.
\<close>

theorem refused_lookup_creates_again:
  "c9300 \<in> set (srv_device_types provisioned)
   \<and> dt_model c9300 = ''C9300-48P'' \<and> dt_manufacturer c9300 = mf_id cisco
   \<and> get_or_create_device_type (reference_api no_manufacturer_filter) ''C9300-48P'' cisco
        provisioned =
       (Return \<lparr>dt_id = 6, dt_model = ''C9300-48P'', dt_manufacturer = 2\<rparr>,
        [Get Dcim_device_types [(''model'', JStr ''C9300-48P''), (''manufacturer'', JId 2)]
           (Raised (RequestError ''Unknown filter field'')),
         Print ''[INFO] Creating device type 'C9300-48P' for manufacturer 'Cisco'...'',
         Create Dcim_device_types
           [(''model'', JStr ''C9300-48P''), (''manufacturer'', JId 2)] Ok],
        provisioned\<lparr>srv_device_types :=
                      [c9300, \<lparr>dt_id = 6, dt_model = ''C9300-48P'', dt_manufacturer = 2\<rparr>],
                    srv_next_id := 7\<rparr>)
   \<and> fst (main configured (\<lambda>url token. reference_api no_manufacturer_filter) fresh_server)
       = Return ()
   \<and> snd (snd (main configured (\<lambda>url token. reference_api no_manufacturer_filter)
                  fresh_server)) = provisioned
   \<and> fst (main configured (\<lambda>url token. reference_api no_manufacturer_filter) provisioned)
       = Return ()
   \<and> filter is_create
         (fst (snd (main configured (\<lambda>url token. reference_api no_manufacturer_filter)
                      provisioned)))
       = [Create Dcim_device_types
            [(''model'', JStr ''C9300-48P''), (''manufacturer'', JId 2)] Ok]
   \<and> length (filter is_get
         (fst (snd (main configured (\<lambda>url token. reference_api no_manufacturer_filter)
                      provisioned)))) = 6
   \<and> srv_device_types
         (snd (snd (main configured (\<lambda>url token. reference_api no_manufacturer_filter)
                      provisioned)))
       = [c9300, \<lparr>dt_id = 6, dt_model = ''C9300-48P'', dt_manufacturer = 2\<rparr>]"
  by (simp add: run_defs reference_api_simps reference_defs example_defs)

text \<open>
  Claim C1, amended. In each of the six resolvers, when the lookup for the key returns the
  entity that is there, the resolver makes that one call, prints one line and returns the
  entity as the lookup gave it: no create is issued and the remote state is unchanged.
  Hence a run of \<open>main\<close> against a remote state in which all six lookups return their
  entity makes six lookups and no create, leaves the state unchanged and prints the
  summary of the device the lookup returned. On the reference server, when it answers the
  device-type query, the second of two runs is such a run: after a run that returned, a
  second run against the state the first one left returns too, with six lookups and no
  create, leaves that state as it is and prints the summary of the same device.
\<close>

theorem found_entities_are_reused:
  "(dcim_location_types_get nb [(''name'', JStr n)] s = Inr (Some lt) \<longrightarrow>
      get_or_create_location_type nb n s =
        (Return lt,
         [Get Dcim_location_types [(''name'', JStr n)] Ok,
          Print (''[INFO] Found existing location type: '' @ lt_name lt)], s))
   \<and> (dcim_locations_get nb [(''name'', JStr n)] s = Inr (Some loc) \<longrightarrow>
      get_or_create_location nb n lt' s =
        (Return loc,
         [Get Dcim_locations [(''name'', JStr n)] Ok,
          Print (''[INFO] Found existing location: '' @ loc_name loc)], s))
   \<and> (dcim_manufacturers_get nb [(''name'', JStr n)] s = Inr (Some mf) \<longrightarrow>
      get_or_create_manufacturer nb n s =
        (Return mf,
         [Get Dcim_manufacturers [(''name'', JStr n)] Ok,
          Print (''[INFO] Found existing manufacturer: '' @ mf_name mf)], s))
   \<and> (dcim_device_types_get nb [(''model'', JStr n), (''manufacturer'', JId (mf_id mf'))] s
        = Inr (Some dt) \<longrightarrow>
      get_or_create_device_type nb n mf' s =
        (Return dt,
         [Get Dcim_device_types [(''model'', JStr n), (''manufacturer'', JId (mf_id mf'))] Ok,
          Print (''[INFO] Found existing device type: '' @ dt_model dt)], s))
   \<and> (extras_roles_get nb [(''name'', JStr n)] s = Inr (Some r) \<longrightarrow>
      get_or_create_role nb n s =
        (Return r,
         [Get Extras_roles [(''name'', JStr n)] Ok,
          Print (''[INFO] Found existing role: '' @ role_name r)], s))
   \<and> (dcim_devices_get nb [(''name'', JStr n), (''location'', JId (loc_id loc'))] s
        = Inr (Some d) \<longrightarrow>
      create_device nb n loc' dt' r' s =
        (Return d,
         [Get Dcim_devices [(''name'', JStr n), (''location'', JId (loc_id loc'))] Ok,
          Print (''[WARNING] Device '' @ quoted n @ '' already exists at location ''
                 @ quoted (loc_name loc') @ ''.'')], s))
   \<and> (environ ''NAUTOBOT_API_URL'' = Some url \<and> url \<noteq> ''''
        \<and> environ ''NAUTOBOT_API_TOKEN'' = Some token \<and> token \<noteq> ''''
        \<and> dcim_location_types_get (api url token) [(''name'', JStr ''Campus'')] s0
            = Inr (Some lt0)
        \<and> dcim_locations_get (api url token) [(''name'', JStr ''MyCampusLocation'')] s0
            = Inr (Some loc0)
        \<and> dcim_manufacturers_get (api url token) [(''name'', JStr ''Cisco'')] s0
            = Inr (Some mf0)
        \<and> dcim_device_types_get (api url token)
             [(''model'', JStr ''C9300-48P''), (''manufacturer'', JId (mf_id mf0))] s0
            = Inr (Some dt0)
        \<and> extras_roles_get (api url token) [(''name'', JStr ''Access Switch'')] s0
            = Inr (Some r0)
        \<and> dcim_devices_get (api url token)
             [(''name'', JStr ''myswitch001''), (''location'', JId (loc_id loc0))] s0
            = Inr (Some d0) \<longrightarrow>
      main environ api s0 =
        (Return (),
         [ApiInit url token,
          Get Dcim_location_types [(''name'', JStr ''Campus'')] Ok,
          Print (''[INFO] Found existing location type: '' @ lt_name lt0),
          Get Dcim_locations [(''name'', JStr ''MyCampusLocation'')] Ok,
          Print (''[INFO] Found existing location: '' @ loc_name loc0),
          Get Dcim_manufacturers [(''name'', JStr ''Cisco'')] Ok,
          Print (''[INFO] Found existing manufacturer: '' @ mf_name mf0),
          Get Dcim_device_types
            [(''model'', JStr ''C9300-48P''), (''manufacturer'', JId (mf_id mf0))] Ok,
          Print (''[INFO] Found existing device type: '' @ dt_model dt0),
          Get Extras_roles [(''name'', JStr ''Access Switch'')] Ok,
          Print (''[INFO] Found existing role: '' @ role_name r0),
          Get Dcim_devices
            [(''name'', JStr ''myswitch001''), (''location'', JId (loc_id loc0))] Ok,
          Print (''[WARNING] Device '' @ quoted ''myswitch001''
                 @ '' already exists at location '' @ quoted (loc_name loc0) @ ''.''),
          Print ''[SUCCESS] Device created or retrieved successfully:'',
          Print (''  Name:     '' @ dev_name d0),
          Print (''  Location: '' @ loc_name (dev_location d0)),
          Print (''  Role:     '' @ role_name (dev_role d0)),
          Print (''  Type:     '' @ dt_model (dev_device_type d0)),
          Print (''  Status:   '' @ dev_status d0)],
         s0))
   \<and> (main environ' (\<lambda>url token. reference_api pol) s1 = (Return (), t1, s2)
        \<and> (\<forall>q. query_error pol Dcim_device_types q = None) \<longrightarrow>
      (\<exists>t2 d' pre.
         t1 = pre @ summary d'
         \<and> main environ' (\<lambda>url token. reference_api pol) s2 = (Return (), t2 @ summary d', s2)
         \<and> length (filter is_get t2) = 6 \<and> filter is_create t2 = []))"
proof (intro conjI impI)
  assume "main environ' (\<lambda>url token. reference_api pol) s1 = (Return (), t1, s2)
        \<and> (\<forall>q. query_error pol Dcim_device_types q = None)"
  then show "\<exists>t2 d' pre.
         t1 = pre @ summary d'
         \<and> main environ' (\<lambda>url token. reference_api pol) s2 = (Return (), t2 @ summary d', s2)
         \<and> length (filter is_get t2) = 6 \<and> filter is_create t2 = []"
    by (elim conjE) (rule main_second_run)
next
  assume h: "environ ''NAUTOBOT_API_URL'' = Some url \<and> url \<noteq> ''''
        \<and> environ ''NAUTOBOT_API_TOKEN'' = Some token \<and> token \<noteq> ''''
        \<and> dcim_location_types_get (api url token) [(''name'', JStr ''Campus'')] s0
            = Inr (Some lt0)
        \<and> dcim_locations_get (api url token) [(''name'', JStr ''MyCampusLocation'')] s0
            = Inr (Some loc0)
        \<and> dcim_manufacturers_get (api url token) [(''name'', JStr ''Cisco'')] s0
            = Inr (Some mf0)
        \<and> dcim_device_types_get (api url token)
             [(''model'', JStr ''C9300-48P''), (''manufacturer'', JId (mf_id mf0))] s0
            = Inr (Some dt0)
        \<and> extras_roles_get (api url token) [(''name'', JStr ''Access Switch'')] s0
            = Inr (Some r0)
        \<and> dcim_devices_get (api url token)
             [(''name'', JStr ''myswitch001''), (''location'', JId (loc_id loc0))] s0
            = Inr (Some d0)"
  then show "main environ api s0 =
        (Return (),
         [ApiInit url token,
          Get Dcim_location_types [(''name'', JStr ''Campus'')] Ok,
          Print (''[INFO] Found existing location type: '' @ lt_name lt0),
          Get Dcim_locations [(''name'', JStr ''MyCampusLocation'')] Ok,
          Print (''[INFO] Found existing location: '' @ loc_name loc0),
          Get Dcim_manufacturers [(''name'', JStr ''Cisco'')] Ok,
          Print (''[INFO] Found existing manufacturer: '' @ mf_name mf0),
          Get Dcim_device_types
            [(''model'', JStr ''C9300-48P''), (''manufacturer'', JId (mf_id mf0))] Ok,
          Print (''[INFO] Found existing device type: '' @ dt_model dt0),
          Get Extras_roles [(''name'', JStr ''Access Switch'')] Ok,
          Print (''[INFO] Found existing role: '' @ role_name r0),
          Get Dcim_devices
            [(''name'', JStr ''myswitch001''), (''location'', JId (loc_id loc0))] Ok,
          Print (''[WARNING] Device '' @ quoted ''myswitch001''
                 @ '' already exists at location '' @ quoted (loc_name loc0) @ ''.''),
          Print ''[SUCCESS] Device created or retrieved successfully:'',
          Print (''  Name:     '' @ dev_name d0),
          Print (''  Location: '' @ loc_name (dev_location d0)),
          Print (''  Role:     '' @ role_name (dev_role d0)),
          Print (''  Type:     '' @ dt_model (dev_device_type d0)),
          Print (''  Status:   '' @ dev_status d0)],
         s0)"
    by (simp add: main_def falsy_def pipeline_def resolvers and_then_found summary_def)
qed (simp_all add: resolvers resolver_found)

theorem found_entities_are_reused_witness:
  "get_or_create_location_type (reference_api permissive) ''Campus'' provisioned =
     (Return campus,
      [Get Dcim_location_types [(''name'', JStr ''Campus'')] Ok,
       Print ''[INFO] Found existing location type: Campus''], provisioned)
   \<and> get_or_create_location (reference_api permissive) ''MyCampusLocation'' campus provisioned =
     (Return my_campus_location,
      [Get Dcim_locations [(''name'', JStr ''MyCampusLocation'')] Ok,
       Print ''[INFO] Found existing location: MyCampusLocation''], provisioned)
   \<and> get_or_create_manufacturer (reference_api permissive) ''Cisco'' provisioned =
     (Return cisco,
      [Get Dcim_manufacturers [(''name'', JStr ''Cisco'')] Ok,
       Print ''[INFO] Found existing manufacturer: Cisco''], provisioned)
   \<and> get_or_create_device_type (reference_api permissive) ''C9300-48P'' cisco provisioned =
     (Return c9300,
      [Get Dcim_device_types [(''model'', JStr ''C9300-48P''), (''manufacturer'', JId 2)] Ok,
       Print ''[INFO] Found existing device type: C9300-48P''], provisioned)
   \<and> get_or_create_role (reference_api permissive) ''Access Switch'' provisioned =
     (Return access_switch,
      [Get Extras_roles [(''name'', JStr ''Access Switch'')] Ok,
       Print ''[INFO] Found existing role: Access Switch''], provisioned)
   \<and> create_device (reference_api permissive) ''myswitch001'' my_campus_location c9300
        access_switch provisioned =
     (Return myswitch001,
      [Get Dcim_devices [(''name'', JStr ''myswitch001''), (''location'', JId 1)] Ok,
       Print ''[WARNING] Device 'myswitch001' already exists at location 'MyCampusLocation'.''],
      provisioned)
   \<and> main configured (\<lambda>url token. reference_api permissive) provisioned =
     (Return (),
      [ApiInit ''https://nautobot.example'' ''secret'',
       Get Dcim_location_types [(''name'', JStr ''Campus'')] Ok,
       Print ''[INFO] Found existing location type: Campus'',
       Get Dcim_locations [(''name'', JStr ''MyCampusLocation'')] Ok,
       Print ''[INFO] Found existing location: MyCampusLocation'',
       Get Dcim_manufacturers [(''name'', JStr ''Cisco'')] Ok,
       Print ''[INFO] Found existing manufacturer: Cisco'',
       Get Dcim_device_types [(''model'', JStr ''C9300-48P''), (''manufacturer'', JId 2)] Ok,
       Print ''[INFO] Found existing device type: C9300-48P'',
       Get Extras_roles [(''name'', JStr ''Access Switch'')] Ok,
       Print ''[INFO] Found existing role: Access Switch'',
       Get Dcim_devices [(''name'', JStr ''myswitch001''), (''location'', JId 1)] Ok,
       Print ''[WARNING] Device 'myswitch001' already exists at location 'MyCampusLocation'.'',
       Print ''[SUCCESS] Device created or retrieved successfully:'',
       Print ''  Name:     myswitch001'',
       Print ''  Location: MyCampusLocation'',
       Print ''  Role:     Access Switch'',
       Print ''  Type:     C9300-48P'',
       Print ''  Status:   Active''],
      provisioned)
   \<and> (\<exists>t2 d pre.
         fst (snd (main configured (\<lambda>url token. reference_api permissive) fresh_server))
           = pre @ summary d
         \<and> snd (snd (main configured (\<lambda>url token. reference_api permissive) fresh_server))
           = provisioned
         \<and> main configured (\<lambda>url token. reference_api permissive) provisioned
           = (Return (), t2 @ summary d, provisioned)
         \<and> length (filter is_get t2) = 6 \<and> filter is_create t2 = [])"
proof -
  let ?nb = "reference_api permissive"
  have lt: "dcim_location_types_get ?nb [(''name'', JStr ''Campus'')] provisioned
              = Inr (Some campus)"
    by (simp add: reference_api_simps reference_defs example_defs)
  have loc: "dcim_locations_get ?nb [(''name'', JStr ''MyCampusLocation'')] provisioned
               = Inr (Some my_campus_location)"
    by (simp add: reference_api_simps reference_defs example_defs)
  have mf: "dcim_manufacturers_get ?nb [(''name'', JStr ''Cisco'')] provisioned
              = Inr (Some cisco)"
    by (simp add: reference_api_simps reference_defs example_defs)
  have dt: "dcim_device_types_get ?nb
              [(''model'', JStr ''C9300-48P''), (''manufacturer'', JId (mf_id cisco))] provisioned
              = Inr (Some c9300)"
    by (simp add: reference_api_simps reference_defs example_defs)
  have r: "extras_roles_get ?nb [(''name'', JStr ''Access Switch'')] provisioned
             = Inr (Some access_switch)"
    by (simp add: reference_api_simps reference_defs example_defs)
  have d: "dcim_devices_get ?nb
             [(''name'', JStr ''myswitch001''), (''location'', JId (loc_id my_campus_location))]
             provisioned = Inr (Some myswitch001)"
    by (simp add: reference_api_simps reference_defs example_defs)
  have env: "configured ''NAUTOBOT_API_URL'' = Some ''https://nautobot.example''
             \<and> ''https://nautobot.example'' \<noteq> ''''
             \<and> configured ''NAUTOBOT_API_TOKEN'' = Some ''secret'' \<and> ''secret'' \<noteq> ''''"
    by (simp add: configured_def)
  note inst = found_entities_are_reused
         [where nb = ?nb and s = provisioned and api = "\<lambda>url token. ?nb" and s0 = provisioned
            and environ = configured]
  note c1 = inst [THEN conjunct1, THEN mp, OF lt]
  note c2 = inst [THEN conjunct2, THEN conjunct1, THEN mp, OF loc]
  note c3 = inst [THEN conjunct2, THEN conjunct2, THEN conjunct1, THEN mp, OF mf]
  note c4 = inst [THEN conjunct2, THEN conjunct2, THEN conjunct2, THEN conjunct1, THEN mp, OF dt]
  note c5 = inst [THEN conjunct2, THEN conjunct2, THEN conjunct2, THEN conjunct2, THEN conjunct1,
                 THEN mp, OF r]
  note c6 = inst [THEN conjunct2, THEN conjunct2, THEN conjunct2, THEN conjunct2, THEN conjunct2,
                 THEN conjunct1, THEN mp, OF d]
  have all: "configured ''NAUTOBOT_API_URL'' = Some ''https://nautobot.example''
        \<and> ''https://nautobot.example'' \<noteq> ''''
        \<and> configured ''NAUTOBOT_API_TOKEN'' = Some ''secret'' \<and> ''secret'' \<noteq> ''''
        \<and> dcim_location_types_get ?nb [(''name'', JStr ''Campus'')] provisioned
            = Inr (Some campus)
        \<and> dcim_locations_get ?nb [(''name'', JStr ''MyCampusLocation'')] provisioned
            = Inr (Some my_campus_location)
        \<and> dcim_manufacturers_get ?nb [(''name'', JStr ''Cisco'')] provisioned
            = Inr (Some cisco)
        \<and> dcim_device_types_get ?nb
             [(''model'', JStr ''C9300-48P''), (''manufacturer'', JId (mf_id cisco))] provisioned
            = Inr (Some c9300)
        \<and> extras_roles_get ?nb [(''name'', JStr ''Access Switch'')] provisioned
            = Inr (Some access_switch)
        \<and> dcim_devices_get ?nb
             [(''name'', JStr ''myswitch001''), (''location'', JId (loc_id my_campus_location))]
             provisioned = Inr (Some myswitch001)"
    using env lt loc mf dt r d by blast
  note c7 = inst [THEN conjunct2, THEN conjunct2, THEN conjunct2, THEN conjunct2, THEN conjunct2,
                 THEN conjunct2, THEN conjunct1, THEN mp, OF all]
  have "main configured (\<lambda>url token. ?nb) fresh_server =
       (Return (), fst (snd (main configured (\<lambda>url token. ?nb) fresh_server)), provisioned)"
    by (simp add: fresh_run)
  moreover have "\<forall>q. query_error permissive Dcim_device_types q = None"
    by (simp add: permissive_def)
  ultimately have first:
    "main configured (\<lambda>url token. ?nb) fresh_server =
       (Return (), fst (snd (main configured (\<lambda>url token. ?nb) fresh_server)), provisioned)
     \<and> (\<forall>q. query_error permissive Dcim_device_types q = None)"
    by (rule conjI)
  note c8 = inst [where environ' = configured and pol = permissive and ?s1.0 = fresh_server,
                 THEN conjunct2, THEN conjunct2, THEN conjunct2, THEN conjunct2, THEN conjunct2,
                 THEN conjunct2, THEN conjunct2, THEN mp, OF first]
  have six: "main configured (\<lambda>url token. ?nb) provisioned =
     (Return (),
      [ApiInit ''https://nautobot.example'' ''secret'',
       Get Dcim_location_types [(''name'', JStr ''Campus'')] Ok,
       Print ''[INFO] Found existing location type: Campus'',
       Get Dcim_locations [(''name'', JStr ''MyCampusLocation'')] Ok,
       Print ''[INFO] Found existing location: MyCampusLocation'',
       Get Dcim_manufacturers [(''name'', JStr ''Cisco'')] Ok,
       Print ''[INFO] Found existing manufacturer: Cisco'',
       Get Dcim_device_types [(''model'', JStr ''C9300-48P''), (''manufacturer'', JId 2)] Ok,
       Print ''[INFO] Found existing device type: C9300-48P'',
       Get Extras_roles [(''name'', JStr ''Access Switch'')] Ok,
       Print ''[INFO] Found existing role: Access Switch'',
       Get Dcim_devices [(''name'', JStr ''myswitch001''), (''location'', JId 1)] Ok,
       Print ''[WARNING] Device 'myswitch001' already exists at location 'MyCampusLocation'.'',
       Print ''[SUCCESS] Device created or retrieved successfully:'',
       Print ''  Name:     myswitch001'',
       Print ''  Location: MyCampusLocation'',
       Print ''  Role:     Access Switch'',
       Print ''  Type:     C9300-48P'',
       Print ''  Status:   Active''],
      provisioned)"
    using c7
    by (simp add: quoted_def campus_def my_campus_location_def cisco_def c9300_def
          access_switch_def myswitch001_def)
  have again: "\<exists>t2 d pre.
         fst (snd (main configured (\<lambda>url token. ?nb) fresh_server)) = pre @ summary d
         \<and> snd (snd (main configured (\<lambda>url token. ?nb) fresh_server)) = provisioned
         \<and> main configured (\<lambda>url token. ?nb) provisioned
           = (Return (), t2 @ summary d, provisioned)
         \<and> length (filter is_get t2) = 6 \<and> filter is_create t2 = []"
    using c8 by (simp add: fresh_run)
  have five:
    "get_or_create_location_type ?nb ''Campus'' provisioned =
     (Return campus,
      [Get Dcim_location_types [(''name'', JStr ''Campus'')] Ok,
       Print ''[INFO] Found existing location type: Campus''], provisioned)
   \<and> get_or_create_location ?nb ''MyCampusLocation'' campus provisioned =
     (Return my_campus_location,
      [Get Dcim_locations [(''name'', JStr ''MyCampusLocation'')] Ok,
       Print ''[INFO] Found existing location: MyCampusLocation''], provisioned)
   \<and> get_or_create_manufacturer ?nb ''Cisco'' provisioned =
     (Return cisco,
      [Get Dcim_manufacturers [(''name'', JStr ''Cisco'')] Ok,
       Print ''[INFO] Found existing manufacturer: Cisco''], provisioned)
   \<and> get_or_create_device_type ?nb ''C9300-48P'' cisco provisioned =
     (Return c9300,
      [Get Dcim_device_types [(''model'', JStr ''C9300-48P''), (''manufacturer'', JId 2)] Ok,
       Print ''[INFO] Found existing device type: C9300-48P''], provisioned)
   \<and> get_or_create_role ?nb ''Access Switch'' provisioned =
     (Return access_switch,
      [Get Extras_roles [(''name'', JStr ''Access Switch'')] Ok,
       Print ''[INFO] Found existing role: Access Switch''], provisioned)
   \<and> create_device ?nb ''myswitch001'' my_campus_location c9300 access_switch provisioned =
     (Return myswitch001,
      [Get Dcim_devices [(''name'', JStr ''myswitch001''), (''location'', JId 1)] Ok,
       Print ''[WARNING] Device 'myswitch001' already exists at location 'MyCampusLocation'.''],
      provisioned)"
    using c1 c2 [of campus] c3 c4 c5 c6 [of c9300 access_switch]
    by (simp add: quoted_def campus_def my_campus_location_def cisco_def c9300_def
          access_switch_def myswitch001_def)
  from five six again show ?thesis
    by (intro conjI) (simp_all only:)
qed

text \<open>
  Claim C10. When the lookup by name and location returns a device, \<open>create_device\<close>
  returns it for every \<open>device_type\<close> and \<open>role\<close> argument, after the warning line and
  with no create, whatever the type, role and status of the device found.
\<close>

theorem existing_device_ignores_type_and_role:
  assumes "dcim_devices_get nb [(''name'', JStr n), (''location'', JId (loc_id loc))] s
             = Inr (Some d)"
  shows "\<forall>device_type role.
           create_device nb n loc device_type role s =
             (Return d,
              [Get Dcim_devices [(''name'', JStr n), (''location'', JId (loc_id loc))] Ok,
               Print (''[WARNING] Device '' @ quoted n @ '' already exists at location ''
                      @ quoted (loc_name loc) @ ''.'')], s)"
  using assms by (simp add: create_device_resolver resolver_found)

theorem existing_device_ignores_type_and_role_witness:
  "create_device (reference_api permissive) ''myswitch001'' my_campus_location c9200 core_router
     provisioned =
     (Return myswitch001,
      [Get Dcim_devices [(''name'', JStr ''myswitch001''), (''location'', JId 1)] Ok,
       Print ''[WARNING] Device 'myswitch001' already exists at location 'MyCampusLocation'.''],
      provisioned)
   \<and> dev_device_type myswitch001 \<noteq> c9200 \<and> dev_role myswitch001 \<noteq> core_router"
  using existing_device_ignores_type_and_role
          [of "reference_api permissive" "''myswitch001''" my_campus_location provisioned
              myswitch001]
  by (simp add: reference_api_simps permissive_def lookup_def provisioned_def matches_def
        device_fields_def myswitch001_def my_campus_location_def c9300_def c9200_def
        access_switch_def core_router_def quoted_def)

section \<open>The contract of a resolver\<close>

text \<open>
  Claim C7, as stated, fails where the lookup matches more than one record: pynautobot's
  \<^verbatim>\<open>get\<close> raises \<^verbatim>\<open>ValueError\<close> then, no resolver handles it, and the exception
  escapes with no create issued. On the server \<open>ambiguous\<close>, which holds two locations
  named MyCampusLocation, the location resolver ends so.
\<close>

theorem ambiguous_lookup_creates_nothing:
  "length (filter (\<lambda>r. loc_name r = ''MyCampusLocation'') (srv_locations ambiguous)) = 2
   \<and> get_or_create_location (reference_api permissive) ''MyCampusLocation'' campus ambiguous =
       (Raise (OtherException ''ValueError: get() returned more than one result.''),
        [Get Dcim_locations [(''name'', JStr ''MyCampusLocation'')]
           (Raised (OtherException ''ValueError: get() returned more than one result.''))],
        ambiguous)"
  by (simp add: get_or_create_location_resolver resolver_def reference_api_simps lookup_def
        permissive_def ambiguous_def provisioned_def matches_def location_fields_def
        my_campus_location_def homonym_def too_many_def)

text \<open>
  Claim C7, amended. For every resolver: when the lookup returns a match, that match is
  returned unchanged and no create is issued; when the lookup returns no match, the
  resolver issues one create request with the full attribute payload (the identifiers of
  the resolved dependencies included) and, when the create succeeds, returns the new
  resource.
\<close>

theorem match_is_returned_absence_creates:
  "(dcim_location_types_get nb [(''name'', JStr n)] s = Inr (Some lt) \<longrightarrow>
      get_or_create_location_type nb n s =
        (Return lt,
         [Get Dcim_location_types [(''name'', JStr n)] Ok,
          Print (''[INFO] Found existing location type: '' @ lt_name lt)], s))
   \<and> (dcim_location_types_get nb [(''name'', JStr n)] s = Inr None
      \<and> dcim_location_types_create nb
           [(''name'', JStr n), (''description'', JStr (''Created by script for '' @ n)),
            (''content_types'', JList [''dcim.device''])] s = (Inr lt, s') \<longrightarrow>
      get_or_create_location_type nb n s =
        (Return lt,
         [Get Dcim_location_types [(''name'', JStr n)] Ok,
          Print (''[INFO] Creating location type '' @ quoted n @ ''...''),
          Create Dcim_location_types
            [(''name'', JStr n), (''description'', JStr (''Created by script for '' @ n)),
             (''content_types'', JList [''dcim.device''])] Ok], s'))
   \<and> (dcim_locations_get nb [(''name'', JStr n)] s = Inr (Some loc) \<longrightarrow>
      get_or_create_location nb n lt0 s =
        (Return loc,
         [Get Dcim_locations [(''name'', JStr n)] Ok,
          Print (''[INFO] Found existing location: '' @ loc_name loc)], s))
   \<and> (dcim_locations_get nb [(''name'', JStr n)] s = Inr None
      \<and> dcim_locations_create nb
           [(''name'', JStr n), (''location_type'', JId (lt_id lt0)),
            (''status'', JStr ''Active'')] s = (Inr loc, s') \<longrightarrow>
      get_or_create_location nb n lt0 s =
        (Return loc,
         [Get Dcim_locations [(''name'', JStr n)] Ok,
          Print (''[INFO] Creating location '' @ quoted n @ '' with type ''
                 @ quoted (lt_name lt0) @ ''...''),
          Create Dcim_locations
            [(''name'', JStr n), (''location_type'', JId (lt_id lt0)),
             (''status'', JStr ''Active'')] Ok], s'))
   \<and> (dcim_manufacturers_get nb [(''name'', JStr n)] s = Inr (Some mf) \<longrightarrow>
      get_or_create_manufacturer nb n s =
        (Return mf,
         [Get Dcim_manufacturers [(''name'', JStr n)] Ok,
          Print (''[INFO] Found existing manufacturer: '' @ mf_name mf)], s))
   \<and> (dcim_manufacturers_get nb [(''name'', JStr n)] s = Inr None
      \<and> dcim_manufacturers_create nb [(''name'', JStr n)] s = (Inr mf, s') \<longrightarrow>
      get_or_create_manufacturer nb n s =
        (Return mf,
         [Get Dcim_manufacturers [(''name'', JStr n)] Ok,
          Print (''[INFO] Creating manufacturer '' @ quoted n @ ''...''),
          Create Dcim_manufacturers [(''name'', JStr n)] Ok], s'))
   \<and> (dcim_device_types_get nb [(''model'', JStr n), (''manufacturer'', JId (mf_id mf0))] s
        = Inr (Some dt) \<longrightarrow>
      get_or_create_device_type nb n mf0 s =
        (Return dt,
         [Get Dcim_device_types [(''model'', JStr n), (''manufacturer'', JId (mf_id mf0))] Ok,
          Print (''[INFO] Found existing device type: '' @ dt_model dt)], s))
   \<and> (dcim_device_types_get nb [(''model'', JStr n), (''manufacturer'', JId (mf_id mf0))] s
        = Inr None
      \<and> dcim_device_types_create nb
           [(''model'', JStr n), (''manufacturer'', JId (mf_id mf0))] s = (Inr dt, s') \<longrightarrow>
      get_or_create_device_type nb n mf0 s =
        (Return dt,
         [Get Dcim_device_types [(''model'', JStr n), (''manufacturer'', JId (mf_id mf0))] Ok,
          Print (''[INFO] Creating device type '' @ quoted n @ '' for manufacturer ''
                 @ quoted (mf_name mf0) @ ''...''),
          Create Dcim_device_types
            [(''model'', JStr n), (''manufacturer'', JId (mf_id mf0))] Ok], s'))
   \<and> (extras_roles_get nb [(''name'', JStr n)] s = Inr (Some r) \<longrightarrow>
      get_or_create_role nb n s =
        (Return r,
         [Get Extras_roles [(''name'', JStr n)] Ok,
          Print (''[INFO] Found existing role: '' @ role_name r)], s))
   \<and> (extras_roles_get nb [(''name'', JStr n)] s = Inr None
      \<and> extras_roles_create nb
           [(''name'', JStr n), (''description'', JStr (''Device role for '' @ n)),
            (''content_types'', JList [''dcim.device''])] s = (Inr r, s') \<longrightarrow>
      get_or_create_role nb n s =
        (Return r,
         [Get Extras_roles [(''name'', JStr n)] Ok,
          Print (''[INFO] Creating role '' @ quoted n @ '' for devices...''),
          Create Extras_roles
            [(''name'', JStr n), (''description'', JStr (''Device role for '' @ n)),
             (''content_types'', JList [''dcim.device''])] Ok], s'))
   \<and> (dcim_devices_get nb [(''name'', JStr n), (''location'', JId (loc_id loc0))] s
        = Inr (Some d) \<longrightarrow>
      create_device nb n loc0 dt0 r0 s =
        (Return d,
         [Get Dcim_devices [(''name'', JStr n), (''location'', JId (loc_id loc0))] Ok,
          Print (''[WARNING] Device '' @ quoted n @ '' already exists at location ''
                 @ quoted (loc_name loc0) @ ''.'')], s))
   \<and> (dcim_devices_get nb [(''name'', JStr n), (''location'', JId (loc_id loc0))] s = Inr None
      \<and> dcim_devices_create nb
           [(''name'', JStr n), (''device_type'', JId (dt_id dt0)), (''role'', JId (role_id r0)),
            (''location'', JId (loc_id loc0)), (''status'', JStr ''Active'')] s = (Inr d, s')
      \<longrightarrow>
      create_device nb n loc0 dt0 r0 s =
        (Return d,
         [Get Dcim_devices [(''name'', JStr n), (''location'', JId (loc_id loc0))] Ok,
          Print (''[INFO] Creating new device '' @ quoted n @ ''...''),
          Create Dcim_devices
            [(''name'', JStr n), (''device_type'', JId (dt_id dt0)),
             (''role'', JId (role_id r0)), (''location'', JId (loc_id loc0)),
             (''status'', JStr ''Active'')] Ok], s'))"
  by (simp add: resolvers resolver_found resolver_created)

theorem match_is_returned_absence_creates_witness:
  "get_or_create_location_type (reference_api permissive) ''Campus''
       provisioned =
     (Return campus,
      [Get Dcim_location_types [(''name'', JStr ''Campus'')] Ok,
       Print ''[INFO] Found existing location type: Campus''],
      provisioned)
   \<and> get_or_create_location_type (reference_api permissive) ''Lab''
       provisioned =
     (Return
        \<lparr>lt_id = 6, lt_name = ''Lab'', lt_description = ''Created by script for Lab'',
          lt_content_types = [''dcim.device'']\<rparr>,
      [Get Dcim_location_types [(''name'', JStr ''Lab'')] Ok,
       Print ''[INFO] Creating location type 'Lab'...'',
       Create Dcim_location_types [(''name'', JStr ''Lab''), (''description'',
         JStr ''Created by script for Lab''), (''content_types'', JList [''dcim.device''])] Ok],
      provisioned\<lparr>srv_location_types := [campus, \<lparr>lt_id = 6, lt_name = ''Lab'',
        lt_description = ''Created by script for Lab'',
        lt_content_types = [''dcim.device'']\<rparr>], srv_next_id := 7\<rparr>)
   \<and> get_or_create_location (reference_api permissive) ''MyCampusLocation'' campus
       provisioned =
     (Return my_campus_location,
      [Get Dcim_locations [(''name'', JStr ''MyCampusLocation'')] Ok,
       Print ''[INFO] Found existing location: MyCampusLocation''],
      provisioned)
   \<and> get_or_create_location (reference_api permissive) ''Lab'' campus
       provisioned =
     (Return
        \<lparr>loc_id = 6, loc_name = ''Lab'', loc_location_type = 0,
          loc_status = ''Active''\<rparr>,
      [Get Dcim_locations [(''name'', JStr ''Lab'')] Ok,
       Print ''[INFO] Creating location 'Lab' with type 'Campus'...'',
       Create Dcim_locations [(''name'', JStr ''Lab''), (''location_type'', JId 0),
         (''status'', JStr ''Active'')] Ok],
      provisioned\<lparr>srv_locations := [my_campus_location, \<lparr>loc_id = 6,
        loc_name = ''Lab'', loc_location_type = 0, loc_status = ''Active''\<rparr>],
        srv_next_id := 7\<rparr>)
   \<and> get_or_create_manufacturer (reference_api permissive) ''Cisco''
       provisioned =
     (Return cisco,
      [Get Dcim_manufacturers [(''name'', JStr ''Cisco'')] Ok,
       Print ''[INFO] Found existing manufacturer: Cisco''],
      provisioned)
   \<and> get_or_create_manufacturer (reference_api permissive) ''Lab''
       provisioned =
     (Return
        \<lparr>mf_id = 6, mf_name = ''Lab''\<rparr>,
      [Get Dcim_manufacturers [(''name'', JStr ''Lab'')] Ok,
       Print ''[INFO] Creating manufacturer 'Lab'...'',
       Create Dcim_manufacturers [(''name'', JStr ''Lab'')] Ok],
      provisioned\<lparr>srv_manufacturers := [cisco, \<lparr>mf_id = 6,
        mf_name = ''Lab''\<rparr>], srv_next_id := 7\<rparr>)
   \<and> get_or_create_device_type (reference_api permissive) ''C9300-48P'' cisco
       provisioned =
     (Return c9300,
      [Get Dcim_device_types [(''model'', JStr ''C9300-48P''), (''manufacturer'', JId 2)] Ok,
       Print ''[INFO] Found existing device type: C9300-48P''],
      provisioned)
   \<and> get_or_create_device_type (reference_api permissive) ''Lab'' cisco
       provisioned =
     (Return
        \<lparr>dt_id = 6, dt_model = ''Lab'', dt_manufacturer = 2\<rparr>,
      [Get Dcim_device_types [(''model'', JStr ''Lab''), (''manufacturer'', JId 2)] Ok,
       Print ''[INFO] Creating device type 'Lab' for manufacturer 'Cisco'...'',
       Create Dcim_device_types [(''model'', JStr ''Lab''), (''manufacturer'', JId 2)] Ok],
      provisioned\<lparr>srv_device_types := [c9300, \<lparr>dt_id = 6, dt_model = ''Lab'',
        dt_manufacturer = 2\<rparr>], srv_next_id := 7\<rparr>)
   \<and> get_or_create_role (reference_api permissive) ''Access Switch''
       provisioned =
     (Return access_switch,
      [Get Extras_roles [(''name'', JStr ''Access Switch'')] Ok,
       Print ''[INFO] Found existing role: Access Switch''],
      provisioned)
   \<and> get_or_create_role (reference_api permissive) ''Lab''
       provisioned =
     (Return
        \<lparr>role_id = 6, role_name = ''Lab'', role_description = ''Device role for Lab'',
          role_content_types = [''dcim.device'']\<rparr>,
      [Get Extras_roles [(''name'', JStr ''Lab'')] Ok,
       Print ''[INFO] Creating role 'Lab' for devices...'',
       Create Extras_roles [(''name'', JStr ''Lab''), (''description'',
         JStr ''Device role for Lab''), (''content_types'', JList [''dcim.device''])] Ok],
      provisioned\<lparr>srv_roles := [access_switch, \<lparr>role_id = 6, role_name = ''Lab'',
        role_description = ''Device role for Lab'',
        role_content_types = [''dcim.device'']\<rparr>], srv_next_id := 7\<rparr>)
   \<and> create_device (reference_api permissive) ''myswitch001'' my_campus_location c9300 access_switch
       provisioned =
     (Return myswitch001,
      [Get Dcim_devices [(''name'', JStr ''myswitch001''), (''location'', JId 1)] Ok,
       Print ''[WARNING] Device 'myswitch001' already exists at location 'MyCampusLocation'.''],
      provisioned)
   \<and> create_device (reference_api permissive) ''Lab'' my_campus_location c9300 access_switch
       provisioned =
     (Return
        \<lparr>dev_id = 6, dev_name = ''Lab'', dev_device_type = c9300,
          dev_role = access_switch, dev_location = my_campus_location,
          dev_status = ''Active''\<rparr>,
      [Get Dcim_devices [(''name'', JStr ''Lab''), (''location'', JId 1)] Ok,
       Print ''[INFO] Creating new device 'Lab'...'',
       Create Dcim_devices [(''name'', JStr ''Lab''), (''device_type'', JId 3), (''role'',
         JId 4), (''location'', JId 1), (''status'', JStr ''Active'')] Ok],
      provisioned\<lparr>srv_devices := [myswitch001, \<lparr>dev_id = 6, dev_name = ''Lab'',
        dev_device_type = c9300, dev_role = access_switch, dev_location = my_campus_location,
        dev_status = ''Active''\<rparr>], srv_next_id := 7\<rparr>)"
proof -
  let ?nb = "reference_api permissive"
  have lt_f:
    "dcim_location_types_get ?nb [(''name'', JStr ''Campus'')] provisioned
     = Inr (Some campus)"
    by (simp add: reference_api_simps reference_defs example_defs)
  note f1 = match_is_returned_absence_creates
         [where nb = ?nb and s = provisioned
            and n = "''Campus''",
          THEN conjunct1, THEN mp, OF lt_f]
  have lt_c:
    "dcim_location_types_get ?nb [(''name'', JStr ''Lab'')] provisioned = Inr None
     \<and> dcim_location_types_create ?nb [(''name'', JStr ''Lab''), (''description'',
       JStr (''Created by script for '' @ ''Lab'')), (''content_types'',
       JList [''dcim.device''])] provisioned
         = (Inr \<lparr>lt_id = 6, lt_name = ''Lab'',
           lt_description = ''Created by script for Lab'',
           lt_content_types = [''dcim.device'']\<rparr>,
            provisioned\<lparr>srv_location_types := [campus, \<lparr>lt_id = 6,
              lt_name = ''Lab'', lt_description = ''Created by script for Lab'',
              lt_content_types = [''dcim.device'']\<rparr>], srv_next_id := 7\<rparr>)"
    by (simp add: reference_api_simps reference_defs example_defs)
  note f2 = match_is_returned_absence_creates
         [where nb = ?nb and s = provisioned
            and n = "''Lab''",
          THEN conjunct2, THEN conjunct1, THEN mp, OF lt_c]
  have loc_f:
    "dcim_locations_get ?nb [(''name'', JStr ''MyCampusLocation'')] provisioned
     = Inr (Some my_campus_location)"
    by (simp add: reference_api_simps reference_defs example_defs)
  note f3 = match_is_returned_absence_creates
         [where nb = ?nb and s = provisioned
            and n = "''MyCampusLocation''" and lt0 = campus,
          THEN conjunct2, THEN conjunct2, THEN conjunct1, THEN mp, OF loc_f]
  have loc_c:
    "dcim_locations_get ?nb [(''name'', JStr ''Lab'')] provisioned = Inr None
     \<and> dcim_locations_create ?nb [(''name'', JStr ''Lab''), (''location_type'',
       JId (lt_id campus)), (''status'', JStr ''Active'')] provisioned
         = (Inr \<lparr>loc_id = 6, loc_name = ''Lab'', loc_location_type = 0,
           loc_status = ''Active''\<rparr>,
            provisioned\<lparr>srv_locations := [my_campus_location, \<lparr>loc_id = 6,
              loc_name = ''Lab'', loc_location_type = 0, loc_status = ''Active''\<rparr>],
              srv_next_id := 7\<rparr>)"
    by (simp add: reference_api_simps reference_defs example_defs)
  note f4 = match_is_returned_absence_creates
         [where nb = ?nb and s = provisioned
            and n = "''Lab''" and lt0 = campus,
          THEN conjunct2, THEN conjunct2, THEN conjunct2, THEN conjunct1, THEN mp, OF loc_c]
  have mf_f:
    "dcim_manufacturers_get ?nb [(''name'', JStr ''Cisco'')] provisioned
     = Inr (Some cisco)"
    by (simp add: reference_api_simps reference_defs example_defs)
  note f5 = match_is_returned_absence_creates
         [where nb = ?nb and s = provisioned
            and n = "''Cisco''",
          THEN conjunct2, THEN conjunct2, THEN conjunct2, THEN conjunct2, THEN conjunct1,
            THEN mp, OF mf_f]
  have mf_c:
    "dcim_manufacturers_get ?nb [(''name'', JStr ''Lab'')] provisioned = Inr None
     \<and> dcim_manufacturers_create ?nb [(''name'', JStr ''Lab'')] provisioned
         = (Inr \<lparr>mf_id = 6, mf_name = ''Lab''\<rparr>,
            provisioned\<lparr>srv_manufacturers := [cisco, \<lparr>mf_id = 6,
              mf_name = ''Lab''\<rparr>], srv_next_id := 7\<rparr>)"
    by (simp add: reference_api_simps reference_defs example_defs)
  note f6 = match_is_returned_absence_creates
         [where nb = ?nb and s = provisioned
            and n = "''Lab''",
          THEN conjunct2, THEN conjunct2, THEN conjunct2, THEN conjunct2, THEN conjunct2,
            THEN conjunct1, THEN mp, OF mf_c]
  have dt_f:
    "dcim_device_types_get ?nb [(''model'', JStr ''C9300-48P''), (''manufacturer'',
      JId (mf_id cisco))] provisioned
     = Inr (Some c9300)"
    by (simp add: reference_api_simps reference_defs example_defs)
  note f7 = match_is_returned_absence_creates
         [where nb = ?nb and s = provisioned
            and n = "''C9300-48P''" and mf0 = cisco,
          THEN conjunct2, THEN conjunct2, THEN conjunct2, THEN conjunct2, THEN conjunct2,
            THEN conjunct2, THEN conjunct1, THEN mp, OF dt_f]
  have dt_c:
    "dcim_device_types_get ?nb [(''model'', JStr ''Lab''), (''manufacturer'',
      JId (mf_id cisco))] provisioned = Inr None
     \<and> dcim_device_types_create ?nb [(''model'', JStr ''Lab''), (''manufacturer'',
       JId (mf_id cisco))] provisioned
         = (Inr \<lparr>dt_id = 6, dt_model = ''Lab'', dt_manufacturer = 2\<rparr>,
            provisioned\<lparr>srv_device_types := [c9300, \<lparr>dt_id = 6,
              dt_model = ''Lab'', dt_manufacturer = 2\<rparr>], srv_next_id := 7\<rparr>)"
    by (simp add: reference_api_simps reference_defs example_defs)
  note f8 = match_is_returned_absence_creates
         [where nb = ?nb and s = provisioned
            and n = "''Lab''" and mf0 = cisco,
          THEN conjunct2, THEN conjunct2, THEN conjunct2, THEN conjunct2, THEN conjunct2,
            THEN conjunct2, THEN conjunct2, THEN conjunct1, THEN mp, OF dt_c]
  have r_f:
    "extras_roles_get ?nb [(''name'', JStr ''Access Switch'')] provisioned
     = Inr (Some access_switch)"
    by (simp add: reference_api_simps reference_defs example_defs)
  note f9 = match_is_returned_absence_creates
         [where nb = ?nb and s = provisioned
            and n = "''Access Switch''",
          THEN conjunct2, THEN conjunct2, THEN conjunct2, THEN conjunct2, THEN conjunct2,
            THEN conjunct2, THEN conjunct2, THEN conjunct2, THEN conjunct1, THEN mp, OF r_f]
  have r_c:
    "extras_roles_get ?nb [(''name'', JStr ''Lab'')] provisioned = Inr None
     \<and> extras_roles_create ?nb [(''name'', JStr ''Lab''), (''description'',
       JStr (''Device role for '' @ ''Lab'')), (''content_types'',
       JList [''dcim.device''])] provisioned
         = (Inr \<lparr>role_id = 6, role_name = ''Lab'',
           role_description = ''Device role for Lab'',
           role_content_types = [''dcim.device'']\<rparr>,
            provisioned\<lparr>srv_roles := [access_switch, \<lparr>role_id = 6,
              role_name = ''Lab'', role_description = ''Device role for Lab'',
              role_content_types = [''dcim.device'']\<rparr>], srv_next_id := 7\<rparr>)"
    by (simp add: reference_api_simps reference_defs example_defs)
  note f10 = match_is_returned_absence_creates
         [where nb = ?nb and s = provisioned
            and n = "''Lab''",
          THEN conjunct2, THEN conjunct2, THEN conjunct2, THEN conjunct2, THEN conjunct2,
            THEN conjunct2, THEN conjunct2, THEN conjunct2, THEN conjunct2, THEN conjunct1,
            THEN mp, OF r_c]
  have d_f:
    "dcim_devices_get ?nb [(''name'', JStr ''myswitch001''), (''location'',
      JId (loc_id my_campus_location))] provisioned
     = Inr (Some myswitch001)"
    by (simp add: reference_api_simps reference_defs example_defs)
  note f11 = match_is_returned_absence_creates
         [where nb = ?nb and s = provisioned
            and n = "''myswitch001''" and loc0 = my_campus_location and dt0 = c9300 and r0 = access_switch,
          THEN conjunct2, THEN conjunct2, THEN conjunct2, THEN conjunct2, THEN conjunct2,
            THEN conjunct2, THEN conjunct2, THEN conjunct2, THEN conjunct2, THEN conjunct2,
            THEN conjunct1, THEN mp, OF d_f]
  have d_c:
    "dcim_devices_get ?nb [(''name'', JStr ''Lab''), (''location'',
      JId (loc_id my_campus_location))] provisioned = Inr None
     \<and> dcim_devices_create ?nb [(''name'', JStr ''Lab''), (''device_type'',
       JId (dt_id c9300)), (''role'', JId (role_id access_switch)), (''location'',
       JId (loc_id my_campus_location)), (''status'', JStr ''Active'')] provisioned
         = (Inr \<lparr>dev_id = 6, dev_name = ''Lab'', dev_device_type = c9300,
           dev_role = access_switch, dev_location = my_campus_location,
           dev_status = ''Active''\<rparr>,
            provisioned\<lparr>srv_devices := [myswitch001, \<lparr>dev_id = 6,
              dev_name = ''Lab'', dev_device_type = c9300, dev_role = access_switch,
              dev_location = my_campus_location, dev_status = ''Active''\<rparr>],
              srv_next_id := 7\<rparr>)"
    by (simp add: reference_api_simps reference_defs example_defs)
  note f12 = match_is_returned_absence_creates
         [where nb = ?nb and s = provisioned
            and n = "''Lab''" and loc0 = my_campus_location and dt0 = c9300 and r0 = access_switch,
          THEN conjunct2, THEN conjunct2, THEN conjunct2, THEN conjunct2, THEN conjunct2,
            THEN conjunct2, THEN conjunct2, THEN conjunct2, THEN conjunct2, THEN conjunct2,
            THEN conjunct2, THEN mp, OF d_c]
  show ?thesis
    using f1 f2 f3 f4 f5 f6 f7 f8 f9 f10 f11 f12
    by (simp add: quoted_def example_defs)
qed

section \<open>The device resolver\<close>

text \<open>
  Claim C2. The lookup of \<open>create_device\<close> is by name and location. For any client,
  when that lookup returns a device, the resolver prints the warning line and returns the
  device, so the run goes on; when it returns nothing, the resolver issues the create,
  whatever a lookup by the name alone would find. On the reference server, a device of the
  given name at another location is no match: the lookup finds nothing, the create is
  issued and, when the server accepts it, the new device is stored beside the other.
\<close>

theorem device_lookup_is_by_name_and_location:
  "(query_error pol Dcim_devices [(''name'', JStr n), (''location'', JId (loc_id loc))] = None
    \<and> (\<forall>d\<in>set (srv_devices s). dev_name d = n \<longrightarrow> loc_id (dev_location d) \<noteq> loc_id loc)
    \<longrightarrow>
      (\<exists>out resp rest s'.
         create_device (reference_api pol) n loc dt r s =
           (out,
            Get Dcim_devices [(''name'', JStr n), (''location'', JId (loc_id loc))] Ok
            # Print (''[INFO] Creating new device '' @ quoted n @ ''...'')
            # Create Dcim_devices
                [(''name'', JStr n), (''device_type'', JId (dt_id dt)),
                 (''role'', JId (role_id r)), (''location'', JId (loc_id loc)),
                 (''status'', JStr ''Active'')] resp
            # rest, s')))
   \<and> (query_error pol Dcim_devices [(''name'', JStr n), (''location'', JId (loc_id loc))] = None
      \<and> (\<forall>d\<in>set (srv_devices s). dev_name d = n \<longrightarrow> loc_id (dev_location d) \<noteq> loc_id loc)
      \<and> create_error pol Dcim_devices
           [(''name'', JStr n), (''device_type'', JId (dt_id dt)), (''role'', JId (role_id r)),
            (''location'', JId (loc_id loc)), (''status'', JStr ''Active'')] = None
      \<and> find (\<lambda>x. dt_id x = dt_id dt) (srv_device_types s) = Some dt
      \<and> find (\<lambda>x. role_id x = role_id r) (srv_roles s) = Some r
      \<and> find (\<lambda>x. loc_id x = loc_id loc) (srv_locations s) = Some loc
    \<longrightarrow>
      create_device (reference_api pol) n loc dt r s =
        (Return \<lparr>dev_id = srv_next_id s, dev_name = n, dev_device_type = dt, dev_role = r,
                 dev_location = loc, dev_status = ''Active''\<rparr>,
         [Get Dcim_devices [(''name'', JStr n), (''location'', JId (loc_id loc))] Ok,
          Print (''[INFO] Creating new device '' @ quoted n @ ''...''),
          Create Dcim_devices
            [(''name'', JStr n), (''device_type'', JId (dt_id dt)),
             (''role'', JId (role_id r)), (''location'', JId (loc_id loc)),
             (''status'', JStr ''Active'')] Ok],
         s\<lparr>srv_devices := srv_devices s @
              [\<lparr>dev_id = srv_next_id s, dev_name = n, dev_device_type = dt, dev_role = r,
                dev_location = loc, dev_status = ''Active''\<rparr>],
           srv_next_id := Suc (srv_next_id s)\<rparr>))
   \<and> (dcim_devices_get nb [(''name'', JStr n), (''location'', JId (loc_id loc))] s0
        = Inr (Some d) \<longrightarrow>
      create_device nb n loc dt r s0 =
        (Return d,
         [Get Dcim_devices [(''name'', JStr n), (''location'', JId (loc_id loc))] Ok,
          Print (''[WARNING] Device '' @ quoted n @ '' already exists at location ''
                 @ quoted (loc_name loc) @ ''.'')], s0))
   \<and> (dcim_devices_get nb [(''name'', JStr n), (''location'', JId (loc_id loc))] s0
        = Inr None \<longrightarrow>
      (\<exists>out resp rest s'.
         create_device nb n loc dt r s0 =
           (out,
            Get Dcim_devices [(''name'', JStr n), (''location'', JId (loc_id loc))] Ok
            # Print (''[INFO] Creating new device '' @ quoted n @ ''...'')
            # Create Dcim_devices
                [(''name'', JStr n), (''device_type'', JId (dt_id dt)),
                 (''role'', JId (role_id r)), (''location'', JId (loc_id loc)),
                 (''status'', JStr ''Active'')] resp
            # rest, s')))"
proof (intro conjI impI)
  assume "dcim_devices_get nb [(''name'', JStr n), (''location'', JId (loc_id loc))] s0
            = Inr None"
  then show "\<exists>out resp rest s'.
         create_device nb n loc dt r s0 =
           (out,
            Get Dcim_devices [(''name'', JStr n), (''location'', JId (loc_id loc))] Ok
            # Print (''[INFO] Creating new device '' @ quoted n @ ''...'')
            # Create Dcim_devices
                [(''name'', JStr n), (''device_type'', JId (dt_id dt)),
                 (''role'', JId (role_id r)), (''location'', JId (loc_id loc)),
                 (''status'', JStr ''Active'')] resp
            # rest, s')"
    unfolding create_device_resolver by (intro resolver_absent)
next
  assume h: "query_error pol Dcim_devices [(''name'', JStr n), (''location'', JId (loc_id loc))]
               = None
    \<and> (\<forall>d\<in>set (srv_devices s). dev_name d = n \<longrightarrow> loc_id (dev_location d) \<noteq> loc_id loc)"
  then have "dcim_devices_get (reference_api pol)
               [(''name'', JStr n), (''location'', JId (loc_id loc))] s = Inr None"
    by (simp add: reference_api_simps lookup_absent matches_simps)
  then show "\<exists>out resp rest s'.
         create_device (reference_api pol) n loc dt r s =
           (out,
            Get Dcim_devices [(''name'', JStr n), (''location'', JId (loc_id loc))] Ok
            # Print (''[INFO] Creating new device '' @ quoted n @ ''...'')
            # Create Dcim_devices
                [(''name'', JStr n), (''device_type'', JId (dt_id dt)),
                 (''role'', JId (role_id r)), (''location'', JId (loc_id loc)),
                 (''status'', JStr ''Active'')] resp
            # rest, s')"
    unfolding create_device_resolver by (intro resolver_absent)
next
  assume h: "query_error pol Dcim_devices [(''name'', JStr n), (''location'', JId (loc_id loc))]
               = None
      \<and> (\<forall>d\<in>set (srv_devices s). dev_name d = n \<longrightarrow> loc_id (dev_location d) \<noteq> loc_id loc)
      \<and> create_error pol Dcim_devices
           [(''name'', JStr n), (''device_type'', JId (dt_id dt)), (''role'', JId (role_id r)),
            (''location'', JId (loc_id loc)), (''status'', JStr ''Active'')] = None
      \<and> find (\<lambda>x. dt_id x = dt_id dt) (srv_device_types s) = Some dt
      \<and> find (\<lambda>x. role_id x = role_id r) (srv_roles s) = Some r
      \<and> find (\<lambda>x. loc_id x = loc_id loc) (srv_locations s) = Some loc"
  then have absent: "dcim_devices_get (reference_api pol)
               [(''name'', JStr n), (''location'', JId (loc_id loc))] s = Inr None"
    by (simp add: reference_api_simps lookup_absent matches_simps)
  from h have stored: "dcim_devices_create (reference_api pol)
            [(''name'', JStr n), (''device_type'', JId (dt_id dt)), (''role'', JId (role_id r)),
             (''location'', JId (loc_id loc)), (''status'', JStr ''Active'')] s =
          (Inr \<lparr>dev_id = srv_next_id s, dev_name = n, dev_device_type = dt, dev_role = r,
                 dev_location = loc, dev_status = ''Active''\<rparr>,
           s\<lparr>srv_devices := srv_devices s @
              [\<lparr>dev_id = srv_next_id s, dev_name = n, dev_device_type = dt, dev_role = r,
                dev_location = loc, dev_status = ''Active''\<rparr>],
           srv_next_id := Suc (srv_next_id s)\<rparr>)"
    by (simp add: reference_api_simps store_def new_device_def by_id_def str_field_def
          id_field_def)
  show "create_device (reference_api pol) n loc dt r s =
        (Return \<lparr>dev_id = srv_next_id s, dev_name = n, dev_device_type = dt, dev_role = r,
                 dev_location = loc, dev_status = ''Active''\<rparr>,
         [Get Dcim_devices [(''name'', JStr n), (''location'', JId (loc_id loc))] Ok,
          Print (''[INFO] Creating new device '' @ quoted n @ ''...''),
          Create Dcim_devices
            [(''name'', JStr n), (''device_type'', JId (dt_id dt)),
             (''role'', JId (role_id r)), (''location'', JId (loc_id loc)),
             (''status'', JStr ''Active'')] Ok],
         s\<lparr>srv_devices := srv_devices s @
              [\<lparr>dev_id = srv_next_id s, dev_name = n, dev_device_type = dt, dev_role = r,
                dev_location = loc, dev_status = ''Active''\<rparr>],
           srv_next_id := Suc (srv_next_id s)\<rparr>)"
    using absent stored by (simp add: create_device_resolver resolver_created)
next
  assume "dcim_devices_get nb [(''name'', JStr n), (''location'', JId (loc_id loc))] s0
            = Inr (Some d)"
  then show "create_device nb n loc dt r s0 =
        (Return d,
         [Get Dcim_devices [(''name'', JStr n), (''location'', JId (loc_id loc))] Ok,
          Print (''[WARNING] Device '' @ quoted n @ '' already exists at location ''
                 @ quoted (loc_name loc) @ ''.'')], s0)"
    by (simp add: create_device_resolver resolver_found)
qed

theorem device_lookup_is_by_name_and_location_witness:
  "create_device (reference_api permissive) ''myswitch001'' branch c9300 access_switch two_sites =
     (Return \<lparr>dev_id = 7, dev_name = ''myswitch001'', dev_device_type = c9300,
              dev_role = access_switch, dev_location = branch, dev_status = ''Active''\<rparr>,
      [Get Dcim_devices [(''name'', JStr ''myswitch001''), (''location'', JId 6)] Ok,
       Print ''[INFO] Creating new device 'myswitch001'...'',
       Create Dcim_devices
         [(''name'', JStr ''myswitch001''), (''device_type'', JId 3), (''role'', JId 4),
          (''location'', JId 6), (''status'', JStr ''Active'')] Ok],
      two_sites\<lparr>srv_devices :=
                   [myswitch001,
                    \<lparr>dev_id = 7, dev_name = ''myswitch001'', dev_device_type = c9300,
                     dev_role = access_switch, dev_location = branch,
                     dev_status = ''Active''\<rparr>],
                 srv_next_id := 8\<rparr>)
   \<and> create_device (reference_api permissive) ''myswitch001'' my_campus_location c9300
        access_switch two_sites =
     (Return myswitch001,
      [Get Dcim_devices [(''name'', JStr ''myswitch001''), (''location'', JId 1)] Ok,
       Print ''[WARNING] Device 'myswitch001' already exists at location 'MyCampusLocation'.''],
      two_sites)"
proof -
  let ?nb = "reference_api permissive"
  have elsewhere:
    "query_error permissive Dcim_devices
       [(''name'', JStr ''myswitch001''), (''location'', JId (loc_id branch))] = None
     \<and> (\<forall>d\<in>set (srv_devices two_sites).
           dev_name d = ''myswitch001'' \<longrightarrow> loc_id (dev_location d) \<noteq> loc_id branch)"
    by (simp add: example_defs)
  have accepted:
    "query_error permissive Dcim_devices
       [(''name'', JStr ''myswitch001''), (''location'', JId (loc_id branch))] = None
     \<and> (\<forall>d\<in>set (srv_devices two_sites).
           dev_name d = ''myswitch001'' \<longrightarrow> loc_id (dev_location d) \<noteq> loc_id branch)
     \<and> create_error permissive Dcim_devices
          [(''name'', JStr ''myswitch001''), (''device_type'', JId (dt_id c9300)),
           (''role'', JId (role_id access_switch)), (''location'', JId (loc_id branch)),
           (''status'', JStr ''Active'')] = None
     \<and> find (\<lambda>x. dt_id x = dt_id c9300) (srv_device_types two_sites) = Some c9300
     \<and> find (\<lambda>x. role_id x = role_id access_switch) (srv_roles two_sites) = Some access_switch
     \<and> find (\<lambda>x. loc_id x = loc_id branch) (srv_locations two_sites) = Some branch"
    by (simp add: example_defs)
  have here:
    "dcim_devices_get ?nb
       [(''name'', JStr ''myswitch001''), (''location'', JId (loc_id my_campus_location))]
       two_sites = Inr (Some myswitch001)"
    by (simp add: reference_api_simps reference_defs example_defs)
  note inst = device_lookup_is_by_name_and_location
         [where pol = permissive and n = "''myswitch001''" and s = two_sites and dt = c9300
            and r = access_switch and nb = ?nb and s0 = two_sites]
  note c1 = inst [where loc = branch, THEN conjunct1, THEN mp, OF elsewhere]
  note c2 = inst [where loc = branch, THEN conjunct2, THEN conjunct1, THEN mp, OF accepted]
  have not_there:
    "dcim_devices_get ?nb
       [(''name'', JStr ''myswitch001''), (''location'', JId (loc_id branch))] two_sites
     = Inr None"
    by (simp add: reference_api_simps reference_defs example_defs)
  note c3 = inst [where loc = my_campus_location, THEN conjunct2, THEN conjunct2,
                  THEN conjunct1, THEN mp, OF here]
  note c4 = inst [where loc = branch, THEN conjunct2, THEN conjunct2, THEN conjunct2,
                  THEN mp, OF not_there]
  show ?thesis
    using c1 c2 c3 c4
    by (simp add: quoted_def example_defs)
qed

section \<open>The pipeline\<close>

text \<open>
  Claim C3. In every run of \<open>main\<close>, if a create call fails with a
  \<^verbatim>\<open>RequestError\<close>, the outcome is exit status 1 and the events end with that call
  followed by the error line, which carries the message of the error: nothing of a later
  stage is attempted.
\<close>

theorem failed_create_ends_the_run:
  assumes run: "main environ pynautobot_api s = (out, tr, s')"
    and failed: "Create ep p (Raised (RequestError e)) \<in> set tr"
  shows "out = SysExit 1
         \<and> (\<exists>pre what.
               tr = pre @ [Create ep p (Raised (RequestError e)),
                           Print (''[ERROR] Failed to create '' @ what @ '': '' @ e)])"
proof (cases "falsy (environ ''NAUTOBOT_API_URL'') \<or> falsy (environ ''NAUTOBOT_API_TOKEN'')")
  case True
  with run have "tr = [Print ''[ERROR] Missing NAUTOBOT_API_URL or NAUTOBOT_API_TOKEN environment variable.'']"
    by (simp add: main_def)
  with failed show ?thesis
    by simp
next
  case False
  let ?url = "the (environ ''NAUTOBOT_API_URL'')"
  let ?token = "the (environ ''NAUTOBOT_API_TOKEN'')"
  obtain r t s1 where p: "pipeline (pynautobot_api ?url ?token) s = (r, t, s1)"
    by (cases "pipeline (pynautobot_api ?url ?token) s") auto
  with run False have out: "out = r" and tr: "tr = ApiInit ?url ?token # t"
    by (simp_all add: main_def)
  from failed tr have "Create ep p (Raised (RequestError e)) \<in> set t"
    by simp
  moreover have "stops_at_failed_create (r, t, s1)"
    using pipeline_stops [of "pynautobot_api ?url ?token" s] p by simp
  ultimately obtain pre what where
    r: "r = SysExit 1"
    and t: "t = pre @ [Create ep p (Raised (RequestError e)), Print (failure_line what e)]"
    unfolding stops_at_failed_create_def by blast
  have "tr = (ApiInit ?url ?token # pre)
               @ [Create ep p (Raised (RequestError e)),
                  Print (''[ERROR] Failed to create '' @ what @ '': '' @ e)]"
    using tr t by (simp add: failure_line_def)
  with out r show ?thesis
    by blast
qed

theorem failed_create_ends_the_run_witness:
  "fst (main configured (\<lambda>url token. reference_api no_new_roles) fresh_server) = SysExit 1
   \<and> (\<exists>pre what.
         fst (snd (main configured (\<lambda>url token. reference_api no_new_roles) fresh_server)) =
           pre @ [Create Extras_roles
                    [(''name'', JStr ''Access Switch''),
                     (''description'', JStr ''Device role for Access Switch''),
                     (''content_types'', JList [''dcim.device''])]
                    (Raised (RequestError ''400 Bad Request'')),
                  Print (''[ERROR] Failed to create '' @ what @ '': 400 Bad Request'')])"
proof -
  have "Create Extras_roles
          [(''name'', JStr ''Access Switch''),
           (''description'', JStr ''Device role for Access Switch''),
           (''content_types'', JList [''dcim.device''])]
          (Raised (RequestError ''400 Bad Request''))
        \<in> set
            [ApiInit ''https://nautobot.example'' ''secret'',
       Get Dcim_location_types [(''name'', JStr ''Campus'')] Ok,
       Print ''[INFO] Creating location type 'Campus'...'',
       Create Dcim_location_types
         [(''name'', JStr ''Campus''), (''description'', JStr ''Created by script for Campus''),
          (''content_types'', JList [''dcim.device''])] Ok,
       Get Dcim_locations [(''name'', JStr ''MyCampusLocation'')] Ok,
       Print ''[INFO] Creating location 'MyCampusLocation' with type 'Campus'...'',
       Create Dcim_locations
         [(''name'', JStr ''MyCampusLocation''), (''location_type'', JId 0),
          (''status'', JStr ''Active'')] Ok,
       Get Dcim_manufacturers [(''name'', JStr ''Cisco'')] Ok,
       Print ''[INFO] Creating manufacturer 'Cisco'...'',
       Create Dcim_manufacturers [(''name'', JStr ''Cisco'')] Ok,
       Get Dcim_device_types [(''model'', JStr ''C9300-48P''), (''manufacturer'', JId 2)] Ok,
       Print ''[INFO] Creating device type 'C9300-48P' for manufacturer 'Cisco'...'',
       Create Dcim_device_types
         [(''model'', JStr ''C9300-48P''), (''manufacturer'', JId 2)] Ok,
       Get Extras_roles [(''name'', JStr ''Access Switch'')] Ok,
       Print ''[INFO] Creating role 'Access Switch' for devices...'',
       Create Extras_roles
         [(''name'', JStr ''Access Switch''),
          (''description'', JStr ''Device role for Access Switch''),
          (''content_types'', JList [''dcim.device''])]
         (Raised (RequestError ''400 Bad Request'')),
       Print ''[ERROR] Failed to create role 'Access Switch': 400 Bad Request'']"
    by simp
  from failed_create_ends_the_run [OF refused_role_run this]
  show ?thesis
    by (simp add: refused_role_run)
qed

text \<open>
  Claim C6. For any client: when each of the six lookups finds nothing and each create
  succeeds, a run of \<open>main\<close> issues six creates in the order location type, location,
  manufacturer, device type, role, device, each after its lookup; the location is created
  with the identifier of the location type just created, the device type with that of the
  manufacturer, the device with those of the device type, role and location; the summary
  is that of the device the last create returned. On a well-formed reference server that
  accepts every request and holds no location type Campus, no location MyCampusLocation,
  no manufacturer Cisco, no device type C9300-48P, no role Access Switch and no device
  myswitch001, the run is that run, and the summary names myswitch001, MyCampusLocation,
  Access Switch, C9300-48P and Active.
\<close>

theorem fresh_run_creates_six_in_order:
  "(environ ''NAUTOBOT_API_URL'' = Some url
    \<and> url \<noteq> ''''
    \<and> environ ''NAUTOBOT_API_TOKEN'' = Some token
    \<and> token \<noteq> ''''
    \<and> dcim_location_types_get (api url token) [(''name'', JStr ''Campus'')] s = Inr None
    \<and> dcim_location_types_create (api url token)
        [(''name'', JStr ''Campus''), (''description'', JStr ''Created by script for Campus''),
         (''content_types'', JList [''dcim.device''])] s = (Inr lt, s1)
    \<and> dcim_locations_get (api url token) [(''name'', JStr ''MyCampusLocation'')] s1 = Inr None
    \<and> dcim_locations_create (api url token)
        [(''name'', JStr ''MyCampusLocation''), (''location_type'', JId (lt_id lt)),
         (''status'', JStr ''Active'')] s1 = (Inr loc, s2)
    \<and> dcim_manufacturers_get (api url token) [(''name'', JStr ''Cisco'')] s2 = Inr None
    \<and> dcim_manufacturers_create (api url token) [(''name'', JStr ''Cisco'')] s2 = (Inr mf, s3)
    \<and> dcim_device_types_get (api url token)
        [(''model'', JStr ''C9300-48P''), (''manufacturer'', JId (mf_id mf))] s3 = Inr None
    \<and> dcim_device_types_create (api url token)
        [(''model'', JStr ''C9300-48P''), (''manufacturer'', JId (mf_id mf))] s3 = (Inr dt, s4)
    \<and> extras_roles_get (api url token) [(''name'', JStr ''Access Switch'')] s4 = Inr None
    \<and> extras_roles_create (api url token)
        [(''name'', JStr ''Access Switch''),
         (''description'', JStr ''Device role for Access Switch''),
         (''content_types'', JList [''dcim.device''])] s4 = (Inr r, s5)
    \<and> dcim_devices_get (api url token)
        [(''name'', JStr ''myswitch001''), (''location'', JId (loc_id loc))] s5 = Inr None
    \<and> dcim_devices_create (api url token)
        [(''name'', JStr ''myswitch001''), (''device_type'', JId (dt_id dt)),
         (''role'', JId (role_id r)), (''location'', JId (loc_id loc)),
         (''status'', JStr ''Active'')] s5 = (Inr d, s6)
    \<longrightarrow>
      main environ api s =
      (Return (),
       [ApiInit url token,
        Get Dcim_location_types [(''name'', JStr ''Campus'')] Ok,
        Print ''[INFO] Creating location type 'Campus'...'',
        Create Dcim_location_types
          [(''name'', JStr ''Campus''), (''description'', JStr ''Created by script for Campus''),
           (''content_types'', JList [''dcim.device''])] Ok,
        Get Dcim_locations [(''name'', JStr ''MyCampusLocation'')] Ok,
        Print (''[INFO] Creating location 'MyCampusLocation' with type ''
               @ quoted (lt_name lt) @ ''...''),
        Create Dcim_locations
          [(''name'', JStr ''MyCampusLocation''), (''location_type'', JId (lt_id lt)),
           (''status'', JStr ''Active'')] Ok,
        Get Dcim_manufacturers [(''name'', JStr ''Cisco'')] Ok,
        Print ''[INFO] Creating manufacturer 'Cisco'...'',
        Create Dcim_manufacturers [(''name'', JStr ''Cisco'')] Ok,
        Get Dcim_device_types
          [(''model'', JStr ''C9300-48P''), (''manufacturer'', JId (mf_id mf))] Ok,
        Print (''[INFO] Creating device type 'C9300-48P' for manufacturer ''
               @ quoted (mf_name mf) @ ''...''),
        Create Dcim_device_types
          [(''model'', JStr ''C9300-48P''), (''manufacturer'', JId (mf_id mf))] Ok,
        Get Extras_roles [(''name'', JStr ''Access Switch'')] Ok,
        Print ''[INFO] Creating role 'Access Switch' for devices...'',
        Create Extras_roles
          [(''name'', JStr ''Access Switch''),
           (''description'', JStr ''Device role for Access Switch''),
           (''content_types'', JList [''dcim.device''])] Ok,
        Get Dcim_devices
          [(''name'', JStr ''myswitch001''), (''location'', JId (loc_id loc))] Ok,
        Print ''[INFO] Creating new device 'myswitch001'...'',
        Create Dcim_devices
          [(''name'', JStr ''myswitch001''), (''device_type'', JId (dt_id dt)),
           (''role'', JId (role_id r)), (''location'', JId (loc_id loc)),
           (''status'', JStr ''Active'')] Ok,
        Print ''[SUCCESS] Device created or retrieved successfully:'',
        Print (''  Name:     '' @ dev_name d),
        Print (''  Location: '' @ loc_name (dev_location d)),
        Print (''  Role:     '' @ role_name (dev_role d)),
        Print (''  Type:     '' @ dt_model (dev_device_type d)),
        Print (''  Status:   '' @ dev_status d)],
       s6))
   \<and>
  (environ0 ''NAUTOBOT_API_URL'' = Some url0
    \<and> url0 \<noteq> ''''
    \<and> environ0 ''NAUTOBOT_API_TOKEN'' = Some token0
    \<and> token0 \<noteq> ''''
    \<and> well_formed srv
    \<and> (\<forall>r\<in>set (srv_location_types srv). lt_name r \<noteq> ''Campus'')
    \<and> (\<forall>r\<in>set (srv_locations srv). loc_name r \<noteq> ''MyCampusLocation'')
    \<and> (\<forall>r\<in>set (srv_manufacturers srv). mf_name r \<noteq> ''Cisco'')
    \<and> (\<forall>r\<in>set (srv_device_types srv). dt_model r \<noteq> ''C9300-48P'')
    \<and> (\<forall>r\<in>set (srv_roles srv). role_name r \<noteq> ''Access Switch'')
    \<and> (\<forall>r\<in>set (srv_devices srv). dev_name r \<noteq> ''myswitch001'')
    \<and> n = srv_next_id srv
    \<longrightarrow>
      main environ0 (\<lambda>url token. reference_api permissive) srv =
      (Return (),
       [ApiInit url0 token0,
        Get Dcim_location_types [(''name'', JStr ''Campus'')] Ok,
        Print ''[INFO] Creating location type 'Campus'...'',
        Create Dcim_location_types
          [(''name'', JStr ''Campus''), (''description'', JStr ''Created by script for Campus''),
           (''content_types'', JList [''dcim.device''])] Ok,
        Get Dcim_locations [(''name'', JStr ''MyCampusLocation'')] Ok,
        Print ''[INFO] Creating location 'MyCampusLocation' with type 'Campus'...'',
        Create Dcim_locations
          [(''name'', JStr ''MyCampusLocation''), (''location_type'', JId n),
           (''status'', JStr ''Active'')] Ok,
        Get Dcim_manufacturers [(''name'', JStr ''Cisco'')] Ok,
        Print ''[INFO] Creating manufacturer 'Cisco'...'',
        Create Dcim_manufacturers [(''name'', JStr ''Cisco'')] Ok,
        Get Dcim_device_types
          [(''model'', JStr ''C9300-48P''), (''manufacturer'', JId (n + 2))] Ok,
        Print ''[INFO] Creating device type 'C9300-48P' for manufacturer 'Cisco'...'',
        Create Dcim_device_types
          [(''model'', JStr ''C9300-48P''), (''manufacturer'', JId (n + 2))] Ok,
        Get Extras_roles [(''name'', JStr ''Access Switch'')] Ok,
        Print ''[INFO] Creating role 'Access Switch' for devices...'',
        Create Extras_roles
          [(''name'', JStr ''Access Switch''),
           (''description'', JStr ''Device role for Access Switch''),
           (''content_types'', JList [''dcim.device''])] Ok,
        Get Dcim_devices [(''name'', JStr ''myswitch001''), (''location'', JId (n + 1))] Ok,
        Print ''[INFO] Creating new device 'myswitch001'...'',
        Create Dcim_devices
          [(''name'', JStr ''myswitch001''), (''device_type'', JId (n + 3)),
           (''role'', JId (n + 4)), (''location'', JId (n + 1)), (''status'', JStr ''Active'')] Ok,
        Print ''[SUCCESS] Device created or retrieved successfully:'',
        Print ''  Name:     myswitch001'',
        Print ''  Location: MyCampusLocation'',
        Print ''  Role:     Access Switch'',
        Print ''  Type:     C9300-48P'',
        Print ''  Status:   Active''],
       srv\<lparr>srv_location_types := srv_location_types srv @
            [\<lparr>lt_id = n, lt_name = ''Campus'',
              lt_description = ''Created by script for Campus'',
              lt_content_types = [''dcim.device'']\<rparr>],
         srv_locations := srv_locations srv @
            [\<lparr>loc_id = n + 1, loc_name = ''MyCampusLocation'', loc_location_type = n,
              loc_status = ''Active''\<rparr>],
         srv_manufacturers := srv_manufacturers srv @ [\<lparr>mf_id = n + 2, mf_name = ''Cisco''\<rparr>],
         srv_device_types := srv_device_types srv @
            [\<lparr>dt_id = n + 3, dt_model = ''C9300-48P'', dt_manufacturer = n + 2\<rparr>],
         srv_roles := srv_roles srv @
            [\<lparr>role_id = n + 4, role_name = ''Access Switch'',
              role_description = ''Device role for Access Switch'',
              role_content_types = [''dcim.device'']\<rparr>],
         srv_devices := srv_devices srv @
            [\<lparr>dev_id = n + 5, dev_name = ''myswitch001'',
              dev_device_type =
                \<lparr>dt_id = n + 3, dt_model = ''C9300-48P'', dt_manufacturer = n + 2\<rparr>,
              dev_role =
                \<lparr>role_id = n + 4, role_name = ''Access Switch'',
                 role_description = ''Device role for Access Switch'',
                 role_content_types = [''dcim.device'']\<rparr>,
              dev_location =
                \<lparr>loc_id = n + 1, loc_name = ''MyCampusLocation'', loc_location_type = n,
                 loc_status = ''Active''\<rparr>,
              dev_status = ''Active''\<rparr>],
         srv_next_id := n + 6\<rparr>))"
  by (intro conjI impI; elim conjE)
     (rule main_all_created [OF _ _ _ _ refl], assumption+,
      rule reference_fresh_run, assumption+)

theorem fresh_run_creates_six_in_order_witness:
  "main configured (\<lambda>url token. reference_api permissive) fresh_server =
     (Return (),
      [ApiInit ''https://nautobot.example'' ''secret'',
       Get Dcim_location_types [(''name'', JStr ''Campus'')] Ok,
       Print ''[INFO] Creating location type 'Campus'...'',
       Create Dcim_location_types
         [(''name'', JStr ''Campus''), (''description'', JStr ''Created by script for Campus''),
          (''content_types'', JList [''dcim.device''])] Ok,
       Get Dcim_locations [(''name'', JStr ''MyCampusLocation'')] Ok,
       Print ''[INFO] Creating location 'MyCampusLocation' with type 'Campus'...'',
       Create Dcim_locations
         [(''name'', JStr ''MyCampusLocation''), (''location_type'', JId 0),
          (''status'', JStr ''Active'')] Ok,
       Get Dcim_manufacturers [(''name'', JStr ''Cisco'')] Ok,
       Print ''[INFO] Creating manufacturer 'Cisco'...'',
       Create Dcim_manufacturers [(''name'', JStr ''Cisco'')] Ok,
       Get Dcim_device_types [(''model'', JStr ''C9300-48P''), (''manufacturer'', JId 2)] Ok,
       Print ''[INFO] Creating device type 'C9300-48P' for manufacturer 'Cisco'...'',
       Create Dcim_device_types
         [(''model'', JStr ''C9300-48P''), (''manufacturer'', JId 2)] Ok,
       Get Extras_roles [(''name'', JStr ''Access Switch'')] Ok,
       Print ''[INFO] Creating role 'Access Switch' for devices...'',
       Create Extras_roles
         [(''name'', JStr ''Access Switch''),
          (''description'', JStr ''Device role for Access Switch''),
          (''content_types'', JList [''dcim.device''])] Ok,
       Get Dcim_devices [(''name'', JStr ''myswitch001''), (''location'', JId 1)] Ok,
       Print ''[INFO] Creating new device 'myswitch001'...'',
       Create Dcim_devices
         [(''name'', JStr ''myswitch001''), (''device_type'', JId 3), (''role'', JId 4),
          (''location'', JId 1), (''status'', JStr ''Active'')] Ok,
       Print ''[SUCCESS] Device created or retrieved successfully:'',
       Print ''  Name:     myswitch001'',
       Print ''  Location: MyCampusLocation'',
       Print ''  Role:     Access Switch'',
       Print ''  Type:     C9300-48P'',
       Print ''  Status:   Active''],
      provisioned)"
proof -
  let ?nb = "reference_api permissive"
  let ?s1 = "fresh_server\<lparr>srv_location_types := [campus], srv_next_id := 1\<rparr>"
  let ?s2 = "fresh_server\<lparr>srv_location_types := [campus],
                           srv_locations := [my_campus_location], srv_next_id := 2\<rparr>"
  let ?s3 = "fresh_server\<lparr>srv_location_types := [campus],
                           srv_locations := [my_campus_location],
                           srv_manufacturers := [cisco], srv_next_id := 3\<rparr>"
  let ?s4 = "fresh_server\<lparr>srv_location_types := [campus],
                           srv_locations := [my_campus_location],
                           srv_manufacturers := [cisco], srv_device_types := [c9300],
                           srv_next_id := 4\<rparr>"
  let ?s5 = "fresh_server\<lparr>srv_location_types := [campus],
                           srv_locations := [my_campus_location],
                           srv_manufacturers := [cisco], srv_device_types := [c9300],
                           srv_roles := [access_switch], srv_next_id := 5\<rparr>"
  have step_by_step:
    "configured ''NAUTOBOT_API_URL'' = Some ''https://nautobot.example''
     \<and> ''https://nautobot.example'' \<noteq> ''''
     \<and> configured ''NAUTOBOT_API_TOKEN'' = Some ''secret''
     \<and> ''secret'' \<noteq> ''''
     \<and> dcim_location_types_get ?nb [(''name'', JStr ''Campus'')] fresh_server = Inr None
     \<and> dcim_location_types_create ?nb
             [(''name'', JStr ''Campus''), (''description'', JStr ''Created by script for Campus''),
              (''content_types'', JList [''dcim.device''])] fresh_server = (Inr campus, ?s1)
     \<and> dcim_locations_get ?nb [(''name'', JStr ''MyCampusLocation'')] ?s1 = Inr None
     \<and> dcim_locations_create ?nb
             [(''name'', JStr ''MyCampusLocation''), (''location_type'', JId (lt_id campus)),
              (''status'', JStr ''Active'')] ?s1 = (Inr my_campus_location, ?s2)
     \<and> dcim_manufacturers_get ?nb [(''name'', JStr ''Cisco'')] ?s2 = Inr None
     \<and> dcim_manufacturers_create ?nb [(''name'', JStr ''Cisco'')] ?s2 = (Inr cisco, ?s3)
     \<and> dcim_device_types_get ?nb
             [(''model'', JStr ''C9300-48P''), (''manufacturer'', JId (mf_id cisco))] ?s3 = Inr None
     \<and> dcim_device_types_create ?nb
             [(''model'', JStr ''C9300-48P''), (''manufacturer'', JId (mf_id cisco))] ?s3 = (Inr c9300, ?s4)
     \<and> extras_roles_get ?nb [(''name'', JStr ''Access Switch'')] ?s4 = Inr None
     \<and> extras_roles_create ?nb
             [(''name'', JStr ''Access Switch''),
              (''description'', JStr ''Device role for Access Switch''),
              (''content_types'', JList [''dcim.device''])] ?s4 = (Inr access_switch, ?s5)
     \<and> dcim_devices_get ?nb
             [(''name'', JStr ''myswitch001''), (''location'', JId (loc_id my_campus_location))] ?s5 = Inr None
     \<and> dcim_devices_create ?nb
             [(''name'', JStr ''myswitch001''), (''device_type'', JId (dt_id c9300)),
              (''role'', JId (role_id access_switch)), (''location'', JId (loc_id my_campus_location)),
              (''status'', JStr ''Active'')] ?s5 = (Inr myswitch001, provisioned)"
    by (simp add: reference_api_simps reference_defs example_defs)
  have nothing_there:
    "configured ''NAUTOBOT_API_URL'' = Some ''https://nautobot.example''
     \<and> ''https://nautobot.example'' \<noteq> ''''
     \<and> configured ''NAUTOBOT_API_TOKEN'' = Some ''secret''
     \<and> ''secret'' \<noteq> ''''
     \<and> well_formed fresh_server
     \<and> (\<forall>r\<in>set (srv_location_types fresh_server). lt_name r \<noteq> ''Campus'')
     \<and> (\<forall>r\<in>set (srv_locations fresh_server). loc_name r \<noteq> ''MyCampusLocation'')
     \<and> (\<forall>r\<in>set (srv_manufacturers fresh_server). mf_name r \<noteq> ''Cisco'')
     \<and> (\<forall>r\<in>set (srv_device_types fresh_server). dt_model r \<noteq> ''C9300-48P'')
     \<and> (\<forall>r\<in>set (srv_roles fresh_server). role_name r \<noteq> ''Access Switch'')
     \<and> (\<forall>r\<in>set (srv_devices fresh_server). dev_name r \<noteq> ''myswitch001'')
     \<and> 0 = srv_next_id fresh_server"
    by (simp add: example_defs well_formed_def)
  note any_client = fresh_run_creates_six_in_order
         [where api = "\<lambda>url token. ?nb", THEN conjunct1, THEN mp, OF step_by_step]
  note reference = fresh_run_creates_six_in_order
         [THEN conjunct2, THEN mp, OF nothing_there]
  from any_client reference show ?thesis
    by (simp add: quoted_def campus_def my_campus_location_def cisco_def c9300_def
          access_switch_def myswitch001_def)
qed

text \<open>
  Claim C8. For any client, the remote state a run of \<open>main\<close> leaves is the state its
  create calls lead to, one after the other: nothing else the run does changes it, on
  the way out of a failed run no more than elsewhere. On the reference
  server, however a run ends, every collection is at the end what it was at the start
  followed by the records the run created in it, one for each successful create: what
  earlier stages created is neither deleted nor changed on the way out.
\<close>

theorem created_entities_stay:
  "(main environ pynautobot_api s = (out, tr, s')
      \<and> environ ''NAUTOBOT_API_URL'' = Some url
      \<and> environ ''NAUTOBOT_API_TOKEN'' = Some token \<longrightarrow>
      s' = replay (pynautobot_api url token) tr s)
   \<and> (main environ0 (\<lambda>url token. reference_api pol) s0 = (out0, tr0, s0') \<longrightarrow>
      (\<exists>new. contents s0' ep = contents s0 ep @ new \<and> length new = created ep tr0))"
proof (intro conjI impI)
  assume "main environ pynautobot_api s = (out, tr, s')
      \<and> environ ''NAUTOBOT_API_URL'' = Some url
      \<and> environ ''NAUTOBOT_API_TOKEN'' = Some token"
  then show "s' = replay (pynautobot_api url token) tr s"
    using main_replays [of environ pynautobot_api s out tr s'] by simp
next
  assume "main environ0 (\<lambda>url token. reference_api pol) s0 = (out0, tr0, s0')"
  then show "\<exists>new. contents s0' ep = contents s0 ep @ new \<and> length new = created ep tr0"
    by (rule main_keeps)
qed

theorem created_entities_stay_witness:
  "fst (main configured (\<lambda>url token. reference_api no_new_roles) fresh_server) = SysExit 1
   \<and> snd (snd (main configured (\<lambda>url token. reference_api no_new_roles) fresh_server))
       = replay (reference_api no_new_roles)
           (fst (snd (main configured (\<lambda>url token. reference_api no_new_roles) fresh_server)))
           fresh_server
   \<and> contents (snd (snd (main configured (\<lambda>url token. reference_api no_new_roles)
                          fresh_server))) Dcim_device_types
       = contents fresh_server Dcim_device_types @ [A_device_type c9300]
   \<and> created Dcim_device_types
        (fst (snd (main configured (\<lambda>url token. reference_api no_new_roles) fresh_server)))
       = 1
   \<and> contents (snd (snd (main configured (\<lambda>url token. reference_api no_new_roles)
                          fresh_server))) Extras_roles
       = contents fresh_server Extras_roles
   \<and> created Extras_roles
        (fst (snd (main configured (\<lambda>url token. reference_api no_new_roles) fresh_server)))
       = 0"
proof -
  let ?api = "\<lambda>url token. reference_api no_new_roles"
  have empty: "srv_device_types fresh_server = []" "srv_roles fresh_server = []"
    by (simp_all add: fresh_server_def)
  have run: "main configured ?api fresh_server =
               (fst (main configured ?api fresh_server),
                fst (snd (main configured ?api fresh_server)),
                snd (snd (main configured ?api fresh_server)))"
    by simp
  have configured:
    "main configured ?api fresh_server =
       (fst (main configured ?api fresh_server),
        fst (snd (main configured ?api fresh_server)),
        snd (snd (main configured ?api fresh_server)))
     \<and> configured ''NAUTOBOT_API_URL'' = Some ''https://nautobot.example''
     \<and> configured ''NAUTOBOT_API_TOKEN'' = Some ''secret''"
    by (simp add: configured_def)
  note replayed = created_entities_stay [THEN conjunct1, THEN mp, OF configured]
  note types = created_entities_stay
                 [where ep = Dcim_device_types, THEN conjunct2, THEN mp, OF run]
  note roles = created_entities_stay [where ep = Extras_roles, THEN conjunct2, THEN mp, OF run]
  from replayed have
    "snd (snd (main configured ?api fresh_server))
       = replay (reference_api no_new_roles) (fst (snd (main configured ?api fresh_server)))
           fresh_server"
    by simp
  moreover from types roles have
    "fst (main configured ?api fresh_server) = SysExit 1
     \<and> contents (snd (snd (main configured ?api fresh_server))) Dcim_device_types
         = contents fresh_server Dcim_device_types @ [A_device_type c9300]
     \<and> created Dcim_device_types (fst (snd (main configured ?api fresh_server))) = 1
     \<and> contents (snd (snd (main configured ?api fresh_server))) Extras_roles
         = contents fresh_server Extras_roles
     \<and> created Extras_roles (fst (snd (main configured ?api fresh_server))) = 0"
    by (simp add: refused_role_run empty)
  ultimately show ?thesis
    by blast
qed

end
